theory Spec2Isabelle
  imports Main "HOL-Library.Word"
begin

section \<open>Go values\<close>

text \<open>
  Go's \<^verbatim>\<open>int64\<close> and \<^verbatim>\<open>int32\<close> are words; \<^verbatim>\<open>int\<close> is taken at its 64-bit
  width (the size on the platforms the service is built for). Arithmetic wraps around,
  comparisons are the signed ones. A \<^verbatim>\<open>time.Time\<close> is an instant on the integer line.
\<close>

type_synonym int64 = "64 word"
type_synonym int32 = "32 word"
type_synonym go_int = "64 word"
type_synonym time = int

text \<open>
  An \<^verbatim>\<open>error\<close> value: an error made from a message, the variable
  \<^verbatim>\<open>sql.ErrNoRows\<close> of \<^verbatim>\<open>database/sql\<close>, or an error wrapped by
  \<^verbatim>\<open>fmt.Errorf("...: %w", err)\<close>. An error made elsewhere with the message of
  \<^verbatim>\<open>sql.ErrNoRows\<close> is another value than \<^verbatim>\<open>sql.ErrNoRows\<close>.
\<close>

datatype error = Error string | ErrNoRows | Wrapped string error

subsection \<open>The verb \<^verbatim>\<open>%d\<close> of \<^verbatim>\<open>fmt.Sprintf\<close>\<close>

definition digit_char :: "nat \<Rightarrow> char" where
  "digit_char n = ''0123456789'' ! n"

fun itoa_nat :: "nat \<Rightarrow> string" where
  "itoa_nat n = (if n < 10 then [digit_char n] else itoa_nat (n div 10) @ [digit_char (n mod 10)])"

declare itoa_nat.simps [simp del]

definition fmt_d :: "int \<Rightarrow> string" where
  "fmt_d i = (if i < 0 then CHR ''-'' # itoa_nat (nat (- i)) else itoa_nat (nat i))"

text \<open>The characters a decimal numeral is written with.\<close>

definition digit :: "char \<Rightarrow> bool" where
  "digit c = (c \<in> set ''0123456789'')"

section \<open>Domain records\<close>

text \<open>\<^verbatim>\<open>domain.User\<close>.\<close>

record user =
  user_ID :: int64
  Name :: string
  Email :: string
  Age :: "int32 option"
  CreatedAt :: time
  UpdatedAt :: time

text \<open>\<^verbatim>\<open>domain.Post\<close>, \<^verbatim>\<open>domain.Tag\<close>, \<^verbatim>\<open>domain.Comment\<close> and the joined records
  that embed them.\<close>

record post =
  post_ID :: int64
  UserID :: int64
  CategoryID :: "int64 option"
  Title :: string
  Slug :: string
  Content :: string
  Excerpt :: "string option"
  Status :: string
  PublishedAt :: "time option"
  ViewCount :: int32
  LikeCount :: int32
  CommentCount :: int32
  IsFeatured :: bool
  post_CreatedAt :: time
  post_UpdatedAt :: time

record tag =
  tag_ID :: int64
  tag_Name :: string
  tag_Slug :: string
  tag_Description :: "string option"
  UsageCount :: int32
  tag_CreatedAt :: time
  tag_UpdatedAt :: time

record comment =
  comment_ID :: int64
  PostID :: int64
  comment_UserID :: int64
  ParentID :: "int64 option"
  comment_Content :: string
  comment_Status :: string
  comment_LikeCount :: int32
  IsEdited :: bool
  comment_CreatedAt :: time
  comment_UpdatedAt :: time

record comment_with_author = comment +
  comment_AuthorUsername :: string
  comment_AuthorDisplayName :: "string option"
  comment_AuthorAvatarURL :: "string option"

record post_with_details = post +
  AuthorUsername :: string
  AuthorDisplayName :: "string option"
  AuthorAvatarURL :: "string option"
  CategoryName :: "string option"
  CategorySlug :: "string option"
  Tags :: "tag list"
  LatestComments :: "comment_with_author list"

text \<open>\<^verbatim>\<open>domain.UserDetail\<close> and the records it is made of.\<close>

record user_profile =
  FirstName :: "string option"
  LastName :: "string option"
  DisplayName :: "string option"
  Bio :: "string option"
  AvatarURL :: "string option"
  BirthDate :: "string option"
  Gender :: "string option"
  CountryCode :: "string option"
  Timezone :: "string option"
  Language :: "string option"
  PhoneNumber :: "string option"
  WebsiteURL :: "string option"

record user_post =
  upost_ID :: int64
  upost_Title :: string
  upost_Slug :: string
  upost_Excerpt :: "string option"
  upost_Status :: string
  upost_PublishedAt :: "time option"
  upost_ViewCount :: go_int
  upost_LikeCount :: go_int
  upost_CommentCount :: go_int
  upost_IsFeatured :: bool
  upost_CreatedAt :: time

record user_comment =
  ucomment_ID :: int64
  ucomment_PostID :: int64
  PostTitle :: string
  ucomment_Content :: string
  ucomment_Status :: string
  ucomment_LikeCount :: go_int
  ucomment_CreatedAt :: time

record follow_stats =
  FollowerCount :: go_int
  FollowingCount :: go_int

record user_stats =
  PostCount :: go_int
  stats_CommentCount :: go_int
  TotalLikes :: go_int
  TotalViews :: go_int

record user_notification =
  notification_ID :: int64
  notification_Type :: string
  notification_Title :: string
  Message :: string
  LinkURL :: "string option"
  IsRead :: bool
  notification_CreatedAt :: time
  ReadAt :: "time option"

record user_detail =
  detail_ID :: int64
  Username :: string
  detail_Email :: string
  detail_Status :: string
  EmailVerified :: bool
  LastLoginAt :: "time option"
  detail_CreatedAt :: time
  detail_UpdatedAt :: time
  Profile :: "user_profile option"
  FollowStats :: follow_stats
  Stats :: user_stats
  RecentPosts :: "user_post list"
  RecentComments :: "user_comment list"
  UnreadNotifications :: "user_notification list"

section \<open>Repository interfaces\<close>

text \<open>
  \<^verbatim>\<open>domain.UserRepository\<close> and \<^verbatim>\<open>domain.PostRepository\<close>: one function per method,
  over the state \<open>'w\<close> the implementation works on. A method returns its Go results and
  the state it leaves. A pointer result is an option (\<open>None\<close> is \<^verbatim>\<open>nil\<close>); a method
  that writes through its \<^verbatim>\<open>*domain.User\<close> argument returns the record as it left it.
\<close>

record 'w user_repository =
  FindAll :: "'w \<Rightarrow> (error + user list) \<times> 'w"
  FindByID :: "int64 \<Rightarrow> 'w \<Rightarrow> (error + user option) \<times> 'w"
  Create :: "user \<Rightarrow> 'w \<Rightarrow> (error option \<times> user) \<times> 'w"
  Update :: "user \<Rightarrow> 'w \<Rightarrow> (error option \<times> user) \<times> 'w"
  Delete :: "int64 \<Rightarrow> 'w \<Rightarrow> error option \<times> 'w"

record 'w post_repository =
  FindAllWithDetails :: "go_int \<Rightarrow> go_int \<Rightarrow> 'w \<Rightarrow> (error + post_with_details list) \<times> 'w"
  FindByIDWithDetails :: "int64 \<Rightarrow> 'w \<Rightarrow> (error + post_with_details option) \<times> 'w"
  FindBySlugWithDetails :: "string \<Rightarrow> 'w \<Rightarrow> (error + post_with_details option) \<times> 'w"
  FindByCategoryWithDetails ::
    "string \<Rightarrow> go_int \<Rightarrow> go_int \<Rightarrow> 'w \<Rightarrow> (error + post_with_details list) \<times> 'w"
  FindByTagWithDetails ::
    "string \<Rightarrow> go_int \<Rightarrow> go_int \<Rightarrow> 'w \<Rightarrow> (error + post_with_details list) \<times> 'w"
  FindFeaturedWithDetails :: "go_int \<Rightarrow> 'w \<Rightarrow> (error + post_with_details list) \<times> 'w"
  GetTotalCount :: "'w \<Rightarrow> (error + int64) \<times> 'w"
  IncrementViewCount :: "int64 \<Rightarrow> 'w \<Rightarrow> error option \<times> 'w"

record 'w user_detail_repository =
  FindDetailByID :: "int64 \<Rightarrow> 'w \<Rightarrow> (error + user_detail option) \<times> 'w"
  FindDetailByUsername :: "string \<Rightarrow> 'w \<Rightarrow> (error + user_detail option) \<times> 'w"

section \<open>The post usecase\<close>

text \<open>
  A goroutine started by \<^verbatim>\<open>go func() { ... }()\<close> is returned to the caller of the
  model as a pending task: a state transformer that some later moment may run, or none.
  \<open>None\<close> is a panic of the goroutine.
\<close>

type_synonym 'w goroutine = "'w \<Rightarrow> 'w option"

definition GetPosts ::
  "'w post_repository \<Rightarrow> go_int \<Rightarrow> go_int \<Rightarrow> 'w \<Rightarrow> (error + post_with_details list \<times> int64) \<times> 'w"
where
  "GetPosts postRepo page pageSize w =
    (let page = (if page <s 1 then 1 else page);
         pageSize = (if pageSize <s 1 \<or> 100 <s pageSize then 20 else pageSize);
         offset = (page - 1) * pageSize;
         (res, w1) = FindAllWithDetails postRepo pageSize offset w
     in case res of
          Inl err \<Rightarrow> (Inl (Wrapped ''failed to get posts: '' err), w1)
        | Inr posts \<Rightarrow>
            (let (res2, w2) = GetTotalCount postRepo w1
             in case res2 of
                  Inl err \<Rightarrow> (Inl (Wrapped ''failed to get total count: '' err), w2)
                | Inr totalCount \<Rightarrow> (Inr (posts, totalCount), w2)))"

definition GetPostByID ::
  "'w post_repository \<Rightarrow> int64 \<Rightarrow> 'w \<Rightarrow>
     ((error + post_with_details option) \<times> 'w goroutine list) \<times> 'w"
where
  "GetPostByID postRepo postID w =
    (if postID \<le>s 0 then ((Inl (Error (''invalid post ID: '' @ fmt_d (sint postID))), []), w)
     else
       (let (res, w1) = FindByIDWithDetails postRepo postID w
        in case res of
             Inl err \<Rightarrow> ((Inl (Wrapped ''failed to get post: '' err), []), w1)
           | Inr post \<Rightarrow>
               ((Inr post, [\<lambda>v. Some (snd (IncrementViewCount postRepo postID v))]), w1)))"

definition GetPostBySlug ::
  "'w post_repository \<Rightarrow> string \<Rightarrow> 'w \<Rightarrow>
     ((error + post_with_details option) \<times> 'w goroutine list) \<times> 'w"
where
  "GetPostBySlug postRepo slug w =
    (if slug = [] then ((Inl (Error ''slug cannot be empty''), []), w)
     else
       (let (res, w1) = FindBySlugWithDetails postRepo slug w
        in case res of
             Inl err \<Rightarrow> ((Inl (Wrapped ''failed to get post: '' err), []), w1)
           | Inr post \<Rightarrow>
               ((Inr post,
                 [\<lambda>v. case post of
                         None \<Rightarrow> None
                       | Some p \<Rightarrow> Some (snd (IncrementViewCount postRepo (post_ID p) v))]), w1)))"

definition GetPostsByCategory ::
  "'w post_repository \<Rightarrow> string \<Rightarrow> go_int \<Rightarrow> go_int \<Rightarrow> 'w \<Rightarrow> (error + post_with_details list) \<times> 'w"
where
  "GetPostsByCategory postRepo categorySlug page pageSize w =
    (if categorySlug = [] then (Inl (Error ''category slug cannot be empty''), w)
     else
       (let page = (if page <s 1 then 1 else page);
            pageSize = (if pageSize <s 1 \<or> 100 <s pageSize then 20 else pageSize);
            offset = (page - 1) * pageSize;
            (res, w1) = FindByCategoryWithDetails postRepo categorySlug pageSize offset w
        in case res of
             Inl err \<Rightarrow> (Inl (Wrapped ''failed to get posts by category: '' err), w1)
           | Inr posts \<Rightarrow> (Inr posts, w1)))"

definition GetPostsByTag ::
  "'w post_repository \<Rightarrow> string \<Rightarrow> go_int \<Rightarrow> go_int \<Rightarrow> 'w \<Rightarrow> (error + post_with_details list) \<times> 'w"
where
  "GetPostsByTag postRepo tagSlug page pageSize w =
    (if tagSlug = [] then (Inl (Error ''tag slug cannot be empty''), w)
     else
       (let page = (if page <s 1 then 1 else page);
            pageSize = (if pageSize <s 1 \<or> 100 <s pageSize then 20 else pageSize);
            offset = (page - 1) * pageSize;
            (res, w1) = FindByTagWithDetails postRepo tagSlug pageSize offset w
        in case res of
             Inl err \<Rightarrow> (Inl (Wrapped ''failed to get posts by tag: '' err), w1)
           | Inr posts \<Rightarrow> (Inr posts, w1)))"

definition GetFeaturedPosts ::
  "'w post_repository \<Rightarrow> go_int \<Rightarrow> 'w \<Rightarrow> (error + post_with_details list) \<times> 'w"
where
  "GetFeaturedPosts postRepo limit w =
    (let limit = (if limit <s 1 \<or> 50 <s limit then 10 else limit);
         (res, w1) = FindFeaturedWithDetails postRepo limit w
     in case res of
          Inl err \<Rightarrow> (Inl (Wrapped ''failed to get featured posts: '' err), w1)
        | Inr posts \<Rightarrow> (Inr posts, w1))"

section \<open>The cache store\<close>

text \<open>
  The Redis server as the decorators see it through \<^verbatim>\<open>*redis.Client\<close>: the stored
  entries (key, payload and the instant the entry expires), the server's clock, the
  number of commands sent so far, and which of the commands fail (the network is not
  reliable: command number \<open>n\<close> fails when \<open>fails n\<close>). A failed command changes nothing.
\<close>

record redis_client =
  entries :: "(string \<times> string \<times> nat) list"
  now :: nat
  commands :: nat
  fails :: "nat \<Rightarrow> bool"

definition redis_Nil :: error where
  "redis_Nil = Error ''redis: nil''"

definition redis_failure :: error where
  "redis_failure = Error ''redis: connection failure''"

text \<open>The entry the server holds under a key: entries past their expiry are absent.\<close>

definition lookup :: "redis_client \<Rightarrow> string \<Rightarrow> string option" where
  "lookup c key =
    (case map_of (entries c) key of
       None \<Rightarrow> None
     | Some (payload, expiry) \<Rightarrow> if now c < expiry then Some payload else None)"

definition sent :: "redis_client \<Rightarrow> redis_client" where
  "sent c = c\<lparr>commands := commands c + 1\<rparr>"

text \<open>
  Key patterns of \<^verbatim>\<open>KEYS\<close>: \<^verbatim>\<open>*\<close> stands for any run of characters, \<^verbatim>\<open>?\<close> for one
  character, any other character for itself (the pattern the decorators use,
  \<^verbatim>\<open>posts:*\<close>, has neither brackets nor escapes).
\<close>

fun glob_match :: "string \<Rightarrow> string \<Rightarrow> bool" where
  "glob_match [] s = (s = [])"
| "glob_match (p # ps) [] = (p = CHR ''*'' \<and> glob_match ps [])"
| "glob_match (p # ps) (c # cs) =
    (if p = CHR ''*'' then glob_match ps (c # cs) \<or> glob_match (p # ps) cs
     else (p = CHR ''?'' \<or> p = c) \<and> glob_match ps cs)"

definition redis_Get :: "string \<Rightarrow> redis_client \<Rightarrow> (error + string) \<times> redis_client" where
  "redis_Get key c =
    (if fails c (commands c) then (Inl redis_failure, sent c)
     else case lookup c key of
            None \<Rightarrow> (Inl redis_Nil, sent c)
          | Some payload \<Rightarrow> (Inr payload, sent c))"

definition redis_Set ::
  "string \<Rightarrow> string \<Rightarrow> nat \<Rightarrow> redis_client \<Rightarrow> error option \<times> redis_client"
where
  "redis_Set key payload expiration c =
    (if fails c (commands c) then (Some redis_failure, sent c)
     else (None,
           sent (c\<lparr>entries :=
                    (key, payload, now c + expiration) # filter (\<lambda>e. fst e \<noteq> key) (entries c)\<rparr>)))"

definition redis_Del :: "string list \<Rightarrow> redis_client \<Rightarrow> (error + nat) \<times> redis_client" where
  "redis_Del keys c =
    (if fails c (commands c) then (Inl redis_failure, sent c)
     else (Inr (length (filter (\<lambda>k. lookup c k \<noteq> None) (remdups keys))),
           sent (c\<lparr>entries := filter (\<lambda>e. fst e \<notin> set keys) (entries c)\<rparr>)))"

definition redis_Keys :: "string \<Rightarrow> redis_client \<Rightarrow> (error + string list) \<times> redis_client" where
  "redis_Keys pattern c =
    (if fails c (commands c) then (Inl redis_failure, sent c)
     else (Inr (filter (\<lambda>k. lookup c k \<noteq> None \<and> glob_match pattern k)
                  (remdups (map fst (entries c)))),
           sent c))"

section \<open>The world of one server process\<close>

text \<open>
  The state the repositories of \<^verbatim>\<open>main.go\<close> work on: the relational database (of
  any type \<open>'d\<close>: the decorators never look inside), the number of calls made to the
  repositories on it, and the Redis client.
\<close>

record 'd world =
  db :: 'd
  db_calls :: nat
  redis :: redis_client

definition on_db :: "('d \<Rightarrow> 'a \<times> 'd) \<Rightarrow> 'd world \<Rightarrow> 'a \<times> 'd world" where
  "on_db f w = (let (r, d) = f (db w) in (r, w\<lparr>db := d, db_calls := db_calls w + 1\<rparr>))"

definition on_redis :: "(redis_client \<Rightarrow> 'a \<times> redis_client) \<Rightarrow> 'd world \<Rightarrow> 'a \<times> 'd world" where
  "on_redis f w = (let (r, c) = f (redis w) in (r, w\<lparr>redis := c\<rparr>))"

text \<open>
  \<^verbatim>\<open>baseUserRepo\<close> and \<^verbatim>\<open>basePostRepo\<close> of \<^verbatim>\<open>main.go\<close>: an implementation of the
  repository interface over the database, at work in the process.
\<close>

definition baseUserRepo :: "'d user_repository \<Rightarrow> 'd world user_repository" where
  "baseUserRepo impl =
    \<lparr> FindAll = on_db (FindAll impl),
      FindByID = (\<lambda>uid. on_db (FindByID impl uid)),
      Create = (\<lambda>u. on_db (Create impl u)),
      Update = (\<lambda>u. on_db (Update impl u)),
      Delete = (\<lambda>uid. on_db (Delete impl uid)) \<rparr>"

definition basePostRepo :: "'d post_repository \<Rightarrow> 'd world post_repository" where
  "basePostRepo impl =
    \<lparr> FindAllWithDetails = (\<lambda>limit offset. on_db (FindAllWithDetails impl limit offset)),
      FindByIDWithDetails = (\<lambda>postID. on_db (FindByIDWithDetails impl postID)),
      FindBySlugWithDetails = (\<lambda>slug. on_db (FindBySlugWithDetails impl slug)),
      FindByCategoryWithDetails =
        (\<lambda>slug limit offset. on_db (FindByCategoryWithDetails impl slug limit offset)),
      FindByTagWithDetails =
        (\<lambda>slug limit offset. on_db (FindByTagWithDetails impl slug limit offset)),
      FindFeaturedWithDetails = (\<lambda>limit. on_db (FindFeaturedWithDetails impl limit)),
      GetTotalCount = on_db (GetTotalCount impl),
      IncrementViewCount = (\<lambda>postID. on_db (IncrementViewCount impl postID)) \<rparr>"

section \<open>Serialization\<close>

text \<open>
  \<^verbatim>\<open>json.Marshal\<close> and \<^verbatim>\<open>json.Unmarshal\<close> at one Go type, as the decorators use them:
  \<open>None\<close> is a returned error. The decorators drop the error of \<^verbatim>\<open>json.Marshal\<close> and
  store the bytes it returned, which are none when it failed. Marshalling a \<^verbatim>\<open>nil\<close>
  pointer gives \<^verbatim>\<open>null\<close>.
\<close>

record 'a json =
  Marshal :: "'a \<Rightarrow> string option"
  Unmarshal :: "string \<Rightarrow> 'a option"

definition marshalled :: "'a json \<Rightarrow> 'a \<Rightarrow> string" where
  "marshalled j v = (case Marshal j v of None \<Rightarrow> [] | Some data \<Rightarrow> data)"

definition marshalled_ptr :: "'a json \<Rightarrow> 'a option \<Rightarrow> string" where
  "marshalled_ptr j p = (case p of None \<Rightarrow> ''null'' | Some v \<Rightarrow> marshalled j v)"

definition Minute :: nat where
  "Minute = 60000000000"

section \<open>The cache decorators\<close>

subsection \<open>\<^verbatim>\<open>cachedUserRepository\<close>\<close>

text \<open>
  The struct holds the wrapped repository and the TTL; the Redis client it holds is the
  one of the world. \<open>user_json\<close> and \<open>users_json\<close> are \<^verbatim>\<open>encoding/json\<close> at
  \<^verbatim>\<open>domain.User\<close> and \<^verbatim>\<open>[]domain.User\<close>.
\<close>

record 'd cachedUserRepository =
  user_baseRepo :: "'d world user_repository"
  user_ttl :: nat
  user_json :: "user json"
  users_json :: "user list json"

definition NewCachedUserRepository ::
  "'d world user_repository \<Rightarrow> user json \<Rightarrow> user list json \<Rightarrow> 'd cachedUserRepository"
where
  "NewCachedUserRepository baseRepo ju jus =
    \<lparr> user_baseRepo = baseRepo, user_ttl = 5 * Minute, user_json = ju, users_json = jus \<rparr>"

definition getCacheKey :: "int64 \<Rightarrow> string" where
  "getCacheKey uid = ''user:'' @ fmt_d (sint uid)"

definition cachedUser_FindAll ::
  "'d cachedUserRepository \<Rightarrow> 'd world \<Rightarrow> (error + user list) \<times> 'd world"
where
  "cachedUser_FindAll r w =
    (let cacheKey = ''users:all'';
         (cached, w1) = on_redis (redis_Get cacheKey) w
     in case (case cached of Inl err \<Rightarrow> None | Inr payload \<Rightarrow> Unmarshal (users_json r) payload) of
          Some v \<Rightarrow> (Inr v, w1)
        | None \<Rightarrow>
            (let (res, w2) = FindAll (user_baseRepo r) w1
             in case res of
                  Inl err \<Rightarrow> (Inl err, w2)
                | Inr v \<Rightarrow>
                    (let data = marshalled (users_json r) v;
                         (_, w3) = on_redis (redis_Set cacheKey data (user_ttl r)) w2
                     in (Inr v, w3))))"

definition cachedUser_FindByID ::
  "'d cachedUserRepository \<Rightarrow> int64 \<Rightarrow> 'd world \<Rightarrow> (error + user option) \<times> 'd world"
where
  "cachedUser_FindByID r uid w =
    (let cacheKey = getCacheKey uid;
         (cached, w1) = on_redis (redis_Get cacheKey) w
     in case (case cached of Inl err \<Rightarrow> None | Inr payload \<Rightarrow> Unmarshal (user_json r) payload) of
          Some v \<Rightarrow> (Inr (Some v), w1)
        | None \<Rightarrow>
            (let (res, w2) = FindByID (user_baseRepo r) uid w1
             in case res of
                  Inl err \<Rightarrow> (Inl err, w2)
                | Inr v \<Rightarrow>
                    (let data = marshalled_ptr (user_json r) v;
                         (_, w3) = on_redis (redis_Set cacheKey data (user_ttl r)) w2
                     in (Inr v, w3))))"

definition cachedUser_Create ::
  "'d cachedUserRepository \<Rightarrow> user \<Rightarrow> 'd world \<Rightarrow> (error option \<times> user) \<times> 'd world"
where
  "cachedUser_Create r u w =
    (let ((err, u1), w1) = Create (user_baseRepo r) u w
     in case err of
          Some e \<Rightarrow> ((Some e, u1), w1)
        | None \<Rightarrow>
            (let (_, w2) = on_redis (redis_Del [''users:all'']) w1
             in ((None, u1), w2)))"

definition cachedUser_Update ::
  "'d cachedUserRepository \<Rightarrow> user \<Rightarrow> 'd world \<Rightarrow> (error option \<times> user) \<times> 'd world"
where
  "cachedUser_Update r u w =
    (let ((err, u1), w1) = Update (user_baseRepo r) u w
     in case err of
          Some e \<Rightarrow> ((Some e, u1), w1)
        | None \<Rightarrow>
            (let (_, w2) = on_redis (redis_Del [getCacheKey (user_ID u1)]) w1;
                 (_, w3) = on_redis (redis_Del [''users:all'']) w2
             in ((None, u1), w3)))"

definition cachedUser_Delete ::
  "'d cachedUserRepository \<Rightarrow> int64 \<Rightarrow> 'd world \<Rightarrow> error option \<times> 'd world"
where
  "cachedUser_Delete r uid w =
    (let (err, w1) = Delete (user_baseRepo r) uid w
     in case err of
          Some e \<Rightarrow> (Some e, w1)
        | None \<Rightarrow>
            (let (_, w2) = on_redis (redis_Del [getCacheKey uid]) w1;
                 (_, w3) = on_redis (redis_Del [''users:all'']) w2
             in (None, w3)))"

text \<open>The decorator as the \<^verbatim>\<open>domain.UserRepository\<close> the constructor returns.\<close>

definition cachedUserRepo :: "'d cachedUserRepository \<Rightarrow> 'd world user_repository" where
  "cachedUserRepo r =
    \<lparr> FindAll = cachedUser_FindAll r,
      FindByID = cachedUser_FindByID r,
      Create = cachedUser_Create r,
      Update = cachedUser_Update r,
      Delete = cachedUser_Delete r \<rparr>"

subsection \<open>\<^verbatim>\<open>cachedPostRepository\<close>\<close>

text \<open>
  \<open>post_json\<close>, \<open>posts_json\<close> and \<open>count_json\<close> are \<^verbatim>\<open>encoding/json\<close> at
  \<^verbatim>\<open>domain.PostWithDetails\<close>, \<^verbatim>\<open>[]domain.PostWithDetails\<close> and \<^verbatim>\<open>int64\<close>.
\<close>

record 'd cachedPostRepository =
  post_baseRepo :: "'d world post_repository"
  post_ttl :: nat
  post_json :: "post_with_details json"
  posts_json :: "post_with_details list json"
  count_json :: "int64 json"

definition NewCachedPostRepository ::
  "'d world post_repository \<Rightarrow> post_with_details json \<Rightarrow> post_with_details list json \<Rightarrow>
     int64 json \<Rightarrow> 'd cachedPostRepository"
where
  "NewCachedPostRepository baseRepo jp jps jc =
    \<lparr> post_baseRepo = baseRepo, post_ttl = 5 * Minute,
      post_json = jp, posts_json = jps, count_json = jc \<rparr>"

definition getPostCacheKey :: "int64 \<Rightarrow> string" where
  "getPostCacheKey postID = ''post:'' @ fmt_d (sint postID)"

definition cachedPost_FindAllWithDetails ::
  "'d cachedPostRepository \<Rightarrow> go_int \<Rightarrow> go_int \<Rightarrow> 'd world \<Rightarrow> (error + post_with_details list) \<times> 'd world"
where
  "cachedPost_FindAllWithDetails r limit offset w =
    (let cacheKey = ''posts:all:limit='' @ fmt_d (sint limit) @ '':offset='' @ fmt_d (sint offset);
         (cached, w1) = on_redis (redis_Get cacheKey) w
     in case (case cached of Inl err \<Rightarrow> None | Inr payload \<Rightarrow> Unmarshal (posts_json r) payload) of
          Some v \<Rightarrow> (Inr v, w1)
        | None \<Rightarrow>
            (let (res, w2) = FindAllWithDetails (post_baseRepo r) limit offset w1
             in case res of
                  Inl err \<Rightarrow> (Inl err, w2)
                | Inr v \<Rightarrow>
                    (let data = marshalled (posts_json r) v;
                         (_, w3) = on_redis (redis_Set cacheKey data (post_ttl r)) w2
                     in (Inr v, w3))))"

definition cachedPost_FindByIDWithDetails ::
  "'d cachedPostRepository \<Rightarrow> int64 \<Rightarrow> 'd world \<Rightarrow> (error + post_with_details option) \<times> 'd world"
where
  "cachedPost_FindByIDWithDetails r postID w =
    (let cacheKey = getPostCacheKey postID;
         (cached, w1) = on_redis (redis_Get cacheKey) w
     in case (case cached of Inl err \<Rightarrow> None | Inr payload \<Rightarrow> Unmarshal (post_json r) payload) of
          Some v \<Rightarrow> (Inr (Some v), w1)
        | None \<Rightarrow>
            (let (res, w2) = FindByIDWithDetails (post_baseRepo r) postID w1
             in case res of
                  Inl err \<Rightarrow> (Inl err, w2)
                | Inr v \<Rightarrow>
                    (let data = marshalled_ptr (post_json r) v;
                         (_, w3) = on_redis (redis_Set cacheKey data (post_ttl r)) w2
                     in (Inr v, w3))))"

definition cachedPost_FindBySlugWithDetails ::
  "'d cachedPostRepository \<Rightarrow> string \<Rightarrow> 'd world \<Rightarrow> (error + post_with_details option) \<times> 'd world"
where
  "cachedPost_FindBySlugWithDetails r slug w =
    (let cacheKey = ''post:slug:'' @ slug;
         (cached, w1) = on_redis (redis_Get cacheKey) w
     in case (case cached of Inl err \<Rightarrow> None | Inr payload \<Rightarrow> Unmarshal (post_json r) payload) of
          Some v \<Rightarrow> (Inr (Some v), w1)
        | None \<Rightarrow>
            (let (res, w2) = FindBySlugWithDetails (post_baseRepo r) slug w1
             in case res of
                  Inl err \<Rightarrow> (Inl err, w2)
                | Inr v \<Rightarrow>
                    (let data = marshalled_ptr (post_json r) v;
                         (_, w3) = on_redis (redis_Set cacheKey data (post_ttl r)) w2
                     in (Inr v, w3))))"

definition cachedPost_FindByCategoryWithDetails ::
  "'d cachedPostRepository \<Rightarrow> string \<Rightarrow> go_int \<Rightarrow> go_int \<Rightarrow> 'd world \<Rightarrow> (error + post_with_details list) \<times> 'd world"
where
  "cachedPost_FindByCategoryWithDetails r categorySlug limit offset w =
    (let cacheKey = ''posts:category:'' @ categorySlug @ '':limit='' @ fmt_d (sint limit) @ '':offset='' @ fmt_d (sint offset);
         (cached, w1) = on_redis (redis_Get cacheKey) w
     in case (case cached of Inl err \<Rightarrow> None | Inr payload \<Rightarrow> Unmarshal (posts_json r) payload) of
          Some v \<Rightarrow> (Inr v, w1)
        | None \<Rightarrow>
            (let (res, w2) = FindByCategoryWithDetails (post_baseRepo r) categorySlug limit offset w1
             in case res of
                  Inl err \<Rightarrow> (Inl err, w2)
                | Inr v \<Rightarrow>
                    (let data = marshalled (posts_json r) v;
                         (_, w3) = on_redis (redis_Set cacheKey data (post_ttl r)) w2
                     in (Inr v, w3))))"

definition cachedPost_FindByTagWithDetails ::
  "'d cachedPostRepository \<Rightarrow> string \<Rightarrow> go_int \<Rightarrow> go_int \<Rightarrow> 'd world \<Rightarrow> (error + post_with_details list) \<times> 'd world"
where
  "cachedPost_FindByTagWithDetails r tagSlug limit offset w =
    (let cacheKey = ''posts:tag:'' @ tagSlug @ '':limit='' @ fmt_d (sint limit) @ '':offset='' @ fmt_d (sint offset);
         (cached, w1) = on_redis (redis_Get cacheKey) w
     in case (case cached of Inl err \<Rightarrow> None | Inr payload \<Rightarrow> Unmarshal (posts_json r) payload) of
          Some v \<Rightarrow> (Inr v, w1)
        | None \<Rightarrow>
            (let (res, w2) = FindByTagWithDetails (post_baseRepo r) tagSlug limit offset w1
             in case res of
                  Inl err \<Rightarrow> (Inl err, w2)
                | Inr v \<Rightarrow>
                    (let data = marshalled (posts_json r) v;
                         (_, w3) = on_redis (redis_Set cacheKey data (post_ttl r)) w2
                     in (Inr v, w3))))"

definition cachedPost_FindFeaturedWithDetails ::
  "'d cachedPostRepository \<Rightarrow> go_int \<Rightarrow> 'd world \<Rightarrow> (error + post_with_details list) \<times> 'd world"
where
  "cachedPost_FindFeaturedWithDetails r limit w =
    (let cacheKey = ''posts:featured:limit='' @ fmt_d (sint limit);
         (cached, w1) = on_redis (redis_Get cacheKey) w
     in case (case cached of Inl err \<Rightarrow> None | Inr payload \<Rightarrow> Unmarshal (posts_json r) payload) of
          Some v \<Rightarrow> (Inr v, w1)
        | None \<Rightarrow>
            (let (res, w2) = FindFeaturedWithDetails (post_baseRepo r) limit w1
             in case res of
                  Inl err \<Rightarrow> (Inl err, w2)
                | Inr v \<Rightarrow>
                    (let data = marshalled (posts_json r) v;
                         (_, w3) = on_redis (redis_Set cacheKey data (post_ttl r)) w2
                     in (Inr v, w3))))"

definition cachedPost_GetTotalCount ::
  "'d cachedPostRepository \<Rightarrow> 'd world \<Rightarrow> (error + int64) \<times> 'd world"
where
  "cachedPost_GetTotalCount r w =
    (let cacheKey = ''posts:totalcount'';
         (cached, w1) = on_redis (redis_Get cacheKey) w
     in case (case cached of Inl err \<Rightarrow> None | Inr payload \<Rightarrow> Unmarshal (count_json r) payload) of
          Some v \<Rightarrow> (Inr v, w1)
        | None \<Rightarrow>
            (let (res, w2) = GetTotalCount (post_baseRepo r) w1
             in case res of
                  Inl err \<Rightarrow> (Inl err, w2)
                | Inr v \<Rightarrow>
                    (let data = marshalled (count_json r) v;
                         (_, w3) = on_redis (redis_Set cacheKey data (post_ttl r)) w2
                     in (Inr v, w3))))"

definition cachedPost_IncrementViewCount ::
  "'d cachedPostRepository \<Rightarrow> int64 \<Rightarrow> 'd world \<Rightarrow> error option \<times> 'd world"
where
  "cachedPost_IncrementViewCount r postID w =
    (let (err, w1) = IncrementViewCount (post_baseRepo r) postID w
     in case err of
          Some e \<Rightarrow> (Some e, w1)
        | None \<Rightarrow>
            (let (_, w2) = on_redis (redis_Del [getPostCacheKey postID]) w1;
                 (found, w3) = on_redis (redis_Keys ''posts:*'') w2;
                 keys = (case found of Inl _ \<Rightarrow> [] | Inr ks \<Rightarrow> ks);
                 w4 = (if 0 < length keys then snd (on_redis (redis_Del keys) w3) else w3)
             in (None, w4)))"

definition cachedPostRepo :: "'d cachedPostRepository \<Rightarrow> 'd world post_repository" where
  "cachedPostRepo r =
    \<lparr> FindAllWithDetails = cachedPost_FindAllWithDetails r,
      FindByIDWithDetails = cachedPost_FindByIDWithDetails r,
      FindBySlugWithDetails = cachedPost_FindBySlugWithDetails r,
      FindByCategoryWithDetails = cachedPost_FindByCategoryWithDetails r,
      FindByTagWithDetails = cachedPost_FindByTagWithDetails r,
      FindFeaturedWithDetails = cachedPost_FindFeaturedWithDetails r,
      GetTotalCount = cachedPost_GetTotalCount r,
      IncrementViewCount = cachedPost_IncrementViewCount r \<rparr>"

section \<open>Read operations, one by one and all together\<close>

text \<open>
  The nine read methods of the two decorators are nine copies of one text. \<open>read_through\<close>
  is that text, with the key, the deserialization, the serialization, the TTL and the call
  of the wrapped repository left open.
\<close>

definition read_through ::
  "string \<Rightarrow> (string \<Rightarrow> 'a option) \<Rightarrow> ('a \<Rightarrow> string) \<Rightarrow> nat \<Rightarrow>
     ('d world \<Rightarrow> (error + 'a) \<times> 'd world) \<Rightarrow> 'd world \<Rightarrow> (error + 'a) \<times> 'd world"
where
  "read_through cacheKey decode encode expiration fetch w =
    (let (cached, w1) = on_redis (redis_Get cacheKey) w
     in case (case cached of Inl err \<Rightarrow> None | Inr payload \<Rightarrow> decode payload) of
          Some v \<Rightarrow> (Inr v, w1)
        | None \<Rightarrow>
            (let (res, w2) = fetch w1
             in case res of
                  Inl err \<Rightarrow> (Inl err, w2)
                | Inr v \<Rightarrow>
                    (let (_, w3) = on_redis (redis_Set cacheKey (encode v) expiration) w2
                     in (Inr v, w3))))"

text \<open>A read call: the method and its arguments. A read result: what the method returns.\<close>

datatype read_call =
    UserFindAll
  | UserFindByID int64
  | PostFindAllWithDetails go_int go_int
  | PostFindByIDWithDetails int64
  | PostFindBySlugWithDetails string
  | PostFindByCategoryWithDetails string go_int go_int
  | PostFindByTagWithDetails string go_int go_int
  | PostFindFeaturedWithDetails go_int
  | PostGetTotalCount

datatype read_result =
    Users "user list"
  | UserPtr "user option"
  | Posts "post_with_details list"
  | PostPtr "post_with_details option"
  | Count int64

definition returning :: "('a \<Rightarrow> read_result) \<Rightarrow> (error + 'a) \<times> 'w \<Rightarrow> (error + read_result) \<times> 'w" where
  "returning tag r = (case r of (Inl err, w) \<Rightarrow> (Inl err, w) | (Inr v, w) \<Rightarrow> (Inr (tag v), w))"

text \<open>A read call made on a pair of repositories (the decorators, or the wrapped ones).\<close>

definition perform_read ::
  "'w user_repository \<Rightarrow> 'w post_repository \<Rightarrow> read_call \<Rightarrow> 'w \<Rightarrow> (error + read_result) \<times> 'w"
where
  "perform_read users posts call w =
    (case call of
       UserFindAll \<Rightarrow> returning Users (FindAll users w)
     | UserFindByID uid \<Rightarrow> returning UserPtr (FindByID users uid w)
     | PostFindAllWithDetails limit offset \<Rightarrow>
         returning Posts (FindAllWithDetails posts limit offset w)
     | PostFindByIDWithDetails postID \<Rightarrow> returning PostPtr (FindByIDWithDetails posts postID w)
     | PostFindBySlugWithDetails slug \<Rightarrow> returning PostPtr (FindBySlugWithDetails posts slug w)
     | PostFindByCategoryWithDetails slug limit offset \<Rightarrow>
         returning Posts (FindByCategoryWithDetails posts slug limit offset w)
     | PostFindByTagWithDetails slug limit offset \<Rightarrow>
         returning Posts (FindByTagWithDetails posts slug limit offset w)
     | PostFindFeaturedWithDetails limit \<Rightarrow> returning Posts (FindFeaturedWithDetails posts limit w)
     | PostGetTotalCount \<Rightarrow> returning Count (GetTotalCount posts w))"

text \<open>The cache key each read method of the decorators derives from its arguments.\<close>

definition cacheKey_of :: "read_call \<Rightarrow> string" where
  "cacheKey_of call =
    (case call of
       UserFindAll \<Rightarrow> ''users:all''
     | UserFindByID uid \<Rightarrow> getCacheKey uid
     | PostFindAllWithDetails limit offset \<Rightarrow>
         ''posts:all:limit='' @ fmt_d (sint limit) @ '':offset='' @ fmt_d (sint offset)
     | PostFindByIDWithDetails postID \<Rightarrow> getPostCacheKey postID
     | PostFindBySlugWithDetails slug \<Rightarrow> ''post:slug:'' @ slug
     | PostFindByCategoryWithDetails slug limit offset \<Rightarrow>
         ''posts:category:'' @ slug @ '':limit='' @ fmt_d (sint limit)
           @ '':offset='' @ fmt_d (sint offset)
     | PostFindByTagWithDetails slug limit offset \<Rightarrow>
         ''posts:tag:'' @ slug @ '':limit='' @ fmt_d (sint limit)
           @ '':offset='' @ fmt_d (sint offset)
     | PostFindFeaturedWithDetails limit \<Rightarrow> ''posts:featured:limit='' @ fmt_d (sint limit)
     | PostGetTotalCount \<Rightarrow> ''posts:totalcount'')"

text \<open>The pagination part of a key.\<close>

definition limit_offset :: "go_int \<Rightarrow> go_int \<Rightarrow> string" where
  "limit_offset limit offset = '':limit='' @ fmt_d (sint limit) @ '':offset='' @ fmt_d (sint offset)"

text \<open>What the decorators store for a result, and what they read back from a payload.\<close>

definition serialize ::
  "'d cachedUserRepository \<Rightarrow> 'd cachedPostRepository \<Rightarrow> read_result \<Rightarrow> string"
where
  "serialize ur pr res =
    (case res of
       Users us \<Rightarrow> marshalled (users_json ur) us
     | UserPtr u \<Rightarrow> marshalled_ptr (user_json ur) u
     | Posts ps \<Rightarrow> marshalled (posts_json pr) ps
     | PostPtr p \<Rightarrow> marshalled_ptr (post_json pr) p
     | Count n \<Rightarrow> marshalled (count_json pr) n)"

definition deserialize ::
  "'d cachedUserRepository \<Rightarrow> 'd cachedPostRepository \<Rightarrow> read_call \<Rightarrow> string \<Rightarrow> read_result option"
where
  "deserialize ur pr call payload =
    (case call of
       UserFindAll \<Rightarrow> map_option Users (Unmarshal (users_json ur) payload)
     | UserFindByID _ \<Rightarrow> map_option (UserPtr \<circ> Some) (Unmarshal (user_json ur) payload)
     | PostFindAllWithDetails _ _ \<Rightarrow> map_option Posts (Unmarshal (posts_json pr) payload)
     | PostFindByIDWithDetails _ \<Rightarrow> map_option (PostPtr \<circ> Some) (Unmarshal (post_json pr) payload)
     | PostFindBySlugWithDetails _ \<Rightarrow> map_option (PostPtr \<circ> Some) (Unmarshal (post_json pr) payload)
     | PostFindByCategoryWithDetails _ _ _ \<Rightarrow> map_option Posts (Unmarshal (posts_json pr) payload)
     | PostFindByTagWithDetails _ _ _ \<Rightarrow> map_option Posts (Unmarshal (posts_json pr) payload)
     | PostFindFeaturedWithDetails _ \<Rightarrow> map_option Posts (Unmarshal (posts_json pr) payload)
     | PostGetTotalCount \<Rightarrow> map_option Count (Unmarshal (count_json pr) payload))"

definition ttl_of :: "'d cachedUserRepository \<Rightarrow> 'd cachedPostRepository \<Rightarrow> read_call \<Rightarrow> nat" where
  "ttl_of ur pr call =
    (case call of UserFindAll \<Rightarrow> user_ttl ur | UserFindByID _ \<Rightarrow> user_ttl ur | _ \<Rightarrow> post_ttl pr)"

section \<open>The wiring of \<^verbatim>\<open>main.go\<close>\<close>

text \<open>
  What \<^verbatim>\<open>main\<close> builds the repositories from: the two implementations over the
  database and \<^verbatim>\<open>encoding/json\<close> at the five cached types. The decorators wrap the base
  repositories; the direct usecases get the base repositories themselves.
\<close>

record 'd wiring =
  mysqlUsers :: "'d user_repository"
  mysqlPosts :: "'d post_repository"
  jsonUser :: "user json"
  jsonUsers :: "user list json"
  jsonPost :: "post_with_details json"
  jsonPosts :: "post_with_details list json"
  jsonCount :: "int64 json"

definition cachedUserRepository_of :: "'d wiring \<Rightarrow> 'd cachedUserRepository" where
  "cachedUserRepository_of m =
    NewCachedUserRepository (baseUserRepo (mysqlUsers m)) (jsonUser m) (jsonUsers m)"

definition cachedPostRepository_of :: "'d wiring \<Rightarrow> 'd cachedPostRepository" where
  "cachedPostRepository_of m =
    NewCachedPostRepository (basePostRepo (mysqlPosts m)) (jsonPost m) (jsonPosts m) (jsonCount m)"

definition cached_read :: "'d wiring \<Rightarrow> read_call \<Rightarrow> 'd world \<Rightarrow> (error + read_result) \<times> 'd world" where
  "cached_read m call w =
    perform_read (cachedUserRepo (cachedUserRepository_of m))
      (cachedPostRepo (cachedPostRepository_of m)) call w"

definition direct_read :: "'d wiring \<Rightarrow> read_call \<Rightarrow> 'd world \<Rightarrow> (error + read_result) \<times> 'd world" where
  "direct_read m call w =
    perform_read (baseUserRepo (mysqlUsers m)) (basePostRepo (mysqlPosts m)) call w"

definition stored_form :: "'d wiring \<Rightarrow> read_result \<Rightarrow> string" where
  "stored_form m res = serialize (cachedUserRepository_of m) (cachedPostRepository_of m) res"

definition loaded_form :: "'d wiring \<Rightarrow> read_call \<Rightarrow> string \<Rightarrow> read_result option" where
  "loaded_form m call payload =
    deserialize (cachedUserRepository_of m) (cachedPostRepository_of m) call payload"

text \<open>The outcome of the lookup a read starts with: the value of a hit, or a miss.\<close>

definition cache_hit :: "string \<Rightarrow> (string \<Rightarrow> 'a option) \<Rightarrow> redis_client \<Rightarrow> 'a option" where
  "cache_hit cacheKey decode c =
    (if fails c (commands c) then None
     else case lookup c cacheKey of None \<Rightarrow> None | Some payload \<Rightarrow> decode payload)"

text \<open>What a successful \<^verbatim>\<open>IncrementViewCount\<close> of the decorator does to the store.\<close>

definition invalidate_post :: "int64 \<Rightarrow> redis_client \<Rightarrow> redis_client" where
  "invalidate_post postID c =
    (let c1 = snd (redis_Del [getPostCacheKey postID] c);
         (found, c2) = redis_Keys ''posts:*'' c1;
         keys = (case found of Inl _ \<Rightarrow> [] | Inr ks \<Rightarrow> ks)
     in if 0 < length keys then snd (redis_Del keys c2) else c2)"

text \<open>The world at a later moment of the server's clock.\<close>

definition at_time :: "nat \<Rightarrow> 'd world \<Rightarrow> 'd world" where
  "at_time t w = w\<lparr>redis := (redis w)\<lparr>now := t\<rparr>\<rparr>"

text \<open>The world with another pattern of failing commands.\<close>

definition with_failures :: "(nat \<Rightarrow> bool) \<Rightarrow> 'd world \<Rightarrow> 'd world" where
  "with_failures g w = w\<lparr>redis := (redis w)\<lparr>fails := g\<rparr>\<rparr>"

section \<open>An in-memory database for concrete runs\<close>

text \<open>
  A small implementation of the two repository interfaces, in the manner of the
  \<^verbatim>\<open>mockUserRepository\<close> of the usecase tests: the records are kept in lists, a new
  user gets the next free number. A closed database answers every call with an error.
\<close>

record memory_db =
  stored_users :: "user list"
  stored_posts :: "post_with_details list"
  closed :: bool

definition db_closed :: error where
  "db_closed = Error ''sql: database is closed''"

definition no_rows :: error where
  "no_rows = ErrNoRows"

definition page_of :: "go_int \<Rightarrow> go_int \<Rightarrow> 'a list \<Rightarrow> 'a list" where
  "page_of limit offset xs = take (unat limit) (drop (unat offset) xs)"

definition memoryUsers :: "memory_db user_repository" where
  "memoryUsers =
    \<lparr> FindAll = (\<lambda>d. if closed d then (Inl db_closed, d) else (Inr (stored_users d), d)),
      FindByID = (\<lambda>uid d.
        if closed d then (Inl db_closed, d)
        else case find (\<lambda>u. user_ID u = uid) (stored_users d) of
               None \<Rightarrow> (Inl no_rows, d)
             | Some u \<Rightarrow> (Inr (Some u), d)),
      Create = (\<lambda>u d.
        if closed d then ((Some db_closed, u), d)
        else ((None, u\<lparr>user_ID := of_nat (length (stored_users d) + 1)\<rparr>),
              d\<lparr>stored_users := stored_users d @ [u\<lparr>user_ID := of_nat (length (stored_users d) + 1)\<rparr>]\<rparr>)),
      Update = (\<lambda>u d.
        if closed d then ((Some db_closed, u), d)
        else ((None, u), d\<lparr>stored_users := map (\<lambda>x. if user_ID x = user_ID u then u else x) (stored_users d)\<rparr>)),
      Delete = (\<lambda>uid d.
        if closed d then (Some db_closed, d)
        else (None, d\<lparr>stored_users := filter (\<lambda>x. user_ID x \<noteq> uid) (stored_users d)\<rparr>)) \<rparr>"

definition memoryPosts :: "memory_db post_repository" where
  "memoryPosts =
    \<lparr> FindAllWithDetails = (\<lambda>limit offset d.
        if closed d then (Inl db_closed, d) else (Inr (page_of limit offset (stored_posts d)), d)),
      FindByIDWithDetails = (\<lambda>postID d.
        if closed d then (Inl db_closed, d)
        else case find (\<lambda>p. post_ID p = postID) (stored_posts d) of
               None \<Rightarrow> (Inl no_rows, d)
             | Some p \<Rightarrow> (Inr (Some p), d)),
      FindBySlugWithDetails = (\<lambda>slug d.
        if closed d then (Inl db_closed, d)
        else case find (\<lambda>p. Slug p = slug) (stored_posts d) of
               None \<Rightarrow> (Inl no_rows, d)
             | Some p \<Rightarrow> (Inr (Some p), d)),
      FindByCategoryWithDetails = (\<lambda>slug limit offset d.
        if closed d then (Inl db_closed, d)
        else (Inr (page_of limit offset (filter (\<lambda>p. CategorySlug p = Some slug) (stored_posts d))), d)),
      FindByTagWithDetails = (\<lambda>slug limit offset d.
        if closed d then (Inl db_closed, d)
        else (Inr (page_of limit offset
                     (filter (\<lambda>p. slug \<in> set (map tag_Slug (Tags p))) (stored_posts d))), d)),
      FindFeaturedWithDetails = (\<lambda>limit d.
        if closed d then (Inl db_closed, d)
        else (Inr (take (unat limit) (filter IsFeatured (stored_posts d))), d)),
      GetTotalCount = (\<lambda>d.
        if closed d then (Inl db_closed, d) else (Inr (of_nat (length (stored_posts d))), d)),
      IncrementViewCount = (\<lambda>postID d.
        if closed d then (Some db_closed, d)
        else (None,
              d\<lparr>stored_posts := map (\<lambda>p. if post_ID p = postID then p\<lparr>ViewCount := ViewCount p + 1\<rparr> else p)
                              (stored_posts d)\<rparr>)) \<rparr>"

text \<open>
  A stand-in for \<^verbatim>\<open>encoding/json\<close> at one type that knows the values of a table and the
  text of each: it marshals those values only, and reads back those texts only.
\<close>

definition table_json :: "('a \<times> string) list \<Rightarrow> 'a json" where
  "table_json table =
    \<lparr> Marshal = map_of table, Unmarshal = map_of (map (\<lambda>(v, text). (text, v)) table) \<rparr>"

definition alice :: user where
  "alice = \<lparr> user_ID = 1, Name = ''alice'', Email = ''alice@example.com'', Age = None,
             CreatedAt = 0, UpdatedAt = 0 \<rparr>"

definition hello :: post_with_details where
  "hello =
    \<lparr> post_ID = 1, UserID = 1, CategoryID = None, Title = ''Hello'', Slug = ''hello'',
      Content = ''Hello, world'', Excerpt = None, Status = ''published'', PublishedAt = None,
      ViewCount = 0, LikeCount = 0, CommentCount = 0, IsFeatured = False,
      post_CreatedAt = 0, post_UpdatedAt = 0,
      AuthorUsername = ''alice'', AuthorDisplayName = None, AuthorAvatarURL = None,
      CategoryName = None, CategorySlug = None, Tags = [], LatestComments = [] \<rparr>"

definition example_wiring :: "memory_db wiring" where
  "example_wiring =
    \<lparr> mysqlUsers = memoryUsers, mysqlPosts = memoryPosts,
      jsonUser = table_json [(alice, ''{id:1,name:alice}'')],
      jsonUsers = table_json [([], ''null''), ([alice], ''[{id:1,name:alice}]'')],
      jsonPost = table_json [(hello, ''{id:1,slug:hello,viewCount:0}'')],
      jsonPosts = table_json [([], ''null''), ([hello], ''[{id:1,slug:hello,viewCount:0}]'')],
      jsonCount = table_json [(0, ''0''), (1, ''1'')] \<rparr>"

definition example_redis :: redis_client where
  "example_redis = \<lparr> entries = [], now = 0, commands = 0, fails = (\<lambda>n. False) \<rparr>"

definition example_world :: "memory_db world" where
  "example_world =
    \<lparr> db = \<lparr> stored_users = [alice], stored_posts = [hello], closed = False \<rparr>, db_calls = 0,
      redis = example_redis \<rparr>"

text \<open>The same world with the database closed and the cache store out of reach.\<close>

definition broken_world :: "memory_db world" where
  "broken_world =
    \<lparr> db = \<lparr> stored_users = [alice], stored_posts = [hello], closed = True \<rparr>, db_calls = 0,
      redis = example_redis\<lparr>fails := (\<lambda>n. True)\<rparr> \<rparr>"

text \<open>The world with entries in the cache, before any user is in the database.\<close>

definition warm_world :: "memory_db world" where
  "warm_world =
    \<lparr> db = \<lparr> stored_users = [], stored_posts = [hello], closed = False \<rparr>, db_calls = 0,
      redis = example_redis\<lparr>entries :=
        [(''user:1'', ''{id:1,name:alice}'', 5 * Minute),
         (''users:all'', ''null'', 5 * Minute),
         (''post:1'', ''{id:1,slug:hello,viewCount:0}'', 5 * Minute),
         (''post:slug:hello'', ''{id:1,slug:hello,viewCount:0}'', 5 * Minute),
         (''posts:totalcount'', ''1'', 5 * Minute)]\<rparr> \<rparr>"

section \<open>The user usecase\<close>

text \<open>
  A usecase struct holds one repository and nothing else: \<^verbatim>\<open>NewUserUsecase\<close> and
  \<^verbatim>\<open>NewPostUsecase\<close> return their argument, and the methods of a usecase are functions
  of the repository. A call that dereferences a \<^verbatim>\<open>nil\<close> pointer panics.
\<close>

datatype 'a outcome = Returned 'a | Panicked

definition NewUserUsecase :: "'w user_repository \<Rightarrow> 'w user_repository" where
  "NewUserUsecase userRepo = userRepo"

definition NewPostUsecase :: "'w post_repository \<Rightarrow> 'w post_repository" where
  "NewPostUsecase postRepo = postRepo"

definition zero_time :: time where
  "zero_time = 0"

definition GetAllUsers :: "'w user_repository \<Rightarrow> 'w \<Rightarrow> (error + user list) \<times> 'w" where
  "GetAllUsers userRepo w = FindAll userRepo w"

definition GetUserByID :: "'w user_repository \<Rightarrow> int64 \<Rightarrow> 'w \<Rightarrow> (error + user option) \<times> 'w" where
  "GetUserByID userRepo uid w = FindByID userRepo uid w"

definition CreateUser ::
  "'w user_repository \<Rightarrow> string \<Rightarrow> string \<Rightarrow> int32 option \<Rightarrow> 'w \<Rightarrow> (error + user) \<times> 'w"
where
  "CreateUser userRepo name email age w =
    (let u = \<lparr> user_ID = 0, Name = name, Email = email, Age = age,
                CreatedAt = zero_time, UpdatedAt = zero_time \<rparr>;
         ((err, u1), w1) = Create userRepo u w
     in case err of
          Some e \<Rightarrow> (Inl e, w1)
        | None \<Rightarrow> (Inr u1, w1))"

text \<open>
  \<^verbatim>\<open>UpdateUser\<close> writes the given fields through the pointer \<^verbatim>\<open>FindByID\<close> returned and
  hands the pointer to \<^verbatim>\<open>Update\<close>. A \<^verbatim>\<open>nil\<close> pointer is dereferenced by the first
  assignment or, when no field is given, by what gets the pointer next (\<^verbatim>\<open>Update\<close>, or
  the handler that copies the returned user). Nothing has been written by then; the
  panic is given as the outcome of the usecase.
\<close>

definition UpdateUser ::
  "'w user_repository \<Rightarrow> int64 \<Rightarrow> string option \<Rightarrow> string option \<Rightarrow> int32 option \<Rightarrow> 'w \<Rightarrow>
     (error + user) outcome \<times> 'w"
where
  "UpdateUser userRepo uid name email age w =
    (let (res, w1) = FindByID userRepo uid w
     in case res of
          Inl err \<Rightarrow> (Returned (Inl err), w1)
        | Inr None \<Rightarrow> (Panicked, w1)
        | Inr (Some u) \<Rightarrow>
            (let u = (case name of None \<Rightarrow> u | Some n \<Rightarrow> u\<lparr>Name := n\<rparr>);
                 u = (case email of None \<Rightarrow> u | Some e \<Rightarrow> u\<lparr>Email := e\<rparr>);
                 u = (case age of None \<Rightarrow> u | Some a \<Rightarrow> u\<lparr>Age := Some a\<rparr>);
                 ((err, u1), w2) = Update userRepo u w1
             in case err of
                  Some e \<Rightarrow> (Returned (Inl e), w2)
                | None \<Rightarrow> (Returned (Inr u1), w2)))"

definition DeleteUser :: "'w user_repository \<Rightarrow> int64 \<Rightarrow> 'w \<Rightarrow> error option \<times> 'w" where
  "DeleteUser userRepo uid w = Delete userRepo uid w"

section \<open>The HTTP boundary\<close>

text \<open>
  Of a request (\<^verbatim>\<open>echo.Context\<close>), the handlers read the query parameters and the path
  parameters; \<^verbatim>\<open>QueryParam\<close> and \<^verbatim>\<open>Param\<close> return the empty string for a name that
  is not there. A response is a status with a JSON body, a status alone, or the panic of
  the handler.
\<close>

record request =
  query :: "(string \<times> string) list"
  path :: "(string \<times> string) list"

definition QueryParam :: "request \<Rightarrow> string \<Rightarrow> string" where
  "QueryParam c name = (case map_of (query c) name of None \<Rightarrow> [] | Some v \<Rightarrow> v)"

definition Param :: "request \<Rightarrow> string \<Rightarrow> string" where
  "Param c name = (case map_of (path c) name of None \<Rightarrow> [] | Some v \<Rightarrow> v)"

datatype body =
    ErrorBody string
  | HealthBody string string
  | UsersBody "user list"
  | UserBody user
  | PostsPageBody "post_with_details list" int64 go_int go_int
  | PostsBody "post_with_details list"
  | PostBody "post_with_details option"
  | UserDetailBody "user_detail option"

datatype response = JSON nat body | NoContent nat | Panic

text \<open>
  The types of the generated package \<^verbatim>\<open>gen\<close> are not among the sources; the fields are
  the ones the handlers read. \<^verbatim>\<open>gen.User\<close> has the fields of \<^verbatim>\<open>domain.User\<close> and the
  handlers copy them one by one, so a \<^verbatim>\<open>gen.User\<close> is written as the user it copies.
\<close>

record CreateUserRequest =
  req_Name :: string
  req_Email :: string
  req_Age :: "int32 option"

record UpdateUserRequest =
  upd_Name :: "string option"
  upd_Email :: "string option"
  upd_Age :: "int32 option"

definition sql_ErrNoRows :: error where
  "sql_ErrNoRows = ErrNoRows"

text \<open>
  \<^verbatim>\<open>errors.Is\<close>: the error, or one of the errors it wraps, is the target value itself.
\<close>

fun errors_Is :: "error \<Rightarrow> error \<Rightarrow> bool" where
  "errors_Is (Wrapped msg err) target = (Wrapped msg err = target \<or> errors_Is err target)"
| "errors_Is err target = (err = target)"

subsection \<open>\<^verbatim>\<open>strconv\<close>\<close>

text \<open>
  \<^verbatim>\<open>strconv.ParseUint(s, 10, 64)\<close> reads the characters from left to right and returns
  at the first one it cannot take: with 0 and a syntax error at a character that is not
  a decimal digit, with the largest value and a range error at a digit that takes the
  number out of 64 bits. \<^verbatim>\<open>strconv.ParseInt(s, 10, 64)\<close> takes an optional sign off,
  calls it, and returns the nearest bound with a range error for a number out of the
  signed range. With \<^verbatim>\<open>int\<close> 64 bits wide, \<^verbatim>\<open>strconv.Atoi\<close> returns the same value
  and the same kind of error as \<^verbatim>\<open>ParseInt\<close>.
\<close>

definition digit_value :: "char \<Rightarrow> nat option" where
  "digit_value c = (if digit c then Some (of_char c - 48) else None)"

fun ParseUint_digits :: "nat \<Rightarrow> string \<Rightarrow> nat \<times> error option" where
  "ParseUint_digits n [] = (n, None)"
| "ParseUint_digits n (c # cs) =
    (case digit_value c of
       None \<Rightarrow> (0, Some (Error ''invalid syntax''))
     | Some d \<Rightarrow>
         if (2 ^ 64 - 1) div 10 + 1 \<le> n then (2 ^ 64 - 1, Some (Error ''value out of range''))
         else if 2 ^ 64 - 1 < n * 10 + d then (2 ^ 64 - 1, Some (Error ''value out of range''))
         else ParseUint_digits (n * 10 + d) cs)"

definition ParseUint :: "string \<Rightarrow> nat \<times> error option" where
  "ParseUint s = (if s = [] then (0, Some (Error ''invalid syntax'')) else ParseUint_digits 0 s)"

definition ParseInt :: "string \<Rightarrow> int64 \<times> error option" where
  "ParseInt s =
    (case s of
       [] \<Rightarrow> (0, Some (Error ''invalid syntax''))
     | c # r \<Rightarrow>
         (let neg = (c = CHR ''-'');
              (un, err) = ParseUint (if c = CHR ''+'' \<or> c = CHR ''-'' then r else s)
          in if err = Some (Error ''invalid syntax'') then (0, err)
             else if \<not> neg \<and> 2 ^ 63 \<le> un then (2 ^ 63 - 1, Some (Error ''value out of range''))
             else if neg \<and> 2 ^ 63 < un then (- (2 ^ 63), Some (Error ''value out of range''))
             else (if neg then - of_nat un else of_nat un, None)))"

definition Atoi :: "string \<Rightarrow> go_int \<times> error option" where
  "Atoi s = ParseInt s"

section \<open>The post handlers\<close>

text \<open>
  \<^verbatim>\<open>PostHandlerV2\<close> holds the cache-backed usecase and the direct one. A handler returns
  the response, the goroutines the usecase started, and the state.
\<close>

record 'w PostHandlerV2 =
  postUsecase :: "'w post_repository"
  directPostUsecase :: "'w post_repository"

definition NewPostHandlerV2 :: "'w post_repository \<Rightarrow> 'w post_repository \<Rightarrow> 'w PostHandlerV2" where
  "NewPostHandlerV2 cached direct = \<lparr> postUsecase = cached, directPostUsecase = direct \<rparr>"

definition selectUsecase :: "'w PostHandlerV2 \<Rightarrow> bool \<Rightarrow> 'w post_repository" where
  "selectUsecase h noCache = (if noCache then directPostUsecase h else postUsecase h)"

definition PostHandlerV2_GetPosts ::
  "'w PostHandlerV2 \<Rightarrow> go_int \<Rightarrow> go_int \<Rightarrow> bool \<Rightarrow> 'w \<Rightarrow> (response \<times> 'w goroutine list) \<times> 'w"
where
  "PostHandlerV2_GetPosts h page pageSize noCache w =
    (let uc = selectUsecase h noCache;
         (res, w1) = GetPosts uc page pageSize w
     in case res of
          Inl err \<Rightarrow> ((JSON 500 (ErrorBody ''Failed to retrieve posts''), []), w1)
        | Inr (posts, totalCount) \<Rightarrow>
            ((JSON 200 (PostsPageBody posts totalCount page pageSize), []), w1))"

definition PostHandlerV2_GetPostByID ::
  "'w PostHandlerV2 \<Rightarrow> int64 \<Rightarrow> bool \<Rightarrow> 'w \<Rightarrow> (response \<times> 'w goroutine list) \<times> 'w"
where
  "PostHandlerV2_GetPostByID h postID noCache w =
    (let uc = selectUsecase h noCache;
         ((res, started), w1) = GetPostByID uc postID w
     in case res of
          Inl err \<Rightarrow> ((JSON 404 (ErrorBody ''Post not found''), started), w1)
        | Inr post \<Rightarrow> ((JSON 200 (PostBody post), started), w1))"

definition PostHandlerV2_GetPostBySlug ::
  "'w PostHandlerV2 \<Rightarrow> string \<Rightarrow> bool \<Rightarrow> 'w \<Rightarrow> (response \<times> 'w goroutine list) \<times> 'w"
where
  "PostHandlerV2_GetPostBySlug h slug noCache w =
    (if slug = [] then ((JSON 400 (ErrorBody ''Slug is required''), []), w)
     else
       (let uc = selectUsecase h noCache;
            ((res, started), w1) = GetPostBySlug uc slug w
        in case res of
             Inl err \<Rightarrow> ((JSON 404 (ErrorBody ''Post not found''), started), w1)
           | Inr post \<Rightarrow> ((JSON 200 (PostBody post), started), w1)))"

definition PostHandlerV2_GetPostsByCategory ::
  "'w PostHandlerV2 \<Rightarrow> string \<Rightarrow> go_int \<Rightarrow> go_int \<Rightarrow> bool \<Rightarrow> 'w \<Rightarrow>
     (response \<times> 'w goroutine list) \<times> 'w"
where
  "PostHandlerV2_GetPostsByCategory h slug page pageSize noCache w =
    (if slug = [] then ((JSON 400 (ErrorBody ''Category slug is required''), []), w)
     else
       (let uc = selectUsecase h noCache;
            (res, w1) = GetPostsByCategory uc slug page pageSize w
        in case res of
             Inl err \<Rightarrow> ((JSON 500 (ErrorBody ''Failed to retrieve posts''), []), w1)
           | Inr posts \<Rightarrow> ((JSON 200 (PostsBody posts), []), w1)))"

definition PostHandlerV2_GetPostsByTag ::
  "'w PostHandlerV2 \<Rightarrow> string \<Rightarrow> go_int \<Rightarrow> go_int \<Rightarrow> bool \<Rightarrow> 'w \<Rightarrow>
     (response \<times> 'w goroutine list) \<times> 'w"
where
  "PostHandlerV2_GetPostsByTag h slug page pageSize noCache w =
    (if slug = [] then ((JSON 400 (ErrorBody ''Tag slug is required''), []), w)
     else
       (let uc = selectUsecase h noCache;
            (res, w1) = GetPostsByTag uc slug page pageSize w
        in case res of
             Inl err \<Rightarrow> ((JSON 500 (ErrorBody ''Failed to retrieve posts''), []), w1)
           | Inr posts \<Rightarrow> ((JSON 200 (PostsBody posts), []), w1)))"

definition PostHandlerV2_GetFeaturedPosts ::
  "'w PostHandlerV2 \<Rightarrow> go_int \<Rightarrow> bool \<Rightarrow> 'w \<Rightarrow> (response \<times> 'w goroutine list) \<times> 'w"
where
  "PostHandlerV2_GetFeaturedPosts h limit noCache w =
    (let uc = selectUsecase h noCache;
         (res, w1) = GetFeaturedPosts uc limit w
     in case res of
          Inl err \<Rightarrow> ((JSON 500 (ErrorBody ''Failed to retrieve featured posts''), []), w1)
        | Inr posts \<Rightarrow> ((JSON 200 (PostsBody posts), []), w1))"

subsection \<open>\<^verbatim>\<open>PostHandlerBridge\<close>: from the request to the handler\<close>

definition parseNoCache :: "request \<Rightarrow> bool" where
  "parseNoCache c = (let noCache = QueryParam c ''no_cache'' in noCache = ''true'' \<or> noCache = ''1'')"

definition PostHandlerBridge_GetPosts ::
  "'w PostHandlerV2 \<Rightarrow> request \<Rightarrow> 'w \<Rightarrow> (response \<times> 'w goroutine list) \<times> 'w"
where
  "PostHandlerBridge_GetPosts h c w =
    (let page = fst (Atoi (QueryParam c ''page''));
         page = (if page <s 1 then 1 else page);
         pageSize = fst (Atoi (QueryParam c ''pageSize''));
         pageSize = (if pageSize <s 1 then 20 else pageSize);
         noCache = parseNoCache c
     in PostHandlerV2_GetPosts h page pageSize noCache w)"

definition PostHandlerBridge_GetPostByID ::
  "'w PostHandlerV2 \<Rightarrow> request \<Rightarrow> 'w \<Rightarrow> (response \<times> 'w goroutine list) \<times> 'w"
where
  "PostHandlerBridge_GetPostByID h c w =
    (case ParseInt (Param c ''id'') of
       (postID, Some err) \<Rightarrow> ((JSON 400 (ErrorBody ''Invalid post ID''), []), w)
     | (postID, None) \<Rightarrow> PostHandlerV2_GetPostByID h postID (parseNoCache c) w)"

definition PostHandlerBridge_GetPostBySlug ::
  "'w PostHandlerV2 \<Rightarrow> request \<Rightarrow> 'w \<Rightarrow> (response \<times> 'w goroutine list) \<times> 'w"
where
  "PostHandlerBridge_GetPostBySlug h c w =
    (let slug = Param c ''slug'';
         noCache = parseNoCache c
     in PostHandlerV2_GetPostBySlug h slug noCache w)"

definition PostHandlerBridge_GetPostsByCategory ::
  "'w PostHandlerV2 \<Rightarrow> request \<Rightarrow> 'w \<Rightarrow> (response \<times> 'w goroutine list) \<times> 'w"
where
  "PostHandlerBridge_GetPostsByCategory h c w =
    (let slug = Param c ''slug'';
         page = fst (Atoi (QueryParam c ''page''));
         page = (if page <s 1 then 1 else page);
         pageSize = fst (Atoi (QueryParam c ''pageSize''));
         pageSize = (if pageSize <s 1 then 20 else pageSize);
         noCache = parseNoCache c
     in PostHandlerV2_GetPostsByCategory h slug page pageSize noCache w)"

definition PostHandlerBridge_GetPostsByTag ::
  "'w PostHandlerV2 \<Rightarrow> request \<Rightarrow> 'w \<Rightarrow> (response \<times> 'w goroutine list) \<times> 'w"
where
  "PostHandlerBridge_GetPostsByTag h c w =
    (let slug = Param c ''slug'';
         page = fst (Atoi (QueryParam c ''page''));
         page = (if page <s 1 then 1 else page);
         pageSize = fst (Atoi (QueryParam c ''pageSize''));
         pageSize = (if pageSize <s 1 then 20 else pageSize);
         noCache = parseNoCache c
     in PostHandlerV2_GetPostsByTag h slug page pageSize noCache w)"

definition PostHandlerBridge_GetFeaturedPosts ::
  "'w PostHandlerV2 \<Rightarrow> request \<Rightarrow> 'w \<Rightarrow> (response \<times> 'w goroutine list) \<times> 'w"
where
  "PostHandlerBridge_GetFeaturedPosts h c w =
    (let limit = fst (Atoi (QueryParam c ''limit''));
         limit = (if limit <s 1 then 10 else limit);
         noCache = parseNoCache c
     in PostHandlerV2_GetFeaturedPosts h limit noCache w)"

section \<open>The user handlers\<close>

subsection \<open>\<^verbatim>\<open>UserHandlerV2\<close>\<close>

text \<open>
  The handler of the current \<^verbatim>\<open>main.go\<close>. The read endpoints get the \<^verbatim>\<open>NoCache\<close>
  field of the generated parameter struct, a \<^verbatim>\<open>*bool\<close> the generated binding has
  decoded from the query. The result of \<^verbatim>\<open>ctx.Bind\<close> is given with the request.
\<close>

record 'w UserHandlerV2 =
  userUsecase :: "'w user_repository"
  directUserUsecase :: "'w user_repository"

definition NewUserHandlerV2 :: "'w user_repository \<Rightarrow> 'w user_repository \<Rightarrow> 'w UserHandlerV2" where
  "NewUserHandlerV2 cached direct = \<lparr> userUsecase = cached, directUserUsecase = direct \<rparr>"

definition UserHandlerV2_GetUsers :: "'w UserHandlerV2 \<Rightarrow> bool option \<Rightarrow> 'w \<Rightarrow> response \<times> 'w" where
  "UserHandlerV2_GetUsers h NoCache w =
    (let uc = (if NoCache = Some True then directUserUsecase h else userUsecase h);
         (res, w1) = GetAllUsers uc w
     in case res of
          Inl err \<Rightarrow> (JSON 500 (ErrorBody ''Failed to retrieve users''), w1)
        | Inr us \<Rightarrow> (JSON 200 (UsersBody us), w1))"

definition UserHandlerV2_GetUserById ::
  "'w UserHandlerV2 \<Rightarrow> int64 \<Rightarrow> bool option \<Rightarrow> 'w \<Rightarrow> response \<times> 'w"
where
  "UserHandlerV2_GetUserById h uid NoCache w =
    (let uc = (if NoCache = Some True then directUserUsecase h else userUsecase h);
         (res, w1) = GetUserByID uc uid w
     in case res of
          Inl err \<Rightarrow>
            if errors_Is err sql_ErrNoRows then (JSON 404 (ErrorBody ''User not found''), w1)
            else (JSON 500 (ErrorBody ''Failed to retrieve user''), w1)
        | Inr None \<Rightarrow> (Panic, w1)
        | Inr (Some u) \<Rightarrow> (JSON 200 (UserBody u), w1))"

definition UserHandlerV2_CreateUser ::
  "'w UserHandlerV2 \<Rightarrow> error + CreateUserRequest \<Rightarrow> 'w \<Rightarrow> response \<times> 'w"
where
  "UserHandlerV2_CreateUser h bound w =
    (case bound of
       Inl err \<Rightarrow> (JSON 400 (ErrorBody ''Invalid request body''), w)
     | Inr req \<Rightarrow>
         (let uc = userUsecase h;
              (res, w1) = CreateUser uc (req_Name req) (req_Email req) (req_Age req) w
          in case res of
               Inl err \<Rightarrow> (JSON 500 (ErrorBody ''Failed to create user''), w1)
             | Inr u \<Rightarrow> (JSON 201 (UserBody u), w1)))"

definition UserHandlerV2_UpdateUser ::
  "'w UserHandlerV2 \<Rightarrow> int64 \<Rightarrow> error + UpdateUserRequest \<Rightarrow> 'w \<Rightarrow> response \<times> 'w"
where
  "UserHandlerV2_UpdateUser h uid bound w =
    (case bound of
       Inl err \<Rightarrow> (JSON 400 (ErrorBody ''Invalid request body''), w)
     | Inr req \<Rightarrow>
         (let uc = userUsecase h;
              (res, w1) = UpdateUser uc uid (upd_Name req) (upd_Email req) (upd_Age req) w
          in case res of
               Panicked \<Rightarrow> (Panic, w1)
             | Returned (Inl err) \<Rightarrow>
                 if errors_Is err sql_ErrNoRows then (JSON 404 (ErrorBody ''User not found''), w1)
                 else (JSON 500 (ErrorBody ''Failed to update user''), w1)
             | Returned (Inr u) \<Rightarrow> (JSON 200 (UserBody u), w1)))"

definition UserHandlerV2_DeleteUser :: "'w UserHandlerV2 \<Rightarrow> int64 \<Rightarrow> 'w \<Rightarrow> response \<times> 'w" where
  "UserHandlerV2_DeleteUser h uid w =
    (let uc = userUsecase h;
         (err, w1) = DeleteUser uc uid w
     in case err of
          Some e \<Rightarrow>
            if errors_Is e sql_ErrNoRows then (JSON 404 (ErrorBody ''User not found''), w1)
            else (JSON 500 (ErrorBody ''Failed to delete user''), w1)
        | None \<Rightarrow> (NoContent 204, w1))"

subsection \<open>\<^verbatim>\<open>UserHandler\<close>, the handler on \<^verbatim>\<open>echo.Context\<close>\<close>

text \<open>
  The handler with the two usecases that works on \<^verbatim>\<open>echo.Context\<close> itself: every
  endpoint, the writing ones too, takes its usecase from \<^verbatim>\<open>selectUsecase\<close>.
\<close>

record 'w UserHandler =
  handler_userUsecase :: "'w user_repository"
  handler_directUserUsecase :: "'w user_repository"

definition NewUserHandler :: "'w user_repository \<Rightarrow> 'w user_repository \<Rightarrow> 'w UserHandler" where
  "NewUserHandler cached direct =
    \<lparr> handler_userUsecase = cached, handler_directUserUsecase = direct \<rparr>"

definition UserHandler_selectUsecase :: "'w UserHandler \<Rightarrow> request \<Rightarrow> 'w user_repository" where
  "UserHandler_selectUsecase h c =
    (let noCache = QueryParam c ''no_cache''
     in if noCache = ''true'' \<or> noCache = ''1'' then handler_directUserUsecase h
        else handler_userUsecase h)"

definition UserHandler_GetUsers :: "'w UserHandler \<Rightarrow> request \<Rightarrow> 'w \<Rightarrow> response \<times> 'w" where
  "UserHandler_GetUsers h c w =
    (let uc = UserHandler_selectUsecase h c;
         (res, w1) = GetAllUsers uc w
     in case res of
          Inl err \<Rightarrow> (JSON 500 (ErrorBody ''Failed to retrieve users''), w1)
        | Inr us \<Rightarrow> (JSON 200 (UsersBody us), w1))"

definition UserHandler_GetUserById ::
  "'w UserHandler \<Rightarrow> request \<Rightarrow> int64 \<Rightarrow> 'w \<Rightarrow> response \<times> 'w"
where
  "UserHandler_GetUserById h c uid w =
    (let uc = UserHandler_selectUsecase h c;
         (res, w1) = GetUserByID uc uid w
     in case res of
          Inl err \<Rightarrow>
            if errors_Is err sql_ErrNoRows then (JSON 404 (ErrorBody ''User not found''), w1)
            else (JSON 500 (ErrorBody ''Failed to retrieve user''), w1)
        | Inr None \<Rightarrow> (Panic, w1)
        | Inr (Some u) \<Rightarrow> (JSON 200 (UserBody u), w1))"

definition UserHandler_CreateUser ::
  "'w UserHandler \<Rightarrow> request \<Rightarrow> error + CreateUserRequest \<Rightarrow> 'w \<Rightarrow> response \<times> 'w"
where
  "UserHandler_CreateUser h c bound w =
    (case bound of
       Inl err \<Rightarrow> (JSON 400 (ErrorBody ''Invalid request body''), w)
     | Inr req \<Rightarrow>
         (let uc = UserHandler_selectUsecase h c;
              (res, w1) = CreateUser uc (req_Name req) (req_Email req) (req_Age req) w
          in case res of
               Inl err \<Rightarrow> (JSON 500 (ErrorBody ''Failed to create user''), w1)
             | Inr u \<Rightarrow> (JSON 201 (UserBody u), w1)))"

definition UserHandler_UpdateUser ::
  "'w UserHandler \<Rightarrow> request \<Rightarrow> int64 \<Rightarrow> error + UpdateUserRequest \<Rightarrow> 'w \<Rightarrow> response \<times> 'w"
where
  "UserHandler_UpdateUser h c uid bound w =
    (case bound of
       Inl err \<Rightarrow> (JSON 400 (ErrorBody ''Invalid request body''), w)
     | Inr req \<Rightarrow>
         (let uc = UserHandler_selectUsecase h c;
              (res, w1) = UpdateUser uc uid (upd_Name req) (upd_Email req) (upd_Age req) w
          in case res of
               Panicked \<Rightarrow> (Panic, w1)
             | Returned (Inl err) \<Rightarrow>
                 if errors_Is err sql_ErrNoRows then (JSON 404 (ErrorBody ''User not found''), w1)
                 else (JSON 500 (ErrorBody ''Failed to update user''), w1)
             | Returned (Inr u) \<Rightarrow> (JSON 200 (UserBody u), w1)))"

definition UserHandler_DeleteUser :: "'w UserHandler \<Rightarrow> request \<Rightarrow> int64 \<Rightarrow> 'w \<Rightarrow> response \<times> 'w" where
  "UserHandler_DeleteUser h c uid w =
    (let uc = UserHandler_selectUsecase h c;
         (err, w1) = DeleteUser uc uid w
     in case err of
          Some e \<Rightarrow>
            if errors_Is e sql_ErrNoRows then (JSON 404 (ErrorBody ''User not found''), w1)
            else (JSON 500 (ErrorBody ''Failed to delete user''), w1)
        | None \<Rightarrow> (NoContent 204, w1))"

section \<open>The user-detail usecase and handler\<close>

definition NewUserDetailUsecase :: "'w user_detail_repository \<Rightarrow> 'w user_detail_repository" where
  "NewUserDetailUsecase repo = repo"

definition GetUserDetailByID ::
  "'w user_detail_repository \<Rightarrow> int64 \<Rightarrow> 'w \<Rightarrow> (error + user_detail option) \<times> 'w"
where
  "GetUserDetailByID repo uid w = FindDetailByID repo uid w"

definition GetUserDetailByUsername ::
  "'w user_detail_repository \<Rightarrow> string \<Rightarrow> 'w \<Rightarrow> (error + user_detail option) \<times> 'w"
where
  "GetUserDetailByUsername repo username w = FindDetailByUsername repo username w"

text \<open>\<^verbatim>\<open>err.Error()\<close>: the message of an error, a wrapped error's after its prefix.\<close>

fun Error_text :: "error \<Rightarrow> string" where
  "Error_text (Error msg) = msg"
| "Error_text ErrNoRows = ''sql: no rows in result set''"
| "Error_text (Wrapped msg err) = msg @ Error_text err"

definition UserDetailHandlerV2_GetUserDetailByID ::
  "'w user_detail_repository \<Rightarrow> int64 \<Rightarrow> 'w \<Rightarrow> response \<times> 'w"
where
  "UserDetailHandlerV2_GetUserDetailByID usecase uid w =
    (let (res, w1) = GetUserDetailByID usecase uid w
     in case res of
          Inl err \<Rightarrow>
            if Error_text err = ''sql: no rows in result set''
            then (JSON 404 (ErrorBody ''User not found''), w1)
            else (JSON 500 (ErrorBody ''Failed to fetch user details''), w1)
        | Inr detail \<Rightarrow> (JSON 200 (UserDetailBody detail), w1))"

definition UserDetailHandlerV2_GetUserDetailByUsername ::
  "'w user_detail_repository \<Rightarrow> string \<Rightarrow> 'w \<Rightarrow> response \<times> 'w"
where
  "UserDetailHandlerV2_GetUserDetailByUsername usecase username w =
    (if username = [] then (JSON 400 (ErrorBody ''Username is required''), w)
     else
       (let (res, w1) = GetUserDetailByUsername usecase username w
        in case res of
             Inl err \<Rightarrow>
               if Error_text err = ''sql: no rows in result set''
               then (JSON 404 (ErrorBody ''User not found''), w1)
               else (JSON 500 (ErrorBody ''Failed to fetch user details''), w1)
           | Inr detail \<Rightarrow> (JSON 200 (UserDetailBody detail), w1)))"

definition UserDetailHandlerBridge_GetUserDetailByID ::
  "'w user_detail_repository \<Rightarrow> request \<Rightarrow> 'w \<Rightarrow> response \<times> 'w"
where
  "UserDetailHandlerBridge_GetUserDetailByID usecase c w =
    (case ParseInt (Param c ''id'') of
       (uid, Some err) \<Rightarrow> (JSON 400 (ErrorBody ''Invalid user ID''), w)
     | (uid, None) \<Rightarrow> UserDetailHandlerV2_GetUserDetailByID usecase uid w)"

definition UserDetailHandlerBridge_GetUserDetailByUsername ::
  "'w user_detail_repository \<Rightarrow> request \<Rightarrow> 'w \<Rightarrow> response \<times> 'w"
where
  "UserDetailHandlerBridge_GetUserDetailByUsername usecase c w =
    UserDetailHandlerV2_GetUserDetailByUsername usecase (Param c ''username'') w"

section \<open>The handlers \<^verbatim>\<open>main.go\<close> builds\<close>

definition main_userHandlerV2 :: "'d wiring \<Rightarrow> 'd world UserHandlerV2" where
  "main_userHandlerV2 m =
    NewUserHandlerV2 (NewUserUsecase (cachedUserRepo (cachedUserRepository_of m)))
      (NewUserUsecase (baseUserRepo (mysqlUsers m)))"

definition main_postHandlerV2 :: "'d wiring \<Rightarrow> 'd world PostHandlerV2" where
  "main_postHandlerV2 m =
    NewPostHandlerV2 (NewPostUsecase (cachedPostRepo (cachedPostRepository_of m)))
      (NewPostUsecase (basePostRepo (mysqlPosts m)))"

definition baseUserDetailRepo :: "'d user_detail_repository \<Rightarrow> 'd world user_detail_repository" where
  "baseUserDetailRepo impl =
    \<lparr> FindDetailByID = (\<lambda>uid. on_db (FindDetailByID impl uid)),
      FindDetailByUsername = (\<lambda>username. on_db (FindDetailByUsername impl username)) \<rparr>"

definition main_userDetailUsecase :: "'d user_detail_repository \<Rightarrow> 'd world user_detail_repository" where
  "main_userDetailUsecase impl = NewUserDetailUsecase (baseUserDetailRepo impl)"

text \<open>
  \<^verbatim>\<open>UserHandler\<close> built the way its constructor documents: the usecase over the
  decorator first, the usecase over the base repository second.
\<close>

definition main_userHandler :: "'d wiring \<Rightarrow> 'd world UserHandler" where
  "main_userHandler m =
    NewUserHandler (NewUserUsecase (cachedUserRepo (cachedUserRepository_of m)))
      (NewUserUsecase (baseUserRepo (mysqlUsers m)))"

text \<open>A user-detail repository for concrete runs: the details of a stored user.\<close>

definition detail_of :: "user \<Rightarrow> user_detail" where
  "detail_of u =
    \<lparr> detail_ID = user_ID u, Username = Name u, detail_Email = Email u,
      detail_Status = ''active'', EmailVerified = False, LastLoginAt = None,
      detail_CreatedAt = CreatedAt u, detail_UpdatedAt = UpdatedAt u, Profile = None,
      FollowStats = \<lparr> FollowerCount = 0, FollowingCount = 0 \<rparr>,
      Stats = \<lparr> PostCount = 0, stats_CommentCount = 0, TotalLikes = 0, TotalViews = 0 \<rparr>,
      RecentPosts = [], RecentComments = [], UnreadNotifications = [] \<rparr>"

definition memoryUserDetails :: "memory_db user_detail_repository" where
  "memoryUserDetails =
    \<lparr> FindDetailByID = (\<lambda>uid d.
        if closed d then (Inl db_closed, d)
        else case find (\<lambda>u. user_ID u = uid) (stored_users d) of
               None \<Rightarrow> (Inl no_rows, d)
             | Some u \<Rightarrow> (Inr (Some (detail_of u)), d)),
      FindDetailByUsername = (\<lambda>username d.
        if closed d then (Inl db_closed, d)
        else case find (\<lambda>u. Name u = username) (stored_users d) of
               None \<Rightarrow> (Inl no_rows, d)
             | Some u \<Rightarrow> (Inr (Some (detail_of u)), d)) \<rparr>"

text \<open>A world whose cache holds the list of users and the first post, as the database has them.\<close>

definition listed_world :: "memory_db world" where
  "listed_world =
    \<lparr> db = \<lparr> stored_users = [alice], stored_posts = [hello], closed = False \<rparr>, db_calls = 0,
      redis = example_redis\<lparr>entries :=
        [(''users:all'', ''[{id:1,name:alice}]'', 5 * Minute),
         (''post:1'', ''{id:1,slug:hello,viewCount:0}'', 5 * Minute)]\<rparr> \<rparr>"

definition bob :: user where
  "bob = \<lparr> user_ID = 2, Name = ''bob'', Email = ''bob@example.com'', Age = None,
           CreatedAt = 0, UpdatedAt = 0 \<rparr>"

text \<open>The post routes registered in \<^verbatim>\<open>main.go\<close>, and the handler each is bound to.\<close>

datatype post_route =
    Route_posts
  | Route_posts_featured
  | Route_posts_id
  | Route_posts_slug
  | Route_posts_category
  | Route_posts_tag

definition serve_post ::
  "post_route \<Rightarrow> 'w PostHandlerV2 \<Rightarrow> request \<Rightarrow> 'w \<Rightarrow> (response \<times> 'w goroutine list) \<times> 'w"
where
  "serve_post route h c w =
    (case route of
       Route_posts \<Rightarrow> PostHandlerBridge_GetPosts h c w
     | Route_posts_featured \<Rightarrow> PostHandlerBridge_GetFeaturedPosts h c w
     | Route_posts_id \<Rightarrow> PostHandlerBridge_GetPostByID h c w
     | Route_posts_slug \<Rightarrow> PostHandlerBridge_GetPostBySlug h c w
     | Route_posts_category \<Rightarrow> PostHandlerBridge_GetPostsByCategory h c w
     | Route_posts_tag \<Rightarrow> PostHandlerBridge_GetPostsByTag h c w)"

text \<open>A goroutine that leaves the cache store alone, whenever and wherever it runs.\<close>

definition off_cache :: "'d world goroutine \<Rightarrow> bool" where
  "off_cache g = (\<forall>v. case g v of None \<Rightarrow> True | Some v' \<Rightarrow> redis v' = redis v)"

subsection \<open>A repository that records what it is called with\<close>

datatype repo_call =
    CallFindAllWithDetails go_int go_int
  | CallFindByIDWithDetails int64
  | CallFindBySlugWithDetails string
  | CallFindByCategoryWithDetails string go_int go_int
  | CallFindByTagWithDetails string go_int go_int
  | CallFindFeaturedWithDetails go_int
  | CallGetTotalCount
  | CallIncrementViewCount int64

definition recording_post_repository :: "repo_call list post_repository" where
  "recording_post_repository =
    \<lparr> FindAllWithDetails = (\<lambda>limit offset log. (Inr [], log @ [CallFindAllWithDetails limit offset])),
      FindByIDWithDetails = (\<lambda>postID log. (Inr None, log @ [CallFindByIDWithDetails postID])),
      FindBySlugWithDetails = (\<lambda>slug log. (Inr None, log @ [CallFindBySlugWithDetails slug])),
      FindByCategoryWithDetails =
        (\<lambda>slug limit offset log. (Inr [], log @ [CallFindByCategoryWithDetails slug limit offset])),
      FindByTagWithDetails =
        (\<lambda>slug limit offset log. (Inr [], log @ [CallFindByTagWithDetails slug limit offset])),
      FindFeaturedWithDetails = (\<lambda>limit log. (Inr [], log @ [CallFindFeaturedWithDetails limit])),
      GetTotalCount = (\<lambda>log. (Inr 0, log @ [CallGetTotalCount])),
      IncrementViewCount = (\<lambda>postID log. (None, log @ [CallIncrementViewCount postID])) \<rparr>"

section \<open>The handlers of the earlier generations\<close>

text \<open>
  The sources hold three generations of handlers. The first holds one usecase and never
  reads \<^verbatim>\<open>no_cache\<close>: \<^verbatim>\<open>PostHandler\<close> of \<^verbatim>\<open>post_handler.go\<close>, the \<^verbatim>\<open>UserHandler\<close>
  whose constructor takes one usecase, and \<^verbatim>\<open>UserDetailHandler\<close>. The second holds the
  cache-backed and the direct usecase and chooses between them by a \<^verbatim>\<open>selectUsecase\<close> on
  \<^verbatim>\<open>echo.Context\<close>: the \<^verbatim>\<open>UserHandler\<close> above and the \<^verbatim>\<open>PostHandler\<close> whose
  constructor takes two usecases. The third is the V2 handlers behind their bridges. Go
  gives the first two generations the same type names; the names of the first carry a 1
  here. A handler of the first generation holds its usecase and nothing else, and is
  written as a function of the usecase.
\<close>

subsection \<open>\<^verbatim>\<open>PostHandler\<close> with one usecase\<close>

definition PostHandler1_GetPosts ::
  "'w post_repository \<Rightarrow> request \<Rightarrow> 'w \<Rightarrow> (response \<times> 'w goroutine list) \<times> 'w"
where
  "PostHandler1_GetPosts usecase c w =
    (let page = fst (Atoi (QueryParam c ''page''));
         page = (if page <s 1 then 1 else page);
         pageSize = fst (Atoi (QueryParam c ''pageSize''));
         pageSize = (if pageSize <s 1 then 20 else pageSize);
         (res, w1) = GetPosts usecase page pageSize w
     in case res of
          Inl err \<Rightarrow> ((JSON 500 (ErrorBody ''Failed to retrieve posts''), []), w1)
        | Inr (posts, totalCount) \<Rightarrow>
            ((JSON 200 (PostsPageBody posts totalCount page pageSize), []), w1))"

definition PostHandler1_GetPostByID ::
  "'w post_repository \<Rightarrow> request \<Rightarrow> 'w \<Rightarrow> (response \<times> 'w goroutine list) \<times> 'w"
where
  "PostHandler1_GetPostByID usecase c w =
    (case ParseInt (Param c ''id'') of
       (postID, Some err) \<Rightarrow> ((JSON 400 (ErrorBody ''Invalid post ID''), []), w)
     | (postID, None) \<Rightarrow>
         (let ((res, started), w1) = GetPostByID usecase postID w
          in case res of
               Inl err \<Rightarrow> ((JSON 404 (ErrorBody ''Post not found''), started), w1)
             | Inr post \<Rightarrow> ((JSON 200 (PostBody post), started), w1)))"

definition PostHandler1_GetPostBySlug ::
  "'w post_repository \<Rightarrow> request \<Rightarrow> 'w \<Rightarrow> (response \<times> 'w goroutine list) \<times> 'w"
where
  "PostHandler1_GetPostBySlug usecase c w =
    (let slug = Param c ''slug''
     in if slug = [] then ((JSON 400 (ErrorBody ''Slug is required''), []), w)
        else
          (let ((res, started), w1) = GetPostBySlug usecase slug w
           in case res of
                Inl err \<Rightarrow> ((JSON 404 (ErrorBody ''Post not found''), started), w1)
              | Inr post \<Rightarrow> ((JSON 200 (PostBody post), started), w1)))"

definition PostHandler1_GetPostsByCategory ::
  "'w post_repository \<Rightarrow> request \<Rightarrow> 'w \<Rightarrow> (response \<times> 'w goroutine list) \<times> 'w"
where
  "PostHandler1_GetPostsByCategory usecase c w =
    (let slug = Param c ''slug''
     in if slug = [] then ((JSON 400 (ErrorBody ''Category slug is required''), []), w)
        else
          (let page = fst (Atoi (QueryParam c ''page''));
               page = (if page <s 1 then 1 else page);
               pageSize = fst (Atoi (QueryParam c ''pageSize''));
               pageSize = (if pageSize <s 1 then 20 else pageSize);
               (res, w1) = GetPostsByCategory usecase slug page pageSize w
           in case res of
                Inl err \<Rightarrow> ((JSON 500 (ErrorBody ''Failed to retrieve posts''), []), w1)
              | Inr posts \<Rightarrow> ((JSON 200 (PostsBody posts), []), w1)))"

definition PostHandler1_GetPostsByTag ::
  "'w post_repository \<Rightarrow> request \<Rightarrow> 'w \<Rightarrow> (response \<times> 'w goroutine list) \<times> 'w"
where
  "PostHandler1_GetPostsByTag usecase c w =
    (let slug = Param c ''slug''
     in if slug = [] then ((JSON 400 (ErrorBody ''Tag slug is required''), []), w)
        else
          (let page = fst (Atoi (QueryParam c ''page''));
               page = (if page <s 1 then 1 else page);
               pageSize = fst (Atoi (QueryParam c ''pageSize''));
               pageSize = (if pageSize <s 1 then 20 else pageSize);
               (res, w1) = GetPostsByTag usecase slug page pageSize w
           in case res of
                Inl err \<Rightarrow> ((JSON 500 (ErrorBody ''Failed to retrieve posts''), []), w1)
              | Inr posts \<Rightarrow> ((JSON 200 (PostsBody posts), []), w1)))"

definition PostHandler1_GetFeaturedPosts ::
  "'w post_repository \<Rightarrow> request \<Rightarrow> 'w \<Rightarrow> (response \<times> 'w goroutine list) \<times> 'w"
where
  "PostHandler1_GetFeaturedPosts usecase c w =
    (let limit = fst (Atoi (QueryParam c ''limit''));
         limit = (if limit <s 1 then 10 else limit);
         (res, w1) = GetFeaturedPosts usecase limit w
     in case res of
          Inl err \<Rightarrow> ((JSON 500 (ErrorBody ''Failed to retrieve featured posts''), []), w1)
        | Inr posts \<Rightarrow> ((JSON 200 (PostsBody posts), []), w1))"

definition serve_PostHandler1 ::
  "post_route \<Rightarrow> 'w post_repository \<Rightarrow> request \<Rightarrow> 'w \<Rightarrow> (response \<times> 'w goroutine list) \<times> 'w"
where
  "serve_PostHandler1 route usecase c w =
    (case route of
       Route_posts \<Rightarrow> PostHandler1_GetPosts usecase c w
     | Route_posts_featured \<Rightarrow> PostHandler1_GetFeaturedPosts usecase c w
     | Route_posts_id \<Rightarrow> PostHandler1_GetPostByID usecase c w
     | Route_posts_slug \<Rightarrow> PostHandler1_GetPostBySlug usecase c w
     | Route_posts_category \<Rightarrow> PostHandler1_GetPostsByCategory usecase c w
     | Route_posts_tag \<Rightarrow> PostHandler1_GetPostsByTag usecase c w)"

subsection \<open>\<^verbatim>\<open>PostHandler\<close> with two usecases\<close>

record 'w PostHandler =
  handler_postUsecase :: "'w post_repository"
  handler_directPostUsecase :: "'w post_repository"

definition NewPostHandler :: "'w post_repository \<Rightarrow> 'w post_repository \<Rightarrow> 'w PostHandler" where
  "NewPostHandler cached direct =
    \<lparr> handler_postUsecase = cached, handler_directPostUsecase = direct \<rparr>"

definition PostHandler_selectUsecase :: "'w PostHandler \<Rightarrow> request \<Rightarrow> 'w post_repository" where
  "PostHandler_selectUsecase h c =
    (let noCache = QueryParam c ''no_cache''
     in if noCache = ''true'' \<or> noCache = ''1'' then handler_directPostUsecase h
        else handler_postUsecase h)"

definition PostHandler_GetPosts ::
  "'w PostHandler \<Rightarrow> request \<Rightarrow> 'w \<Rightarrow> (response \<times> 'w goroutine list) \<times> 'w"
where
  "PostHandler_GetPosts h c w =
    (let uc = PostHandler_selectUsecase h c;
         page = fst (Atoi (QueryParam c ''page''));
         page = (if page <s 1 then 1 else page);
         pageSize = fst (Atoi (QueryParam c ''pageSize''));
         pageSize = (if pageSize <s 1 then 20 else pageSize);
         (res, w1) = GetPosts uc page pageSize w
     in case res of
          Inl err \<Rightarrow> ((JSON 500 (ErrorBody ''Failed to retrieve posts''), []), w1)
        | Inr (posts, totalCount) \<Rightarrow>
            ((JSON 200 (PostsPageBody posts totalCount page pageSize), []), w1))"

definition PostHandler_GetPostByID ::
  "'w PostHandler \<Rightarrow> request \<Rightarrow> 'w \<Rightarrow> (response \<times> 'w goroutine list) \<times> 'w"
where
  "PostHandler_GetPostByID h c w =
    (let uc = PostHandler_selectUsecase h c
     in case ParseInt (Param c ''id'') of
          (postID, Some err) \<Rightarrow> ((JSON 400 (ErrorBody ''Invalid post ID''), []), w)
        | (postID, None) \<Rightarrow>
            (let ((res, started), w1) = GetPostByID uc postID w
             in case res of
                  Inl err \<Rightarrow> ((JSON 404 (ErrorBody ''Post not found''), started), w1)
                | Inr post \<Rightarrow> ((JSON 200 (PostBody post), started), w1)))"

definition PostHandler_GetPostBySlug ::
  "'w PostHandler \<Rightarrow> request \<Rightarrow> 'w \<Rightarrow> (response \<times> 'w goroutine list) \<times> 'w"
where
  "PostHandler_GetPostBySlug h c w =
    (let uc = PostHandler_selectUsecase h c;
         slug = Param c ''slug''
     in if slug = [] then ((JSON 400 (ErrorBody ''Slug is required''), []), w)
        else
          (let ((res, started), w1) = GetPostBySlug uc slug w
           in case res of
                Inl err \<Rightarrow> ((JSON 404 (ErrorBody ''Post not found''), started), w1)
              | Inr post \<Rightarrow> ((JSON 200 (PostBody post), started), w1)))"

definition PostHandler_GetPostsByCategory ::
  "'w PostHandler \<Rightarrow> request \<Rightarrow> 'w \<Rightarrow> (response \<times> 'w goroutine list) \<times> 'w"
where
  "PostHandler_GetPostsByCategory h c w =
    (let uc = PostHandler_selectUsecase h c;
         slug = Param c ''slug''
     in if slug = [] then ((JSON 400 (ErrorBody ''Category slug is required''), []), w)
        else
          (let page = fst (Atoi (QueryParam c ''page''));
               page = (if page <s 1 then 1 else page);
               pageSize = fst (Atoi (QueryParam c ''pageSize''));
               pageSize = (if pageSize <s 1 then 20 else pageSize);
               (res, w1) = GetPostsByCategory uc slug page pageSize w
           in case res of
                Inl err \<Rightarrow> ((JSON 500 (ErrorBody ''Failed to retrieve posts''), []), w1)
              | Inr posts \<Rightarrow> ((JSON 200 (PostsBody posts), []), w1)))"

definition PostHandler_GetPostsByTag ::
  "'w PostHandler \<Rightarrow> request \<Rightarrow> 'w \<Rightarrow> (response \<times> 'w goroutine list) \<times> 'w"
where
  "PostHandler_GetPostsByTag h c w =
    (let uc = PostHandler_selectUsecase h c;
         slug = Param c ''slug''
     in if slug = [] then ((JSON 400 (ErrorBody ''Tag slug is required''), []), w)
        else
          (let page = fst (Atoi (QueryParam c ''page''));
               page = (if page <s 1 then 1 else page);
               pageSize = fst (Atoi (QueryParam c ''pageSize''));
               pageSize = (if pageSize <s 1 then 20 else pageSize);
               (res, w1) = GetPostsByTag uc slug page pageSize w
           in case res of
                Inl err \<Rightarrow> ((JSON 500 (ErrorBody ''Failed to retrieve posts''), []), w1)
              | Inr posts \<Rightarrow> ((JSON 200 (PostsBody posts), []), w1)))"

definition PostHandler_GetFeaturedPosts ::
  "'w PostHandler \<Rightarrow> request \<Rightarrow> 'w \<Rightarrow> (response \<times> 'w goroutine list) \<times> 'w"
where
  "PostHandler_GetFeaturedPosts h c w =
    (let uc = PostHandler_selectUsecase h c;
         limit = fst (Atoi (QueryParam c ''limit''));
         limit = (if limit <s 1 then 10 else limit);
         (res, w1) = GetFeaturedPosts uc limit w
     in case res of
          Inl err \<Rightarrow> ((JSON 500 (ErrorBody ''Failed to retrieve featured posts''), []), w1)
        | Inr posts \<Rightarrow> ((JSON 200 (PostsBody posts), []), w1))"

definition serve_PostHandler ::
  "post_route \<Rightarrow> 'w PostHandler \<Rightarrow> request \<Rightarrow> 'w \<Rightarrow> (response \<times> 'w goroutine list) \<times> 'w"
where
  "serve_PostHandler route h c w =
    (case route of
       Route_posts \<Rightarrow> PostHandler_GetPosts h c w
     | Route_posts_featured \<Rightarrow> PostHandler_GetFeaturedPosts h c w
     | Route_posts_id \<Rightarrow> PostHandler_GetPostByID h c w
     | Route_posts_slug \<Rightarrow> PostHandler_GetPostBySlug h c w
     | Route_posts_category \<Rightarrow> PostHandler_GetPostsByCategory h c w
     | Route_posts_tag \<Rightarrow> PostHandler_GetPostsByTag h c w)"

subsection \<open>\<^verbatim>\<open>UserHandler\<close> with one usecase\<close>

definition UserHandler1_GetUsers :: "'w user_repository \<Rightarrow> request \<Rightarrow> 'w \<Rightarrow> response \<times> 'w" where
  "UserHandler1_GetUsers usecase c w =
    (let (res, w1) = GetAllUsers usecase w
     in case res of
          Inl err \<Rightarrow> (JSON 500 (ErrorBody ''Failed to retrieve users''), w1)
        | Inr us \<Rightarrow> (JSON 200 (UsersBody us), w1))"

definition UserHandler1_GetUserById ::
  "'w user_repository \<Rightarrow> request \<Rightarrow> int64 \<Rightarrow> 'w \<Rightarrow> response \<times> 'w"
where
  "UserHandler1_GetUserById usecase c uid w =
    (let (res, w1) = GetUserByID usecase uid w
     in case res of
          Inl err \<Rightarrow>
            if errors_Is err sql_ErrNoRows then (JSON 404 (ErrorBody ''User not found''), w1)
            else (JSON 500 (ErrorBody ''Failed to retrieve user''), w1)
        | Inr None \<Rightarrow> (Panic, w1)
        | Inr (Some u) \<Rightarrow> (JSON 200 (UserBody u), w1))"

subsection \<open>\<^verbatim>\<open>UserDetailHandler\<close>\<close>

definition UserDetailHandler_GetUserDetailByID ::
  "'w user_detail_repository \<Rightarrow> request \<Rightarrow> 'w \<Rightarrow> response \<times> 'w"
where
  "UserDetailHandler_GetUserDetailByID usecase c w =
    (case ParseInt (Param c ''id'') of
       (uid, Some err) \<Rightarrow> (JSON 400 (ErrorBody ''Invalid user ID''), w)
     | (uid, None) \<Rightarrow>
         (let (res, w1) = GetUserDetailByID usecase uid w
          in case res of
               Inl err \<Rightarrow>
                 if Error_text err = ''sql: no rows in result set''
                 then (JSON 404 (ErrorBody ''User not found''), w1)
                 else (JSON 500 (ErrorBody ''Failed to fetch user details''), w1)
             | Inr detail \<Rightarrow> (JSON 200 (UserDetailBody detail), w1)))"

definition UserDetailHandler_GetUserDetailByUsername ::
  "'w user_detail_repository \<Rightarrow> request \<Rightarrow> 'w \<Rightarrow> response \<times> 'w"
where
  "UserDetailHandler_GetUserDetailByUsername usecase c w =
    (let username = Param c ''username''
     in if username = [] then (JSON 400 (ErrorBody ''Username is required''), w)
        else
          (let (res, w1) = GetUserDetailByUsername usecase username w
           in case res of
                Inl err \<Rightarrow>
                  if Error_text err = ''sql: no rows in result set''
                  then (JSON 404 (ErrorBody ''User not found''), w1)
                  else (JSON 500 (ErrorBody ''Failed to fetch user details''), w1)
              | Inr detail \<Rightarrow> (JSON 200 (UserDetailBody detail), w1)))"

subsection \<open>\<^verbatim>\<open>UserHandlerBridge\<close> and the generated parameter binding\<close>

text \<open>
  The bridge wraps the request and hands the bound parameters on to \<^verbatim>\<open>UserHandlerV2\<close>.
\<close>

definition UserHandlerBridge_GetUsers ::
  "'w UserHandlerV2 \<Rightarrow> request \<Rightarrow> bool option \<Rightarrow> 'w \<Rightarrow> response \<times> 'w"
where
  "UserHandlerBridge_GetUsers h c params w = UserHandlerV2_GetUsers h params w"

definition UserHandlerBridge_GetUserById ::
  "'w UserHandlerV2 \<Rightarrow> request \<Rightarrow> int64 \<Rightarrow> bool option \<Rightarrow> 'w \<Rightarrow> response \<times> 'w"
where
  "UserHandlerBridge_GetUserById h c uid params w = UserHandlerV2_GetUserById h uid params w"

text \<open>
  Modelled from the spec: the binding of the query parameter \<^verbatim>\<open>no_cache\<close> into the
  \<^verbatim>\<open>NoCache\<close> field of \<^verbatim>\<open>gen.GetUsersParams\<close> and \<^verbatim>\<open>gen.GetUserByIdParams\<close> belongs
  to the generated package \<^verbatim>\<open>api/gen\<close>, which is not among the sources. The spec gives
  the parameter as boolean-like, with the accepted values \<^verbatim>\<open>true\<close> or \<^verbatim>\<open>1\<close> for true,
  anything else false, defaulting to false: the field is unset when the parameter is
  absent, true for the two accepted values and false for every other value.
\<close>

definition bind_NoCache :: "request \<Rightarrow> bool option" where
  "bind_NoCache c =
    (case map_of (query c) ''no_cache'' of
       None \<Rightarrow> None
     | Some v \<Rightarrow> Some (v = ''true'' \<or> v = ''1''))"

text \<open>
  Modelled from the spec: the wrapper of the generated package \<^verbatim>\<open>api/gen\<close> that serves
  \<^verbatim>\<open>GET /users\<close>, not among the sources either. It binds the parameters and calls the
  \<^verbatim>\<open>gen.ServerInterface\<close> registered with it, which in \<^verbatim>\<open>main.go\<close> is the bridge.
\<close>

definition ServerInterfaceWrapper_GetUsers ::
  "'w UserHandlerV2 \<Rightarrow> request \<Rightarrow> 'w \<Rightarrow> response \<times> 'w"
where
  "ServerInterfaceWrapper_GetUsers h c w = UserHandlerBridge_GetUsers h c (bind_NoCache c) w"

text \<open>
  Modelled from the spec: the generated wrapper that serves \<^verbatim>\<open>GET /users/{id}\<close>. The
  identifier is the path parameter as the wrapper has decoded it.
\<close>

definition ServerInterfaceWrapper_GetUserById ::
  "'w UserHandlerV2 \<Rightarrow> request \<Rightarrow> int64 \<Rightarrow> 'w \<Rightarrow> response \<times> 'w"
where
  "ServerInterfaceWrapper_GetUserById h c uid w =
    UserHandlerBridge_GetUserById h c uid (bind_NoCache c) w"

subsection \<open>How these handlers are built\<close>

text \<open>
  \<^verbatim>\<open>PostHandler\<close> with two usecases built the way its constructor documents: the
  usecase over the decorator first, the usecase over the base repository second.
\<close>

definition main_postHandler :: "'d wiring \<Rightarrow> 'd world PostHandler" where
  "main_postHandler m =
    NewPostHandler (NewPostUsecase (cachedPostRepo (cachedPostRepository_of m)))
      (NewPostUsecase (basePostRepo (mysqlPosts m)))"

text \<open>
  The earlier \<^verbatim>\<open>main\<close>, which registers the handlers of the first generation, gives
  both of them the usecase over the decorator.
\<close>

definition main1_userUsecase :: "'d wiring \<Rightarrow> 'd world user_repository" where
  "main1_userUsecase m = NewUserUsecase (cachedUserRepo (cachedUserRepository_of m))"

definition main1_postUsecase :: "'d wiring \<Rightarrow> 'd world post_repository" where
  "main1_postUsecase m = NewPostUsecase (cachedPostRepo (cachedPostRepository_of m))"

text \<open>
  The request with \<^verbatim>\<open>no_cache=v\<close> put in front of its query string: \<^verbatim>\<open>QueryParam\<close>
  returns the first value of a name.
\<close>

definition with_no_cache :: "string \<Rightarrow> request \<Rightarrow> request" where
  "with_no_cache v c = c\<lparr>query := (''no_cache'', v) # query c\<rparr>"

section \<open>A wrapped repository that returns \<^verbatim>\<open>nil\<close>\<close>

text \<open>
  The decorators wrap any implementation of the repository interface. The
  \<^verbatim>\<open>mockUserRepository\<close> of the usecase tests returns \<^verbatim>\<open>nil, nil\<close> from \<^verbatim>\<open>FindByID\<close>
  when no user has the identifier; \<open>mockUsers\<close> is the in-memory repository with that
  \<^verbatim>\<open>FindByID\<close>.
\<close>

definition mockUsers :: "memory_db user_repository" where
  "mockUsers =
    memoryUsers\<lparr>FindByID := (\<lambda>uid d. (Inr (find (\<lambda>u. user_ID u = uid) (stored_users d)), d))\<rparr>"

text \<open>
  \<^verbatim>\<open>json.Unmarshal\<close> reads the text \<^verbatim>\<open>null\<close> into a struct variable without changing it
  and without an error: the variable keeps the zero value it was declared with.
\<close>

definition zero_user :: user where
  "zero_user = \<lparr> user_ID = 0, Name = [], Email = [], Age = None,
                 CreatedAt = zero_time, UpdatedAt = zero_time \<rparr>"

definition reading_null :: "'a \<Rightarrow> 'a json \<Rightarrow> 'a json" where
  "reading_null zero j =
    j\<lparr>Unmarshal := (\<lambda>text. if text = ''null'' then Some zero else Unmarshal j text)\<rparr>"

definition mock_wiring :: "memory_db wiring" where
  "mock_wiring =
    example_wiring\<lparr>mysqlUsers := mockUsers,
                    jsonUser := reading_null zero_user (jsonUser example_wiring)\<rparr>"

text \<open>The example world with a cache store that answers no command.\<close>

definition unreachable_cache_world :: "memory_db world" where
  "unreachable_cache_world = with_failures (\<lambda>n. True) example_world"

section \<open>Pagination of the list operations\<close>

lemma strconv_runs:
  "ParseInt ''42'' = (42, None)"
  "ParseInt ''-9223372036854775808'' = (- 9223372036854775808, None)"
  "ParseInt ''-9223372036854775809'' = (- 9223372036854775808, Some (Error ''value out of range''))"
  "ParseInt ''99999999999999999999x'' = (9223372036854775807, Some (Error ''value out of range''))"
  "ParseInt ''12x'' = (0, Some (Error ''invalid syntax''))"
  "ParseInt ''+'' = (0, Some (Error ''invalid syntax''))"
  by (simp_all add: ParseInt_def ParseUint_def digit_value_def digit_def)

lemma recorded_GetPosts:
  "snd (GetPosts recording_post_repository page pageSize log) =
     log @ [CallFindAllWithDetails
              (if pageSize <s 1 \<or> 100 <s pageSize then 20 else pageSize)
              (((if page <s 1 then 1 else page) - 1)
                 * (if pageSize <s 1 \<or> 100 <s pageSize then 20 else pageSize)),
            CallGetTotalCount]"
  by (simp add: GetPosts_def recording_post_repository_def Let_def)

lemma recorded_GetPostsByCategory:
  "slug \<noteq> [] \<Longrightarrow>
   snd (GetPostsByCategory recording_post_repository slug page pageSize log) =
     log @ [CallFindByCategoryWithDetails slug
              (if pageSize <s 1 \<or> 100 <s pageSize then 20 else pageSize)
              (((if page <s 1 then 1 else page) - 1)
                 * (if pageSize <s 1 \<or> 100 <s pageSize then 20 else pageSize))]"
  by (simp add: GetPostsByCategory_def recording_post_repository_def Let_def)

lemma recorded_GetPostsByTag:
  "slug \<noteq> [] \<Longrightarrow>
   snd (GetPostsByTag recording_post_repository slug page pageSize log) =
     log @ [CallFindByTagWithDetails slug
              (if pageSize <s 1 \<or> 100 <s pageSize then 20 else pageSize)
              (((if page <s 1 then 1 else page) - 1)
                 * (if pageSize <s 1 \<or> 100 <s pageSize then 20 else pageSize))]"
  by (simp add: GetPostsByTag_def recording_post_repository_def Let_def)

lemma limit_in_range:
  "1 \<le>s (if pageSize <s 1 \<or> 100 <s pageSize then 20 else pageSize :: go_int) \<and>
   (if pageSize <s 1 \<or> 100 <s pageSize then 20 else pageSize) \<le>s 100"
  by (auto simp add: word_sle_eq word_sless_alt)

text \<open>
  C10. The list operations are to hand the repository a limit in 1..100 and the offset
  (page - 1) * limit, which is never negative. The limit is as claimed
  (\<open>limit_in_range\<close>), and the offset is that product in 64-bit arithmetic. For the page
  9223372036854775807, which \<^verbatim>\<open>strconv.Atoi\<close> returns for that text and for every
  longer run of digits, and the page size 20, the product wraps around: the repository is
  asked for the offset -40. The request \<^verbatim>\<open>GET /posts?page=99999999999999999999\<close> gets
  there.
\<close>

theorem GetPosts_offset_overflow:
  "snd (GetPosts recording_post_repository 9223372036854775807 20 []) =
     [CallFindAllWithDetails 20 (- 40), CallGetTotalCount] \<and>
   snd (GetPostsByCategory recording_post_repository ''go'' 9223372036854775807 20 []) =
     [CallFindByCategoryWithDetails ''go'' 20 (- 40)] \<and>
   snd (GetPostsByTag recording_post_repository ''go'' 9223372036854775807 20 []) =
     [CallFindByTagWithDetails ''go'' 20 (- 40)] \<and>
   sint (- 40 :: go_int) = - 40 \<and> (- 40 :: go_int) <s 0 \<and>
   Atoi ''99999999999999999999'' = (9223372036854775807, Some (Error ''value out of range'')) \<and>
   snd (serve_post Route_posts
          (NewPostHandlerV2 recording_post_repository recording_post_repository)
          \<lparr>query = [(''page'', ''99999999999999999999'')], path = []\<rparr> []) =
     [CallFindAllWithDetails 20 (- 40), CallGetTotalCount]"
proof -
  have a: "Atoi ''99999999999999999999'' = (9223372036854775807, Some (Error ''value out of range''))"
    "Atoi [] = (0, Some (Error ''invalid syntax''))"
    by (simp_all add: Atoi_def ParseInt_def ParseUint_def digit_value_def digit_def)
  have "snd (serve_post Route_posts
          (NewPostHandlerV2 recording_post_repository recording_post_repository)
          \<lparr>query = [(''page'', ''99999999999999999999'')], path = []\<rparr> []) =
     snd (GetPosts recording_post_repository 9223372036854775807 20 [])"
    by (simp add: serve_post_def PostHandlerBridge_GetPosts_def PostHandlerV2_GetPosts_def
        selectUsecase_def NewPostHandlerV2_def QueryParam_def a word_sless_alt Let_def
        split: prod.splits sum.splits)
  then show ?thesis
    by (simp add: recorded_GetPosts recorded_GetPostsByCategory recorded_GetPostsByTag
        word_sless_alt a)
qed

section \<open>Facts about the cache store and the read methods\<close>

lemma cached_read_through:
  "perform_read (cachedUserRepo ur) (cachedPostRepo pr) call w =
   read_through (cacheKey_of call) (deserialize ur pr call) (serialize ur pr) (ttl_of ur pr call)
     (perform_read (user_baseRepo ur) (post_baseRepo pr) call) w"
  apply (cases call)
  apply (simp_all add: perform_read_def cachedUserRepo_def cachedPostRepo_def cacheKey_of_def
      deserialize_def serialize_def ttl_of_def read_through_def returning_def
      cachedUser_FindAll_def cachedUser_FindByID_def cachedPost_FindAllWithDetails_def
      cachedPost_FindByIDWithDetails_def cachedPost_FindBySlugWithDetails_def
      cachedPost_FindByCategoryWithDetails_def cachedPost_FindByTagWithDetails_def
      cachedPost_FindFeaturedWithDetails_def cachedPost_GetTotalCount_def
      Let_def split: prod.splits sum.splits option.splits)
  done

lemma lookup_cong:
  "entries c' = entries c \<Longrightarrow> now c' = now c \<Longrightarrow> lookup c' k = lookup c k"
  by (simp add: lookup_def split: option.splits)

lemma read_through_hit:
  "cache_hit cacheKey decode (redis w) = Some v \<Longrightarrow>
   read_through cacheKey decode encode expiration fetch w = (Inr v, w\<lparr>redis := sent (redis w)\<rparr>)"
  by (auto simp add: read_through_def cache_hit_def on_redis_def redis_Get_def Let_def
      split: if_splits option.splits)

lemma read_through_miss:
  "cache_hit cacheKey decode (redis w) = None \<Longrightarrow>
   read_through cacheKey decode encode expiration (on_db f) w =
     (case f (db w) of
        (Inl err, d) \<Rightarrow> (Inl err, w\<lparr>db := d, db_calls := db_calls w + 1, redis := sent (redis w)\<rparr>)
      | (Inr v, d) \<Rightarrow>
          (Inr v, w\<lparr>db := d, db_calls := db_calls w + 1,
                     redis := snd (redis_Set cacheKey (encode v) expiration (sent (redis w)))\<rparr>))"
  by (auto simp add: read_through_def cache_hit_def on_redis_def on_db_def redis_Get_def Let_def
      split: if_splits option.splits prod.splits sum.splits)

lemma returning_on_db:
  "returning tag (on_db f w) = on_db (\<lambda>d. returning tag (f d)) w"
  by (auto simp add: returning_def on_db_def Let_def split: prod.splits sum.splits)

lemma base_read_on_db:
  "perform_read (baseUserRepo iu) (basePostRepo ip) call = on_db (perform_read iu ip call)"
  apply (rule ext)
  apply (cases call)
  apply (simp_all add: perform_read_def[abs_def] baseUserRepo_def basePostRepo_def returning_on_db)
  done

lemma lookup_sent: "lookup (sent c) k = lookup c k"
  by (simp add: lookup_def sent_def split: option.splits)

lemma map_of_filter_fst: "map_of (filter (\<lambda>e. P (fst e)) xs) k = (if P k then map_of xs k else None)"
  by (induction xs) auto

lemma lookup_after_Set:
  "\<not> fails c (commands c) \<Longrightarrow>
   lookup (snd (redis_Set key payload expiration c)\<lparr>now := t\<rparr>) k =
     (if k = key then (if t < now c + expiration then Some payload else None)
      else lookup (c\<lparr>now := t\<rparr>) k)"
  by (auto simp add: redis_Set_def lookup_def sent_def map_of_filter_fst[where P = "\<lambda>k. k \<noteq> key"]
      split: option.splits)

lemma lookup_filter:
  "lookup (c\<lparr>entries := filter (\<lambda>e. P (fst e)) (entries c)\<rparr>) k = (if P k then lookup c k else None)"
  by (simp add: lookup_def map_of_filter_fst split: option.splits)

lemma glob_star: "glob_match ''*'' s"
  by (induction s) auto

lemma glob_posts: "glob_match ''posts:*'' s \<longleftrightarrow> take 6 s = ''posts:''"
  apply (cases s; simp)
  subgoal for c1 s1 apply (cases s1; simp)
  subgoal for c2 s2 apply (cases s2; simp)
  subgoal for c3 s3 apply (cases s3; simp)
  subgoal for c4 s4 apply (cases s4; simp)
  subgoal for c5 s5 apply (cases s5; simp)
  subgoal for c6 s6 using glob_star[of s6] glob_star[of "c6 # s6"] apply (auto )
  done done done done done done
  done

lemma cached_read_eq:
  "cached_read m call w =
   read_through (cacheKey_of call) (loaded_form m call) (stored_form m) (5 * Minute)
     (on_db (perform_read (mysqlUsers m) (mysqlPosts m) call)) w"
proof -
  have t: "ttl_of (cachedUserRepository_of m) (cachedPostRepository_of m) call = 5 * Minute"
    by (cases call)
      (simp_all add: ttl_of_def cachedUserRepository_of_def cachedPostRepository_of_def
        NewCachedUserRepository_def NewCachedPostRepository_def)
  have b: "perform_read (user_baseRepo (cachedUserRepository_of m))
             (post_baseRepo (cachedPostRepository_of m)) call
           = on_db (perform_read (mysqlUsers m) (mysqlPosts m) call)"
    by (simp add: cachedUserRepository_of_def cachedPostRepository_of_def
        NewCachedUserRepository_def NewCachedPostRepository_def base_read_on_db)
  show ?thesis
    unfolding cached_read_def cached_read_through t b loaded_form_def stored_form_def
    by (simp add: fun_eq_iff[symmetric])
qed

lemma direct_read_eq:
  "direct_read m call w = on_db (perform_read (mysqlUsers m) (mysqlPosts m) call) w"
  by (simp add: direct_read_def base_read_on_db)

lemma cached_read_cases:
  "cached_read m call w =
    (case cache_hit (cacheKey_of call) (loaded_form m call) (redis w) of
       Some v \<Rightarrow> (Inr v, w\<lparr>redis := sent (redis w)\<rparr>)
     | None \<Rightarrow>
        (case perform_read (mysqlUsers m) (mysqlPosts m) call (db w) of
          (Inl err, d) \<Rightarrow> (Inl err, w\<lparr>db := d, db_calls := db_calls w + 1, redis := sent (redis w)\<rparr>)
        | (Inr v, d) \<Rightarrow>
          (Inr v, w\<lparr>db := d, db_calls := db_calls w + 1,
                     redis := snd (redis_Set (cacheKey_of call) (stored_form m v) (5 * Minute) (sent (redis w)))\<rparr>)))"
proof (cases "cache_hit (cacheKey_of call) (loaded_form m call) (redis w)")
  case None
  then show ?thesis
    unfolding cached_read_eq by (simp add: read_through_miss)
next
  case (Some v)
  then show ?thesis
    unfolding cached_read_eq by (simp add: read_through_hit)
qed

lemma direct_read_cases:
  "direct_read m call w =
    (case perform_read (mysqlUsers m) (mysqlPosts m) call (db w) of
       (r, d) \<Rightarrow> (r, w\<lparr>db := d, db_calls := db_calls w + 1\<rparr>))"
  by (simp add: direct_read_eq on_db_def)

subsection \<open>Evaluation of the concrete runs\<close>

lemma fmt_d_1: "fmt_d 1 = ''1''"
  by (simp add: fmt_d_def itoa_nat.simps digit_char_def)

lemma getCacheKey_1: "getCacheKey 1 = ''user:1''"
  by (simp add: getCacheKey_def fmt_d_1)

lemmas example_defs =
  cache_hit_def cacheKey_of_def getCacheKey_1 example_world_def broken_world_def
  example_redis_def lookup_def perform_read_def example_wiring_def memoryUsers_def
  memoryPosts_def returning_def alice_def stored_form_def loaded_form_def serialize_def
  deserialize_def cachedUserRepository_of_def cachedPostRepository_of_def
  NewCachedUserRepository_def NewCachedPostRepository_def marshalled_ptr_def marshalled_def
  table_json_def redis_Set_def sent_def at_time_def with_failures_def db_closed_def

section \<open>Read-through\<close>

lemma fmt_d_2: "fmt_d 2 = ''2''"
  by (simp add: fmt_d_def itoa_nat.simps digit_char_def)

lemma getCacheKey_2: "getCacheKey 2 = ''user:2''"
  by (simp add: getCacheKey_def fmt_d_2)

lemma nil_pointer_is_not_read_back:
  "loaded_form m (UserFindByID uid) (stored_form m (UserPtr None)) \<noteq> Some (UserPtr None)"
  "loaded_form m (PostFindByIDWithDetails postID) (stored_form m (PostPtr None))
     \<noteq> Some (PostPtr None)"
  "loaded_form m (PostFindBySlugWithDetails slug) (stored_form m (PostPtr None))
     \<noteq> Some (PostPtr None)"
  by (auto simp add: loaded_form_def deserialize_def)

text \<open>
  C1, as stated, has the second read return the result of the first without a call of the
  wrapped repository. Two runs where it does not. In the first the wrapped repository
  returns \<^verbatim>\<open>nil\<close>, no user having the identifier 2: the read on the cold cache returns
  \<^verbatim>\<open>nil\<close> as the direct read does and stores the text \<^verbatim>\<open>null\<close>; the second read is
  served from the store, without a call of the repository, and returns a pointer to a
  zero user. In the second the cache store answers no command: the read on the cold cache
  returns the user as the direct read does, nothing is stored, and the second read calls
  the wrapped repository again.
\<close>

theorem second_read_can_differ:
  "lookup (redis example_world) (cacheKey_of (UserFindByID 2)) = None
   \<and> fst (direct_read mock_wiring (UserFindByID 2) example_world) = Inr (UserPtr None)
   \<and> fst (cached_read mock_wiring (UserFindByID 2) example_world) = Inr (UserPtr None)
   \<and> fst (cached_read mock_wiring (UserFindByID 2)
            (snd (cached_read mock_wiring (UserFindByID 2) example_world)))
       = Inr (UserPtr (Some zero_user))
   \<and> db_calls (snd (cached_read mock_wiring (UserFindByID 2)
            (snd (cached_read mock_wiring (UserFindByID 2) example_world)))) = 1
   \<and> lookup (redis unreachable_cache_world) (cacheKey_of (UserFindByID 1)) = None
   \<and> fst (cached_read example_wiring (UserFindByID 1) unreachable_cache_world)
       = Inr (UserPtr (Some alice))
   \<and> fst (cached_read example_wiring (UserFindByID 1)
            (snd (cached_read example_wiring (UserFindByID 1) unreachable_cache_world)))
       = Inr (UserPtr (Some alice))
   \<and> db_calls (snd (cached_read example_wiring (UserFindByID 1)
            (snd (cached_read example_wiring (UserFindByID 1) unreachable_cache_world)))) = 2"
  by (simp add: cached_read_cases direct_read_cases example_defs getCacheKey_2 mock_wiring_def
      mockUsers_def reading_null_def zero_user_def unreachable_cache_world_def Minute_def)

text \<open>
  C1, amended. Read-through correctness, for every read call of the two decorators. A
  read on a cold cache (no live entry under the key of the call) returns what the wrapped
  repository returns for the call, and leaves the database as that call leaves it. When
  that read returned a value \<open>v\<close>, the \<^verbatim>\<open>SET\<close> it sent and the \<^verbatim>\<open>GET\<close> of the next
  read are answered by the store, and what the decorator stores for \<open>v\<close> is read back as
  \<open>v\<close> (the JSON encoding round-trips; for a \<^verbatim>\<open>nil\<close> pointer it does not, see
  \<open>nil_pointer_is_not_read_back\<close>), then a second read of the same call at any instant
  \<open>t\<close> before the entry's expiry (five minutes after the first read) returns the result of
  the first read and changes nothing but the store's command count: the wrapped
  repository is not called.
\<close>

theorem read_through_correctness:
  assumes cold: "lookup (redis w) (cacheKey_of call) = None"
      and first: "cached_read m call w = (res, w1)"
  shows "res = fst (direct_read m call w) \<and> db w1 = db (snd (direct_read m call w))
     \<and> (\<forall>v t. res = Inr v \<and> \<not> fails (redis w) (commands (redis w) + 1)
            \<and> \<not> fails (redis w) (commands (redis w) + 2)
            \<and> loaded_form m call (stored_form m v) = Some v \<and> t < now (redis w) + 5 * Minute
          \<longrightarrow> cached_read m call (at_time t w1)
              = (res, (at_time t w1)\<lparr>redis := sent (redis (at_time t w1))\<rparr>))"
proof -
  let ?key = "cacheKey_of call"
  have miss: "cache_hit ?key (loaded_form m call) (redis w) = None"
    using cold by (simp add: cache_hit_def)
  obtain r d where f: "perform_read (mysqlUsers m) (mysqlPosts m) call (db w) = (r, d)"
    by (cases "perform_read (mysqlUsers m) (mysqlPosts m) call (db w)")
  have same: "res = fst (direct_read m call w) \<and> db w1 = db (snd (direct_read m call w))"
    using first miss f
    by (auto simp add: cached_read_cases direct_read_cases split: sum.splits)
  have again: "cached_read m call (at_time t w1)
              = (res, (at_time t w1)\<lparr>redis := sent (redis (at_time t w1))\<rparr>)"
    if v: "res = Inr v" and s1: "\<not> fails (redis w) (commands (redis w) + 1)"
      and s2: "\<not> fails (redis w) (commands (redis w) + 2)"
      and rt: "loaded_form m call (stored_form m v) = Some v"
      and t: "t < now (redis w) + 5 * Minute" for v t
  proof -
    let ?c1 = "snd (redis_Set ?key (stored_form m v) (5 * Minute) (sent (redis w)))"
    have w1: "redis w1 = ?c1"
      using first miss f v by (auto simp add: cached_read_cases split: sum.splits)
    have nf: "\<not> fails (sent (redis w)) (commands (sent (redis w)))"
      using s1 by (simp add: sent_def)
    have lk: "lookup (?c1\<lparr>now := t\<rparr>) ?key = Some (stored_form m v)"
      unfolding lookup_after_Set[OF nf] using t by (simp add: sent_def)
    have cm: "commands ?c1 = commands (redis w) + 2" and fl: "fails ?c1 = fails (redis w)"
      using nf by (simp_all add: redis_Set_def sent_def)
    have "cache_hit ?key (loaded_form m call) (redis (at_time t w1)) = Some v"
      using lk cm fl s2 rt by (simp add: cache_hit_def at_time_def w1)
    then show ?thesis
      using v by (simp add: cached_read_cases)
  qed
  show ?thesis
    using same again by blast
qed

theorem read_through_correctness_witness:
  "lookup (redis example_world) (cacheKey_of (UserFindByID 1)) = None
   \<and> fst (cached_read example_wiring (UserFindByID 1) example_world) = Inr (UserPtr (Some alice))
   \<and> fst (direct_read example_wiring (UserFindByID 1) example_world) = Inr (UserPtr (Some alice))
   \<and> fst (cached_read example_wiring (UserFindByID 1)
             (at_time 1000 (snd (cached_read example_wiring (UserFindByID 1) example_world))))
       = Inr (UserPtr (Some alice))
   \<and> db_calls (snd (cached_read example_wiring (UserFindByID 1)
             (at_time 1000 (snd (cached_read example_wiring (UserFindByID 1) example_world))))) = 1"
proof -
  let ?w1 = "snd (cached_read example_wiring (UserFindByID 1) example_world)"
  have cold: "lookup (redis example_world) (cacheKey_of (UserFindByID 1)) = None"
    by (simp add: example_defs)
  have res: "fst (cached_read example_wiring (UserFindByID 1) example_world)
      = Inr (UserPtr (Some alice))"
    by (simp add: cached_read_cases example_defs)
  have calls: "db_calls ?w1 = 1"
    by (simp add: cached_read_cases example_defs)
  have first: "cached_read example_wiring (UserFindByID 1) example_world
      = (Inr (UserPtr (Some alice)), ?w1)"
    using res by (simp add: prod_eq_iff)
  have rt: "loaded_form example_wiring (UserFindByID 1)
       (stored_form example_wiring (UserPtr (Some alice))) = Some (UserPtr (Some alice))"
    by (simp add: example_defs)
  have ok: "\<not> fails (redis example_world) (commands (redis example_world) + 1)"
    "\<not> fails (redis example_world) (commands (redis example_world) + 2)"
    "(1000::nat) < now (redis example_world) + 5 * Minute"
    by (simp_all add: example_defs Minute_def)
  note rtc = read_through_correctness [OF cold first]
  from rtc have direct: "fst (direct_read example_wiring (UserFindByID 1) example_world)
      = Inr (UserPtr (Some alice))"
    by simp
  from rtc rt ok have second: "cached_read example_wiring (UserFindByID 1) (at_time 1000 ?w1)
     = (Inr (UserPtr (Some alice)), (at_time 1000 ?w1)\<lparr>redis := sent (redis (at_time 1000 ?w1))\<rparr>)"
    by blast
  show ?thesis
    using cold res direct second calls by (simp add: at_time_def)
qed

section \<open>Failures of the cache store and of the data source\<close>

text \<open>
  C4. Failure semantics of every cached read. \<open>res\<close> is what the decorator returns and
  \<open>direct\<close> what the wrapped repository returns for the same call in the same state. The
  wrapped repository is read at most once. The decorator returns an error exactly when it
  read the wrapped repository and that read returned an error; whenever it read the
  wrapped repository it returns that read's value or error unchanged. A failed \<^verbatim>\<open>GET\<close>,
  an absent entry and a payload that does not deserialize all lead to that read. When the
  wrapped read fails, the only command sent to the store is the \<^verbatim>\<open>GET\<close>: nothing is
  written. The outcome of the \<^verbatim>\<open>SET\<close> has no influence: two failure patterns that agree
  on the \<^verbatim>\<open>GET\<close> give the same returned value or error.
\<close>

theorem cached_read_failure_semantics:
  assumes c: "cached_read m call w = (res, w')"
      and d: "direct_read m call w = (direct, wd)"
  shows "(db_calls w' = db_calls w \<or> db_calls w' = db_calls w + 1)
       \<and> ((\<exists>e. res = Inl e) \<longleftrightarrow> (db_calls w' = db_calls w + 1 \<and> (\<exists>e. direct = Inl e)))
       \<and> (db_calls w' = db_calls w + 1 \<longrightarrow> res = direct \<and> db w' = db wd)
       \<and> (db_calls w' = db_calls w \<longrightarrow> db w' = db w)
       \<and> (fails (redis w) (commands (redis w)) \<longrightarrow> db_calls w' = db_calls w + 1)
       \<and> ((\<forall>payload. lookup (redis w) (cacheKey_of call) = Some payload
              \<longrightarrow> loaded_form m call payload = None)
            \<longrightarrow> db_calls w' = db_calls w + 1)
       \<and> ((\<exists>e. direct = Inl e) \<and> db_calls w' = db_calls w + 1 \<longrightarrow> redis w' = sent (redis w))
       \<and> (\<forall>g. g (commands (redis w)) = fails (redis w) (commands (redis w))
              \<longrightarrow> fst (cached_read m call (with_failures g w)) = res)"
proof -
  have g: "cache_hit k dec (redis (with_failures g w)) = cache_hit k dec (redis w)"
    if "g (commands (redis w)) = fails (redis w) (commands (redis w))" for g k and dec :: "string \<Rightarrow> read_result option"
    using that by (simp add: cache_hit_def with_failures_def lookup_cong[of "redis w\<lparr>fails := g\<rparr>" "redis w"])
  have dbw: "db (with_failures g w) = db w" for g
    by (simp add: with_failures_def)
  show ?thesis
    using c d
    apply (simp only: cached_read_cases direct_read_cases g dbw cong: conj_cong imp_cong)
    apply (auto simp add: cache_hit_def split: option.splits prod.splits sum.splits if_splits)
    done
qed

theorem cached_read_failure_semantics_witness:
  "cached_read example_wiring PostGetTotalCount broken_world
     = (Inl db_closed, broken_world\<lparr>db_calls := 1, redis := sent (redis broken_world)\<rparr>)
   \<and> direct_read example_wiring PostGetTotalCount broken_world
     = (Inl db_closed, broken_world\<lparr>db_calls := 1\<rparr>)
   \<and> fst (cached_read example_wiring PostGetTotalCount
            (with_failures (\<lambda>n. n = 0) broken_world)) = Inl db_closed"
proof -
  have c: "cached_read example_wiring PostGetTotalCount broken_world
     = (Inl db_closed, broken_world\<lparr>db_calls := 1, redis := sent (redis broken_world)\<rparr>)"
    by (simp add: cached_read_cases example_defs)
  have d: "direct_read example_wiring PostGetTotalCount broken_world
     = (Inl db_closed, broken_world\<lparr>db_calls := 1\<rparr>)"
    by (simp add: direct_read_cases example_defs)
  have g: "(0 = commands (redis broken_world)) = fails (redis broken_world) (commands (redis broken_world))"
    by (simp add: example_defs)
  have "\<forall>g. g (commands (redis broken_world))
            = fails (redis broken_world) (commands (redis broken_world))
         \<longrightarrow> fst (cached_read example_wiring PostGetTotalCount (with_failures g broken_world))
            = Inl db_closed"
    using cached_read_failure_semantics [OF c d] by (elim conjE)
  then have "fst (cached_read example_wiring PostGetTotalCount
            (with_failures (\<lambda>n. n = 0) broken_world)) = Inl db_closed"
    using g by (elim allE [where x = "\<lambda>n. n = 0"]) simp
  then show ?thesis
    by (simp add: c d)
qed

text \<open>
  C6. When the write of the wrapped repository fails, \<^verbatim>\<open>Create\<close>, \<^verbatim>\<open>Update\<close>,
  \<^verbatim>\<open>Delete\<close> and \<^verbatim>\<open>IncrementViewCount\<close> of the decorators return that error and the
  state the wrapped write left; the cache store is as it was (no command was sent, no
  entry is gone).
\<close>

theorem failed_write_keeps_cache:
  "(Create (baseUserRepo (mysqlUsers m)) u w = ((Some e, u'), w')
      \<longrightarrow> cachedUser_Create (cachedUserRepository_of m) u w = ((Some e, u'), w')
          \<and> redis w' = redis w)
   \<and> (Update (baseUserRepo (mysqlUsers m)) u w = ((Some e, u'), w')
      \<longrightarrow> cachedUser_Update (cachedUserRepository_of m) u w = ((Some e, u'), w')
          \<and> redis w' = redis w)
   \<and> (Delete (baseUserRepo (mysqlUsers m)) uid w = (Some e, w')
      \<longrightarrow> cachedUser_Delete (cachedUserRepository_of m) uid w = (Some e, w')
          \<and> redis w' = redis w)
   \<and> (IncrementViewCount (basePostRepo (mysqlPosts m)) postID w = (Some e, w')
      \<longrightarrow> cachedPost_IncrementViewCount (cachedPostRepository_of m) postID w = (Some e, w')
          \<and> redis w' = redis w)"
  by (auto simp add: cachedUser_Create_def cachedUser_Update_def cachedUser_Delete_def
      cachedPost_IncrementViewCount_def cachedUserRepository_of_def cachedPostRepository_of_def
      NewCachedUserRepository_def NewCachedPostRepository_def baseUserRepo_def basePostRepo_def
      on_db_def Let_def split: prod.splits)

theorem failed_write_keeps_cache_witness:
  "fst (Delete (baseUserRepo (mysqlUsers example_wiring)) 1 broken_world) = Some db_closed
   \<and> fst (cachedUser_Delete (cachedUserRepository_of example_wiring) 1 broken_world) = Some db_closed
   \<and> redis (snd (cachedUser_Delete (cachedUserRepository_of example_wiring) 1 broken_world))
       = redis broken_world"
proof -
  have b: "Delete (baseUserRepo (mysqlUsers example_wiring)) 1 broken_world
      = (Some db_closed, broken_world\<lparr>db_calls := 1\<rparr>)"
    by (simp add: baseUserRepo_def on_db_def example_defs)
  have "cachedUser_Delete (cachedUserRepository_of example_wiring) 1 broken_world
      = (Some db_closed, broken_world\<lparr>db_calls := 1\<rparr>)
      \<and> redis (broken_world\<lparr>db_calls := 1\<rparr>) = redis broken_world"
    using failed_write_keeps_cache [where m = example_wiring and w = broken_world
        and e = db_closed and uid = 1 and w' = "broken_world\<lparr>db_calls := 1\<rparr>"] b
    by blast
  then show ?thesis
    by (simp add: b)
qed

section \<open>Invalidation on write\<close>

lemma lookup_at_sent: "lookup (sent c\<lparr>now := t\<rparr>) k = lookup (c\<lparr>now := t\<rparr>) k"
  by (simp add: lookup_def sent_def split: option.splits)

lemma lookup_after_Del:
  "lookup (snd (redis_Del keys c)\<lparr>now := t\<rparr>) k =
     (if \<not> fails c (commands c) \<and> k \<in> set keys then None else lookup (c\<lparr>now := t\<rparr>) k)"
  by (simp add: redis_Del_def lookup_def sent_def map_of_filter_fst[where P = "\<lambda>k. k \<notin> set keys"]
      split: option.splits)

lemma lookup_after_Keys:
  "lookup (snd (redis_Keys pattern c)\<lparr>now := t\<rparr>) k = lookup (c\<lparr>now := t\<rparr>) k"
  by (simp add: redis_Keys_def lookup_def sent_def split: option.splits)

lemma lookup_Some_entry: "lookup c k = Some v \<Longrightarrow> k \<in> fst ` set (entries c)"
  by (auto simp add: lookup_def split: option.splits dest!: map_of_SomeD intro: rev_image_eqI)

lemma found_Keys:
  "\<not> fails c (commands c) \<Longrightarrow>
   \<exists>ks. fst (redis_Keys pattern c) = Inr ks \<and> set ks = {k. lookup c k \<noteq> None \<and> glob_match pattern k}"
  by (auto simp add: redis_Keys_def dest: lookup_Some_entry)

lemma found_Keys_sound:
  "fst (redis_Keys pattern c) = Inr ks \<Longrightarrow> k \<in> set ks \<Longrightarrow> glob_match pattern k"
  by (auto simp add: redis_Keys_def split: if_splits)

lemma commands_after:
  "commands (snd (redis_Del keys c)) = commands c + 1"
  "commands (snd (redis_Keys pattern c)) = commands c + 1"
  "fails (snd (redis_Del keys c)) = fails c"
  "fails (snd (redis_Keys pattern c)) = fails c"
  "now (snd (redis_Del keys c)) = now c"
  "now (snd (redis_Keys pattern c)) = now c"
  by (simp_all add: redis_Del_def redis_Keys_def sent_def)

lemma lookup_Del:
  "lookup (snd (redis_Del keys c)) k =
     (if \<not> fails c (commands c) \<and> k \<in> set keys then None else lookup c k)"
  by (simp add: redis_Del_def lookup_def sent_def map_of_filter_fst[where P = "\<lambda>k. k \<notin> set keys"]
      split: option.splits)

lemma lookup_Keys:
  "lookup (snd (redis_Keys pattern c)) k = lookup c k"
  by (simp add: redis_Keys_def lookup_def sent_def split: option.splits)

lemma cachedUser_Create_cases:
  "cachedUser_Create (cachedUserRepository_of m) u w =
    (case Create (mysqlUsers m) u (db w) of
       ((Some e, u1), d) \<Rightarrow> ((Some e, u1), w\<lparr>db := d, db_calls := db_calls w + 1\<rparr>)
     | ((None, u1), d) \<Rightarrow>
         ((None, u1), w\<lparr>db := d, db_calls := db_calls w + 1,
                         redis := snd (redis_Del [''users:all''] (redis w))\<rparr>))"
  by (simp add: cachedUser_Create_def cachedUserRepository_of_def NewCachedUserRepository_def
      baseUserRepo_def on_db_def on_redis_def Let_def split: prod.splits option.splits)

lemma cachedUser_Update_cases:
  "cachedUser_Update (cachedUserRepository_of m) u w =
    (case Update (mysqlUsers m) u (db w) of
       ((Some e, u1), d) \<Rightarrow> ((Some e, u1), w\<lparr>db := d, db_calls := db_calls w + 1\<rparr>)
     | ((None, u1), d) \<Rightarrow>
         ((None, u1), w\<lparr>db := d, db_calls := db_calls w + 1,
                         redis := snd (redis_Del [''users:all'']
                                    (snd (redis_Del [getCacheKey (user_ID u1)] (redis w))))\<rparr>))"
  by (simp add: cachedUser_Update_def cachedUserRepository_of_def NewCachedUserRepository_def
      baseUserRepo_def on_db_def on_redis_def Let_def split: prod.splits option.splits)

lemma cachedUser_Delete_cases:
  "cachedUser_Delete (cachedUserRepository_of m) uid w =
    (case Delete (mysqlUsers m) uid (db w) of
       (Some e, d) \<Rightarrow> (Some e, w\<lparr>db := d, db_calls := db_calls w + 1\<rparr>)
     | (None, d) \<Rightarrow>
         (None, w\<lparr>db := d, db_calls := db_calls w + 1,
                   redis := snd (redis_Del [''users:all'']
                              (snd (redis_Del [getCacheKey uid] (redis w))))\<rparr>))"
  by (simp add: cachedUser_Delete_def cachedUserRepository_of_def NewCachedUserRepository_def
      baseUserRepo_def on_db_def on_redis_def Let_def split: prod.splits option.splits)

lemma cachedPost_IncrementViewCount_cases:
  "cachedPost_IncrementViewCount (cachedPostRepository_of m) postID w =
    (case IncrementViewCount (mysqlPosts m) postID (db w) of
       (Some e, d) \<Rightarrow> (Some e, w\<lparr>db := d, db_calls := db_calls w + 1\<rparr>)
     | (None, d) \<Rightarrow>
         (None, w\<lparr>db := d, db_calls := db_calls w + 1,
                   redis := invalidate_post postID (redis w)\<rparr>))"
  by (auto simp add: cachedPost_IncrementViewCount_def cachedPostRepository_of_def
      NewCachedPostRepository_def basePostRepo_def on_db_def on_redis_def Let_def invalidate_post_def
      split: prod.splits option.splits)

lemma invalidate_post_frame:
  assumes "k \<noteq> getPostCacheKey postID" and "\<not> glob_match ''posts:*'' k"
  shows "lookup (invalidate_post postID c\<lparr>now := t\<rparr>) k = lookup (c\<lparr>now := t\<rparr>) k"
proof -
  let ?c1 = "snd (redis_Del [getPostCacheKey postID] c)"
  obtain found c2 where f: "redis_Keys ''posts:*'' ?c1 = (found, c2)"
    by (cases "redis_Keys ''posts:*'' ?c1")
  have c2: "c2 = snd (redis_Keys ''posts:*'' ?c1)" using f by simp
  have notin: "k \<notin> set (case found of Inl _ \<Rightarrow> [] | Inr ks \<Rightarrow> ks)"
    using found_Keys_sound[of "''posts:*''" ?c1 _ k] f assms(2)
    by (auto split: sum.splits)
  have l1: "lookup (?c1\<lparr>now := t\<rparr>) k = lookup (c\<lparr>now := t\<rparr>) k"
    using assms(1) by (simp add: lookup_after_Del)
  have l2: "lookup (c2\<lparr>now := t\<rparr>) k = lookup (?c1\<lparr>now := t\<rparr>) k"
    unfolding c2 by (rule lookup_after_Keys)
  have l3: "lookup (snd (redis_Del (case found of Inl _ \<Rightarrow> [] | Inr ks \<Rightarrow> ks) c2)\<lparr>now := t\<rparr>) k
      = lookup (c2\<lparr>now := t\<rparr>) k"
    using notin by (auto simp add: lookup_after_Del split: sum.splits)
  show ?thesis
    by (simp add: invalidate_post_def Let_def f l1 l2 l3 del: length_greater_0_conv)
qed

lemma invalidate_post_misc:
  "now (invalidate_post postID c) = now c" "fails (invalidate_post postID c) = fails c"
  by (simp_all add: invalidate_post_def Let_def commands_after split: prod.splits)
     (auto simp add: redis_Keys_def redis_Del_def sent_def split: if_splits)

lemma invalidate_post_exact:
  assumes "\<not> fails c (commands c)" "\<not> fails c (commands c + 1)" "\<not> fails c (commands c + 2)"
  shows "lookup (invalidate_post postID c) k =
     (if k = getPostCacheKey postID \<or> glob_match ''posts:*'' k then None else lookup c k)"
proof -
  let ?c1 = "snd (redis_Del [getPostCacheKey postID] c)"
  obtain found c2 where f: "redis_Keys ''posts:*'' ?c1 = (found, c2)"
    by (cases "redis_Keys ''posts:*'' ?c1")
  have c2: "c2 = snd (redis_Keys ''posts:*'' ?c1)" using f by simp
  have nf1: "\<not> fails ?c1 (commands ?c1)"
    using assms(2) by (simp add: commands_after)
  obtain ks where ks: "found = Inr ks"
    "set ks = {k. lookup ?c1 k \<noteq> None \<and> glob_match ''posts:*'' k}"
    using found_Keys[OF nf1, of "''posts:*''"] f by auto
  have nf2: "\<not> fails c2 (commands c2)"
    using assms(3) by (simp add: c2 commands_after)
  have l1: "lookup ?c1 k = (if k = getPostCacheKey postID then None else lookup c k)" for k
    using assms(1) by (simp add: lookup_Del)
  have l2: "lookup c2 k = lookup ?c1 k" for k
    by (simp add: c2 lookup_Keys)
  have l3: "lookup (snd (redis_Del ks c2)) k = (if k \<in> set ks then None else lookup c2 k)" for k
    using nf2 by (simp add: lookup_Del)
  show ?thesis
  proof (cases "0 < length ks")
    case True
    then show ?thesis
      by (auto simp add: invalidate_post_def Let_def f ks l1 l2 l3)
  next
    case False
    then have "lookup ?c1 k = None" if "glob_match ''posts:*'' k"
      using ks(2) that by auto
    with False show ?thesis
      by (auto simp add: invalidate_post_def Let_def f ks l1 l2)
  qed
qed

lemma digit_char_digit: "n < 10 \<Longrightarrow> digit (digit_char n)"
  unfolding digit_char_def digit_def by (rule nth_mem) simp

lemma itoa_nat_digits: "list_all digit (itoa_nat n)"
proof (induction n rule: itoa_nat.induct)
  case (1 n)
  show ?case
  proof (cases "n < 10")
    case True
    then show ?thesis
      using digit_char_digit[of n] by (subst itoa_nat.simps) simp
  next
    case False
    then show ?thesis
      using 1 digit_char_digit[of "n mod 10"] by (subst itoa_nat.simps) simp
  qed
qed

lemma itoa_nat_nonempty: "itoa_nat n \<noteq> []"
  by (subst itoa_nat.simps) simp

lemma fmt_d_chars: "list_all (\<lambda>c. c = CHR ''-'' \<or> digit c) (fmt_d i)"
proof -
  have "list_all (\<lambda>c. c = CHR ''-'' \<or> digit c) (itoa_nat k)" for k
    using itoa_nat_digits[of k] by (simp add: list_all_iff)
  then show ?thesis
    by (simp add: fmt_d_def)
qed

lemma fmt_d_nonempty: "fmt_d i \<noteq> []"
  by (simp add: fmt_d_def itoa_nat_nonempty)

lemma not_digit: "\<not> digit CHR ''s''" "\<not> digit CHR ''=''" "\<not> digit CHR '':''" "\<not> digit CHR ''-''"
  by (simp_all add: digit_def)

lemma fmt_d_not_slug: "fmt_d i \<noteq> CHR ''s'' # rest"
proof
  assume "fmt_d i = CHR ''s'' # rest"
  with fmt_d_chars[of i] have "CHR ''s'' = CHR ''-'' \<or> digit CHR ''s''"
    by simp
  then show False
    by (simp add: not_digit)
qed

lemma slug_key_not_post_key: "''post:slug:'' @ slug \<noteq> getPostCacheKey postID"
  using fmt_d_not_slug[of "sint postID" "''lug:'' @ slug"] by (auto simp add: getPostCacheKey_def)

lemma slug_key_not_posts: "\<not> glob_match ''posts:*'' (''post:slug:'' @ slug)"
  by (simp add: glob_posts)

lemma redis_at_time: "redis (at_time t w) = (redis w)\<lparr>now := t\<rparr>"
  by (simp add: at_time_def)

lemma getPostCacheKey_1: "getPostCacheKey 1 = ''post:1''"
  by (simp add: getPostCacheKey_def fmt_d_1)

lemmas warm_defs =
  warm_world_def example_redis_def example_wiring_def memoryUsers_def memoryPosts_def
  alice_def hello_def getCacheKey_1 getPostCacheKey_1 lookup_def redis_Del_def redis_Keys_def
  sent_def Minute_def table_json_def

text \<open>
  C2, as stated, says that \<^verbatim>\<open>Create\<close> deletes \<^verbatim>\<open>user:{id}\<close> as well as
  \<^verbatim>\<open>users:all\<close>. It does not: a user is created with the number 1 while the store holds
  an entry under \<^verbatim>\<open>user:1\<close>; after the successful \<^verbatim>\<open>Create\<close> of the decorator the
  entry under \<^verbatim>\<open>users:all\<close> is gone and the one under \<^verbatim>\<open>user:1\<close> is still there.
\<close>

theorem Create_keeps_user_key:
  "fst (cachedUser_Create (cachedUserRepository_of example_wiring) alice warm_world) = (None, alice)
   \<and> getCacheKey (user_ID alice) = ''user:1''
   \<and> lookup (redis warm_world) ''user:1'' = Some ''{id:1,name:alice}''
   \<and> lookup (redis (snd (cachedUser_Create (cachedUserRepository_of example_wiring) alice warm_world)))
        ''user:1'' = Some ''{id:1,name:alice}''
   \<and> lookup (redis warm_world) ''users:all'' = Some ''null''
   \<and> lookup (redis (snd (cachedUser_Create (cachedUserRepository_of example_wiring) alice warm_world)))
        ''users:all'' = None"
  by (simp add: cachedUser_Create_cases warm_defs)

text \<open>
  C2, amended. After a successful write of the wrapped repository, with the store
  answering the (at most three) commands sent to it, the entries of the store are the
  entries it held before, less the invalidation set of the method: \<^verbatim>\<open>users:all\<close> for
  \<^verbatim>\<open>Create\<close>; \<^verbatim>\<open>user:{id}\<close> and \<^verbatim>\<open>users:all\<close> for \<^verbatim>\<open>Update\<close> and \<^verbatim>\<open>Delete\<close>;
  \<^verbatim>\<open>post:{id}\<close> and every key matching \<^verbatim>\<open>posts:*\<close> for \<^verbatim>\<open>IncrementViewCount\<close>.
\<close>

theorem write_invalidation:
  assumes f0: "\<not> fails (redis w) (commands (redis w))"
      and f1: "\<not> fails (redis w) (commands (redis w) + 1)"
      and f2: "\<not> fails (redis w) (commands (redis w) + 2)"
  shows
   "(fst (fst (Create (mysqlUsers m) u (db w))) = None
      \<longrightarrow> (\<forall>k. lookup (redis (snd (cachedUser_Create (cachedUserRepository_of m) u w))) k
               = (if k = ''users:all'' then None else lookup (redis w) k)))
    \<and> (fst (fst (Update (mysqlUsers m) u (db w))) = None
      \<longrightarrow> (\<forall>k. lookup (redis (snd (cachedUser_Update (cachedUserRepository_of m) u w))) k
               = (if k = getCacheKey (user_ID (snd (fst (Update (mysqlUsers m) u (db w)))))
                     \<or> k = ''users:all''
                  then None else lookup (redis w) k)))
    \<and> (fst (Delete (mysqlUsers m) uid (db w)) = None
      \<longrightarrow> (\<forall>k. lookup (redis (snd (cachedUser_Delete (cachedUserRepository_of m) uid w))) k
               = (if k = getCacheKey uid \<or> k = ''users:all'' then None else lookup (redis w) k)))
    \<and> (fst (IncrementViewCount (mysqlPosts m) postID (db w)) = None
      \<longrightarrow> (\<forall>k. lookup (redis (snd (cachedPost_IncrementViewCount (cachedPostRepository_of m) postID w))) k
               = (if k = getPostCacheKey postID \<or> glob_match ''posts:*'' k
                  then None else lookup (redis w) k)))"
proof -
  have f1': "\<not> fails (redis w) (Suc (commands (redis w)))"
    using f1 by simp
  have c: "fst (fst (Create (mysqlUsers m) u (db w))) = None
      \<longrightarrow> (\<forall>k. lookup (redis (snd (cachedUser_Create (cachedUserRepository_of m) u w))) k
               = (if k = ''users:all'' then None else lookup (redis w) k))"
    using f0 by (simp add: cachedUser_Create_cases lookup_Del split: prod.splits option.splits)
  have u: "fst (fst (Update (mysqlUsers m) u (db w))) = None
      \<longrightarrow> (\<forall>k. lookup (redis (snd (cachedUser_Update (cachedUserRepository_of m) u w))) k
               = (if k = getCacheKey (user_ID (snd (fst (Update (mysqlUsers m) u (db w)))))
                     \<or> k = ''users:all''
                  then None else lookup (redis w) k))"
    using f0 f1' by (simp add: cachedUser_Update_cases lookup_Del commands_after
        split: prod.splits option.splits)
  have d: "fst (Delete (mysqlUsers m) uid (db w)) = None
      \<longrightarrow> (\<forall>k. lookup (redis (snd (cachedUser_Delete (cachedUserRepository_of m) uid w))) k
               = (if k = getCacheKey uid \<or> k = ''users:all'' then None else lookup (redis w) k))"
    using f0 f1' by (simp add: cachedUser_Delete_cases lookup_Del commands_after
        split: prod.splits option.splits)
  have i: "fst (IncrementViewCount (mysqlPosts m) postID (db w)) = None
      \<longrightarrow> (\<forall>k. lookup (redis (snd (cachedPost_IncrementViewCount (cachedPostRepository_of m) postID w))) k
               = (if k = getPostCacheKey postID \<or> glob_match ''posts:*'' k
                  then None else lookup (redis w) k))"
    by (simp add: cachedPost_IncrementViewCount_cases invalidate_post_exact[OF f0 f1 f2]
        split: prod.splits option.splits)
  from c u d i show ?thesis
    by (intro conjI)
qed

theorem write_invalidation_witness:
  "\<not> fails (redis warm_world) (commands (redis warm_world))
   \<and> \<not> fails (redis warm_world) (commands (redis warm_world) + 1)
   \<and> \<not> fails (redis warm_world) (commands (redis warm_world) + 2)
   \<and> fst (IncrementViewCount (mysqlPosts example_wiring) 1 (db warm_world)) = None
   \<and> lookup (redis (snd (cachedPost_IncrementViewCount (cachedPostRepository_of example_wiring) 1
                            warm_world))) ''post:1'' = None
   \<and> lookup (redis (snd (cachedPost_IncrementViewCount (cachedPostRepository_of example_wiring) 1
                            warm_world))) ''posts:totalcount'' = None
   \<and> lookup (redis (snd (cachedPost_IncrementViewCount (cachedPostRepository_of example_wiring) 1
                            warm_world))) ''user:1'' = Some ''{id:1,name:alice}''"
proof -
  have f: "\<not> fails (redis warm_world) (commands (redis warm_world))"
    "\<not> fails (redis warm_world) (commands (redis warm_world) + 1)"
    "\<not> fails (redis warm_world) (commands (redis warm_world) + 2)"
    by (simp_all add: warm_defs)
  have ok: "fst (IncrementViewCount (mysqlPosts example_wiring) 1 (db warm_world)) = None"
    by (simp add: warm_defs)
  have before: "lookup (redis warm_world) ''user:1'' = Some ''{id:1,name:alice}''"
    by (simp add: warm_defs)
  have keys: "''post:1'' = getPostCacheKey 1" "glob_match ''posts:*'' ''posts:totalcount''"
    "''user:1'' \<noteq> getPostCacheKey 1" "\<not> glob_match ''posts:*'' ''user:1''"
    by (simp_all add: getPostCacheKey_1)
  have "\<forall>k. lookup (redis (snd (cachedPost_IncrementViewCount (cachedPostRepository_of example_wiring) 1
                            warm_world))) k
          = (if k = getPostCacheKey 1 \<or> glob_match ''posts:*'' k then None
             else lookup (redis warm_world) k)"
    by (rule write_invalidation [where m = example_wiring and w = warm_world and postID = 1,
          OF f, THEN conjunct2, THEN conjunct2, THEN conjunct2, THEN mp, OF ok])
  with f ok before keys show ?thesis
    by simp
qed

text \<open>
  C9. \<^verbatim>\<open>IncrementViewCount\<close> of the decorator, whatever its outcome and whichever
  commands fail, leaves every entry alone whose key is neither \<^verbatim>\<open>post:{id}\<close> nor matches
  \<^verbatim>\<open>posts:*\<close>, at every instant of the clock; so every entry under a key
  \<^verbatim>\<open>post:slug:{slug}\<close> is as before, and a read by slug after the increment that finds
  such an entry alive returns the record stored before the increment, without a call to
  the wrapped repository.
\<close>

theorem IncrementViewCount_frame:
  assumes inc: "cachedPost_IncrementViewCount (cachedPostRepository_of m) postID w = (err, w')"
  shows "(\<forall>k t. k \<noteq> getPostCacheKey postID \<and> \<not> glob_match ''posts:*'' k
            \<longrightarrow> lookup (redis (at_time t w')) k = lookup (redis (at_time t w)) k)
   \<and> (\<forall>slug t. lookup (redis (at_time t w')) (''post:slug:'' @ slug)
                = lookup (redis (at_time t w)) (''post:slug:'' @ slug))
   \<and> (\<forall>slug t payload p.
          lookup (redis (at_time t w)) (''post:slug:'' @ slug) = Some payload
          \<and> Unmarshal (jsonPost m) payload = Some p
          \<and> \<not> fails (redis w') (commands (redis w'))
        \<longrightarrow> cached_read m (PostFindBySlugWithDetails slug) (at_time t w')
            = (Inr (PostPtr (Some p)), (at_time t w')\<lparr>redis := sent (redis (at_time t w'))\<rparr>))"
proof -
  have r: "redis w' = redis w \<or> redis w' = invalidate_post postID (redis w)"
    using inc by (auto simp add: cachedPost_IncrementViewCount_cases split: prod.splits option.splits)
  have frame: "lookup (redis (at_time t w')) k = lookup (redis (at_time t w)) k"
    if "k \<noteq> getPostCacheKey postID" "\<not> glob_match ''posts:*'' k" for k t
    using r invalidate_post_frame[OF that] by (auto simp add: redis_at_time)
  have slug: "lookup (redis (at_time t w')) (''post:slug:'' @ slug)
                = lookup (redis (at_time t w)) (''post:slug:'' @ slug)" for slug t
    using frame[OF slug_key_not_post_key slug_key_not_posts] .
  have served: "cached_read m (PostFindBySlugWithDetails slug) (at_time t w')
            = (Inr (PostPtr (Some p)), (at_time t w')\<lparr>redis := sent (redis (at_time t w'))\<rparr>)"
    if "lookup (redis (at_time t w)) (''post:slug:'' @ slug) = Some payload"
      and "Unmarshal (jsonPost m) payload = Some p"
      and "\<not> fails (redis w') (commands (redis w'))" for slug t payload p
  proof -
    have "cache_hit (cacheKey_of (PostFindBySlugWithDetails slug))
            (loaded_form m (PostFindBySlugWithDetails slug)) (redis (at_time t w')) = Some (PostPtr (Some p))"
      using that slug[of t slug]
      by (simp add: cache_hit_def cacheKey_of_def loaded_form_def deserialize_def
          cachedPostRepository_of_def NewCachedPostRepository_def redis_at_time)
    then show ?thesis
      by (simp add: cached_read_cases)
  qed
  from frame have "\<forall>k t. k \<noteq> getPostCacheKey postID \<and> \<not> glob_match ''posts:*'' k
            \<longrightarrow> lookup (redis (at_time t w')) k = lookup (redis (at_time t w)) k"
    by simp
  moreover from slug have "\<forall>slug t. lookup (redis (at_time t w')) (''post:slug:'' @ slug)
                = lookup (redis (at_time t w)) (''post:slug:'' @ slug)"
    by (intro allI)
  moreover from served have "\<forall>slug t payload p.
          lookup (redis (at_time t w)) (''post:slug:'' @ slug) = Some payload
          \<and> Unmarshal (jsonPost m) payload = Some p
          \<and> \<not> fails (redis w') (commands (redis w'))
        \<longrightarrow> cached_read m (PostFindBySlugWithDetails slug) (at_time t w')
            = (Inr (PostPtr (Some p)), (at_time t w')\<lparr>redis := sent (redis (at_time t w'))\<rparr>)"
    by (intro allI impI) (elim conjE)
  ultimately show ?thesis
    by (intro conjI)
qed

theorem IncrementViewCount_frame_witness:
  "fst (cachedPost_IncrementViewCount (cachedPostRepository_of example_wiring) 1 warm_world) = None
   \<and> lookup (redis (snd (cachedPost_IncrementViewCount (cachedPostRepository_of example_wiring) 1
                            warm_world))) ''post:slug:hello''
       = Some ''{id:1,slug:hello,viewCount:0}''
   \<and> fst (cached_read example_wiring (PostFindBySlugWithDetails ''hello'')
            (snd (cachedPost_IncrementViewCount (cachedPostRepository_of example_wiring) 1 warm_world)))
       = Inr (PostPtr (Some hello))
   \<and> fst (direct_read example_wiring (PostFindBySlugWithDetails ''hello'')
            (snd (cachedPost_IncrementViewCount (cachedPostRepository_of example_wiring) 1 warm_world)))
       = Inr (PostPtr (Some (hello\<lparr>ViewCount := 1\<rparr>)))"
proof -
  let ?w' = "snd (cachedPost_IncrementViewCount (cachedPostRepository_of example_wiring) 1 warm_world)"
  have err: "fst (cachedPost_IncrementViewCount (cachedPostRepository_of example_wiring) 1 warm_world)
      = None"
    by (simp add: cachedPost_IncrementViewCount_cases warm_defs)
  then have inc: "cachedPost_IncrementViewCount (cachedPostRepository_of example_wiring) 1 warm_world
      = (None, ?w')"
    by (simp add: prod_eq_iff)
  have same: "at_time 0 ?w' = ?w'" "at_time 0 warm_world = warm_world"
    by (simp_all add: at_time_def cachedPost_IncrementViewCount_cases invalidate_post_misc warm_defs)
  have before: "lookup (redis (at_time 0 warm_world)) (''post:slug:'' @ ''hello'')
      = Some ''{id:1,slug:hello,viewCount:0}''"
    by (simp add: at_time_def warm_defs)
  have dec: "Unmarshal (jsonPost example_wiring) ''{id:1,slug:hello,viewCount:0}'' = Some hello"
    by (simp add: warm_defs)
  have nf: "\<not> fails (redis ?w') (commands (redis ?w'))"
    by (simp add: cachedPost_IncrementViewCount_cases invalidate_post_misc warm_defs)
  note frame = IncrementViewCount_frame [OF inc]
  from frame have "lookup (redis (at_time 0 ?w')) (''post:slug:'' @ ''hello'')
      = lookup (redis (at_time 0 warm_world)) (''post:slug:'' @ ''hello'')"
    by blast
  with before have after: "lookup (redis ?w') ''post:slug:hello'' = Some ''{id:1,slug:hello,viewCount:0}''"
    by (simp add: same)
  from frame before dec nf
  have "cached_read example_wiring (PostFindBySlugWithDetails ''hello'') (at_time 0 ?w')
      = (Inr (PostPtr (Some hello)), (at_time 0 ?w')\<lparr>redis := sent (redis (at_time 0 ?w'))\<rparr>)"
    by blast
  then have served: "fst (cached_read example_wiring (PostFindBySlugWithDetails ''hello'') ?w')
      = Inr (PostPtr (Some hello))"
    by (simp add: same)
  have direct: "fst (direct_read example_wiring (PostFindBySlugWithDetails ''hello'') ?w')
       = Inr (PostPtr (Some (hello\<lparr>ViewCount := 1\<rparr>)))"
    by (simp add: direct_read_cases cachedPost_IncrementViewCount_cases perform_read_def
        returning_def warm_defs)
  from err after served direct show ?thesis
    by (intro conjI)
qed

section \<open>Cache keys\<close>

lemma split_at_last:
  "c \<notin> set a \<Longrightarrow> c \<notin> set b \<Longrightarrow> p @ c # a = q @ c # b \<Longrightarrow> p = q \<and> a = b"
proof (induction p arbitrary: q)
  case Nil
  then show ?case by (cases q) auto
next
  case (Cons x p)
  then show ?case by (cases q) auto
qed

lemma digit_char_inject: "m < 10 \<Longrightarrow> n < 10 \<Longrightarrow> digit_char m = digit_char n \<Longrightarrow> m = n"
  unfolding digit_char_def
  by (subst (asm) nth_eq_iff_index_eq) simp_all

lemma itoa_nat_inject: "itoa_nat m = itoa_nat n \<Longrightarrow> m = n"
proof (induction m arbitrary: n rule: itoa_nat.induct)
  case (1 m)
  show ?case
  proof (cases "m < 10")
    case m: True
    show ?thesis
    proof (cases "n < 10")
      case True
      with m "1.prems" show ?thesis
        by (simp add: itoa_nat.simps[of m] itoa_nat.simps[of n] digit_char_inject)
    next
      case False
      with m "1.prems" itoa_nat_nonempty[of "n div 10"] show ?thesis
        by (simp add: itoa_nat.simps[of m] itoa_nat.simps[of n])
    qed
  next
    case m: False
    show ?thesis
    proof (cases "n < 10")
      case True
      with m "1.prems" itoa_nat_nonempty[of "m div 10"] show ?thesis
        by (simp add: itoa_nat.simps[of m] itoa_nat.simps[of n])
    next
      case False
      with m "1.prems" have e: "itoa_nat (m div 10) = itoa_nat (n div 10)"
        and d: "digit_char (m mod 10) = digit_char (n mod 10)"
        by (simp_all add: itoa_nat.simps[of m] itoa_nat.simps[of n])
      from "1.IH"[OF m e] have "m div 10 = n div 10" .
      moreover from d have "m mod 10 = n mod 10"
        by (rule digit_char_inject[rotated 2]) simp_all
      ultimately show ?thesis
        by (metis div_mult_mod_eq)
    qed
  qed
qed

lemma itoa_nat_no_minus: "itoa_nat n \<noteq> CHR ''-'' # rest"
proof
  assume "itoa_nat n = CHR ''-'' # rest"
  with itoa_nat_digits[of n] show False
    by (simp add: not_digit)
qed

lemma fmt_d_inject: "fmt_d i = fmt_d j \<longleftrightarrow> i = j"
proof
  assume e: "fmt_d i = fmt_d j"
  show "i = j"
  proof (cases "i < 0")
    case i: True
    show ?thesis
    proof (cases "j < 0")
      case True
      with i e have "nat (- i) = nat (- j)"
        by (simp add: fmt_d_def itoa_nat_inject)
      with i True show ?thesis by simp
    next
      case False
      with i e have "itoa_nat (nat j) = CHR ''-'' # itoa_nat (nat (- i))"
        by (simp add: fmt_d_def)
      then show ?thesis
        by (simp add: itoa_nat_no_minus)
    qed
  next
    case i: False
    show ?thesis
    proof (cases "j < 0")
      case True
      with i e have "itoa_nat (nat i) = CHR ''-'' # itoa_nat (nat (- j))"
        by (simp add: fmt_d_def)
      then show ?thesis
        by (simp add: itoa_nat_no_minus)
    next
      case False
      with i e have "nat i = nat j"
        by (simp add: fmt_d_def itoa_nat_inject)
      with i False show ?thesis by simp
    qed
  qed
qed simp

lemma fmt_d_sint_inject: "fmt_d (sint a) = fmt_d (sint b) \<longleftrightarrow> a = b"
  by (auto simp add: fmt_d_inject intro: signed_word_eqI)

lemma fmt_d_no_equals: "CHR ''='' \<notin> set (fmt_d i)"
proof
  assume "CHR ''='' \<in> set (fmt_d i)"
  moreover have "\<forall>c\<in>set (fmt_d i). c = CHR ''-'' \<or> digit c"
    using fmt_d_chars[of i] by (simp add: list_all_iff)
  ultimately have "CHR ''='' = CHR ''-'' \<or> digit CHR ''=''"
    by (rule bspec[rotated])
  then show False by (simp add: not_digit)
qed

lemma limit_offset_inject:
  "s1 @ limit_offset l1 o1 = s2 @ limit_offset l2 o2 \<longleftrightarrow> s1 = s2 \<and> l1 = l2 \<and> o1 = o2"
proof
  assume e: "s1 @ limit_offset l1 o1 = s2 @ limit_offset l2 o2"
  then have "(s1 @ '':limit='' @ fmt_d (sint l1) @ '':offset'') @ CHR ''='' # fmt_d (sint o1)
           = (s2 @ '':limit='' @ fmt_d (sint l2) @ '':offset'') @ CHR ''='' # fmt_d (sint o2)"
    by (simp add: limit_offset_def)
  from split_at_last[OF fmt_d_no_equals fmt_d_no_equals this]
  have p: "s1 @ '':limit='' @ fmt_d (sint l1) @ '':offset'' = s2 @ '':limit='' @ fmt_d (sint l2) @ '':offset''"
    and o: "o1 = o2"
    by (simp_all add: fmt_d_sint_inject)
  from p have "(s1 @ '':limit='' @ fmt_d (sint l1)) @ '':offset'' = (s2 @ '':limit='' @ fmt_d (sint l2)) @ '':offset''"
    by simp
  then have "s1 @ '':limit='' @ fmt_d (sint l1) = s2 @ '':limit='' @ fmt_d (sint l2)"
    by (simp only: append_same_eq)
  then have "(s1 @ '':limit'') @ CHR ''='' # fmt_d (sint l1) = (s2 @ '':limit'') @ CHR ''='' # fmt_d (sint l2)"
    by simp
  from split_at_last[OF fmt_d_no_equals fmt_d_no_equals this]
  have "s1 = s2" and "l1 = l2"
    by (simp_all add: fmt_d_sint_inject)
  with o show "s1 = s2 \<and> l1 = l2 \<and> o1 = o2" by simp
qed simp

lemma limit_offset_inject0:
  "limit_offset l1 o1 = limit_offset l2 o2 \<longleftrightarrow> l1 = l2 \<and> o1 = o2"
  using limit_offset_inject[of "[]" l1 o1 "[]" l2 o2] by simp

lemma cacheKey_of_alt:
  "cacheKey_of call =
    (case call of
       UserFindAll \<Rightarrow> ''users:all''
     | UserFindByID uid \<Rightarrow> ''user:'' @ fmt_d (sint uid)
     | PostFindAllWithDetails limit offset \<Rightarrow> ''posts:all'' @ limit_offset limit offset
     | PostFindByIDWithDetails postID \<Rightarrow> ''post:'' @ fmt_d (sint postID)
     | PostFindBySlugWithDetails slug \<Rightarrow> ''post:slug:'' @ slug
     | PostFindByCategoryWithDetails slug limit offset \<Rightarrow>
         ''posts:category:'' @ slug @ limit_offset limit offset
     | PostFindByTagWithDetails slug limit offset \<Rightarrow>
         ''posts:tag:'' @ slug @ limit_offset limit offset
     | PostFindFeaturedWithDetails limit \<Rightarrow> ''posts:featured:limit='' @ fmt_d (sint limit)
     | PostGetTotalCount \<Rightarrow> ''posts:totalcount'')"
  by (cases call) (simp_all add: cacheKey_of_def getCacheKey_def getPostCacheKey_def limit_offset_def)

lemma fmt_d_not_s: "fmt_d i \<noteq> CHR ''s'' # rest" "CHR ''s'' # rest \<noteq> fmt_d i"
  using fmt_d_not_slug[of i rest] by auto

text \<open>
  C5. Key derivation is injective. Each of the nine read methods of the two decorators is
  the read-through text at the key of its call: \<open>cacheKey_of\<close> of the method and its
  arguments is the key the method sends with its \<^verbatim>\<open>GET\<close> and with its \<^verbatim>\<open>SET\<close> (first
  part). Two read calls have the same key only when they are the same method with the
  same arguments (second part). Numbers are written in decimal by \<^verbatim>\<open>%d\<close> and slugs are
  copied as they are, whatever characters they contain, the delimiter \<^verbatim>\<open>:\<close> included.
\<close>

theorem cache_key_derivation_injective:
  "perform_read (cachedUserRepo ur) (cachedPostRepo pr) call1 w =
     read_through (cacheKey_of call1) (deserialize ur pr call1) (serialize ur pr)
       (ttl_of ur pr call1) (perform_read (user_baseRepo ur) (post_baseRepo pr) call1) w
   \<and> (cacheKey_of call1 = cacheKey_of call2 \<longleftrightarrow> call1 = call2)"
proof
  show "perform_read (cachedUserRepo ur) (cachedPostRepo pr) call1 w =
     read_through (cacheKey_of call1) (deserialize ur pr call1) (serialize ur pr)
       (ttl_of ur pr call1) (perform_read (user_baseRepo ur) (post_baseRepo pr) call1) w"
    by (rule cached_read_through)
  show "cacheKey_of call1 = cacheKey_of call2 \<longleftrightarrow> call1 = call2"
    by (cases call1; cases call2;
        simp add: cacheKey_of_alt fmt_d_sint_inject limit_offset_inject limit_offset_inject0 fmt_d_not_s)
qed


section \<open>The bypass of the cache at the HTTP boundary\<close>

lemma redis_on_db: "on_db f w = (r, w') \<Longrightarrow> redis w' = redis w"
  by (auto simp add: on_db_def split: prod.splits)

lemma selectUsecase_both: "selectUsecase (NewPostHandlerV2 u u) b = u"
  by (simp add: selectUsecase_def NewPostHandlerV2_def)

lemma PostHandlerV2_selects:
  "PostHandlerV2_GetPosts h page pageSize b w =
     PostHandlerV2_GetPosts (NewPostHandlerV2 (selectUsecase h b) (selectUsecase h b)) page pageSize b w"
  "PostHandlerV2_GetPostByID h postID b w =
     PostHandlerV2_GetPostByID (NewPostHandlerV2 (selectUsecase h b) (selectUsecase h b)) postID b w"
  "PostHandlerV2_GetPostBySlug h slug b w =
     PostHandlerV2_GetPostBySlug (NewPostHandlerV2 (selectUsecase h b) (selectUsecase h b)) slug b w"
  "PostHandlerV2_GetPostsByCategory h slug page pageSize b w =
     PostHandlerV2_GetPostsByCategory (NewPostHandlerV2 (selectUsecase h b) (selectUsecase h b))
       slug page pageSize b w"
  "PostHandlerV2_GetPostsByTag h slug page pageSize b w =
     PostHandlerV2_GetPostsByTag (NewPostHandlerV2 (selectUsecase h b) (selectUsecase h b))
       slug page pageSize b w"
  "PostHandlerV2_GetFeaturedPosts h limit b w =
     PostHandlerV2_GetFeaturedPosts (NewPostHandlerV2 (selectUsecase h b) (selectUsecase h b)) limit b w"
  by (simp_all only: PostHandlerV2_GetPosts_def PostHandlerV2_GetPostByID_def
      PostHandlerV2_GetPostBySlug_def PostHandlerV2_GetPostsByCategory_def
      PostHandlerV2_GetPostsByTag_def PostHandlerV2_GetFeaturedPosts_def selectUsecase_both)

lemma serve_post_selects:
  "serve_post route h c w =
     serve_post route
       (NewPostHandlerV2 (selectUsecase h (parseNoCache c)) (selectUsecase h (parseNoCache c))) c w"
proof (cases route)
  case Route_posts
  then show ?thesis
    by (simp only: serve_post_def post_route.case PostHandlerBridge_GetPosts_def Let_def
        PostHandlerV2_selects(1)[of h])
next
  case Route_posts_featured
  then show ?thesis
    by (simp only: serve_post_def post_route.case PostHandlerBridge_GetFeaturedPosts_def Let_def
        PostHandlerV2_selects(6)[of h])
next
  case Route_posts_id
  then show ?thesis
    by (simp only: serve_post_def post_route.case PostHandlerBridge_GetPostByID_def Let_def
        PostHandlerV2_selects(2)[of h])
next
  case Route_posts_slug
  then show ?thesis
    by (simp only: serve_post_def post_route.case PostHandlerBridge_GetPostBySlug_def Let_def
        PostHandlerV2_selects(3)[of h])
next
  case Route_posts_category
  then show ?thesis
    by (simp only: serve_post_def post_route.case PostHandlerBridge_GetPostsByCategory_def Let_def
        PostHandlerV2_selects(4)[of h])
next
  case Route_posts_tag
  then show ?thesis
    by (simp only: serve_post_def post_route.case PostHandlerBridge_GetPostsByTag_def Let_def
        PostHandlerV2_selects(5)[of h])
qed

lemma base_post_calls:
  "FindAllWithDetails (basePostRepo impl) l off w = (r1, w') \<Longrightarrow> redis w' = redis w"
  "FindByIDWithDetails (basePostRepo impl) i w = (r2, w') \<Longrightarrow> redis w' = redis w"
  "FindBySlugWithDetails (basePostRepo impl) s w = (r2, w') \<Longrightarrow> redis w' = redis w"
  "FindByCategoryWithDetails (basePostRepo impl) s l off w = (r1, w') \<Longrightarrow> redis w' = redis w"
  "FindByTagWithDetails (basePostRepo impl) s l off w = (r1, w') \<Longrightarrow> redis w' = redis w"
  "FindFeaturedWithDetails (basePostRepo impl) l w = (r1, w') \<Longrightarrow> redis w' = redis w"
  "GetTotalCount (basePostRepo impl) w = (r3, w') \<Longrightarrow> redis w' = redis w"
  "IncrementViewCount (basePostRepo impl) i w = (r4, w') \<Longrightarrow> redis w' = redis w"
  by (simp_all add: basePostRepo_def redis_on_db)

lemma increment_redis:
  "redis (snd (IncrementViewCount (basePostRepo impl) i v)) = redis v"
  by (rule base_post_calls(8)[OF prod.collapse[symmetric]])

lemma increment_off_cache:
  "off_cache (\<lambda>v. Some (snd (IncrementViewCount (basePostRepo impl) i v)))"
  unfolding off_cache_def
  by (simp add: increment_redis)

lemma direct_GetPosts:
  "GetPosts (basePostRepo impl) page pageSize w = (r, w') \<Longrightarrow> redis w' = redis w"
  unfolding GetPosts_def Let_def
  by (auto split: prod.splits sum.splits dest!: base_post_calls)

lemma direct_GetPostByID:
  "GetPostByID (basePostRepo impl) i w = ((r, started), w') \<Longrightarrow>
     redis w' = redis w \<and> list_all off_cache started"
  unfolding GetPostByID_def Let_def
  by (auto split: prod.splits sum.splits if_splits dest!: base_post_calls
      simp add: increment_off_cache)

lemma direct_GetPostBySlug:
  "GetPostBySlug (basePostRepo impl) s w = ((r, started), w') \<Longrightarrow>
     redis w' = redis w \<and> list_all off_cache started"
  unfolding GetPostBySlug_def Let_def
  by (auto split: prod.splits sum.splits if_splits option.splits dest!: base_post_calls
      simp add: off_cache_def increment_redis)

lemma direct_GetPostsByCategory:
  "GetPostsByCategory (basePostRepo impl) s page pageSize w = (r, w') \<Longrightarrow> redis w' = redis w"
  unfolding GetPostsByCategory_def Let_def
  by (auto split: prod.splits sum.splits if_splits dest!: base_post_calls)

lemma direct_GetPostsByTag:
  "GetPostsByTag (basePostRepo impl) s page pageSize w = (r, w') \<Longrightarrow> redis w' = redis w"
  unfolding GetPostsByTag_def Let_def
  by (auto split: prod.splits sum.splits if_splits dest!: base_post_calls)

lemma direct_GetFeaturedPosts:
  "GetFeaturedPosts (basePostRepo impl) l w = (r, w') \<Longrightarrow> redis w' = redis w"
  unfolding GetFeaturedPosts_def Let_def
  by (auto split: prod.splits sum.splits if_splits dest!: base_post_calls)

lemma direct_route_off_cache:
  assumes "serve_post route (NewPostHandlerV2 (basePostRepo impl) (basePostRepo impl)) c w
             = ((resp, started), w')"
  shows "redis w' = redis w \<and> list_all off_cache started"
proof (cases route)
  case Route_posts
  with assms show ?thesis
    by (auto simp add: serve_post_def PostHandlerBridge_GetPosts_def PostHandlerV2_GetPosts_def
        selectUsecase_both Let_def split: prod.splits sum.splits dest!: direct_GetPosts)
next
  case Route_posts_featured
  with assms show ?thesis
    by (auto simp add: serve_post_def PostHandlerBridge_GetFeaturedPosts_def
        PostHandlerV2_GetFeaturedPosts_def selectUsecase_both Let_def
        split: prod.splits sum.splits dest!: direct_GetFeaturedPosts)
next
  case Route_posts_id
  with assms show ?thesis
    by (auto simp add: serve_post_def PostHandlerBridge_GetPostByID_def
        PostHandlerV2_GetPostByID_def selectUsecase_both Let_def
        split: prod.splits sum.splits option.splits dest!: direct_GetPostByID)
next
  case Route_posts_slug
  with assms show ?thesis
    by (auto simp add: serve_post_def PostHandlerBridge_GetPostBySlug_def
        PostHandlerV2_GetPostBySlug_def selectUsecase_both Let_def
        split: prod.splits sum.splits if_splits dest!: direct_GetPostBySlug)
next
  case Route_posts_category
  with assms show ?thesis
    by (auto simp add: serve_post_def PostHandlerBridge_GetPostsByCategory_def
        PostHandlerV2_GetPostsByCategory_def selectUsecase_both Let_def
        split: prod.splits sum.splits if_splits dest!: direct_GetPostsByCategory)
next
  case Route_posts_tag
  with assms show ?thesis
    by (auto simp add: serve_post_def PostHandlerBridge_GetPostsByTag_def
        PostHandlerV2_GetPostsByTag_def selectUsecase_both Let_def
        split: prod.splits sum.splits if_splits dest!: direct_GetPostsByTag)
qed

lemma base_user_calls:
  "FindAll (baseUserRepo impl) w = (r1, w') \<Longrightarrow> redis w' = redis w"
  "FindByID (baseUserRepo impl) i w = (r2, w') \<Longrightarrow> redis w' = redis w"
  "Create (baseUserRepo impl) u w = (r3, w') \<Longrightarrow> redis w' = redis w"
  "Update (baseUserRepo impl) u w = (r3, w') \<Longrightarrow> redis w' = redis w"
  "Delete (baseUserRepo impl) i w = (r4, w') \<Longrightarrow> redis w' = redis w"
  by (simp_all add: baseUserRepo_def redis_on_db)

lemma direct_user_reads:
  "redis (snd (UserHandlerV2_GetUsers (NewUserHandlerV2 (baseUserRepo impl) (baseUserRepo impl)) flag w))
     = redis w"
  "redis (snd (UserHandlerV2_GetUserById (NewUserHandlerV2 (baseUserRepo impl) (baseUserRepo impl))
                 uid flag w)) = redis w"
  "redis (snd (UserHandler_GetUsers (NewUserHandler (baseUserRepo impl) (baseUserRepo impl)) c w))
     = redis w"
  "redis (snd (UserHandler_GetUserById (NewUserHandler (baseUserRepo impl) (baseUserRepo impl))
                 c uid w)) = redis w"
  by (auto simp add: UserHandlerV2_GetUsers_def UserHandlerV2_GetUserById_def
      UserHandler_GetUsers_def UserHandler_GetUserById_def UserHandler_selectUsecase_def
      NewUserHandlerV2_def NewUserHandler_def GetAllUsers_def GetUserByID_def Let_def
      split: prod.splits sum.splits option.splits dest!: base_user_calls)

lemma user_detail_off_cache:
  "redis (snd (UserDetailHandlerBridge_GetUserDetailByID (main_userDetailUsecase impl) c w)) = redis w"
  "redis (snd (UserDetailHandlerBridge_GetUserDetailByUsername (main_userDetailUsecase impl) c w))
     = redis w"
  by (auto simp add: UserDetailHandlerBridge_GetUserDetailByID_def
      UserDetailHandlerBridge_GetUserDetailByUsername_def UserDetailHandlerV2_GetUserDetailByID_def
      UserDetailHandlerV2_GetUserDetailByUsername_def main_userDetailUsecase_def
      NewUserDetailUsecase_def baseUserDetailRepo_def GetUserDetailByID_def
      GetUserDetailByUsername_def Let_def
      split: prod.splits sum.splits option.splits dest!: redis_on_db)

lemma user_reads_select:
  "UserHandlerV2_GetUsers h flag w =
     UserHandlerV2_GetUsers
       (NewUserHandlerV2 (if flag = Some True then directUserUsecase h else userUsecase h)
                         (if flag = Some True then directUserUsecase h else userUsecase h)) flag w"
  "UserHandlerV2_GetUserById h uid flag w =
     UserHandlerV2_GetUserById
       (NewUserHandlerV2 (if flag = Some True then directUserUsecase h else userUsecase h)
                         (if flag = Some True then directUserUsecase h else userUsecase h)) uid flag w"
  "UserHandler_GetUsers g c w =
     UserHandler_GetUsers (NewUserHandler (UserHandler_selectUsecase g c)
                                          (UserHandler_selectUsecase g c)) c w"
  "UserHandler_GetUserById g c uid w =
     UserHandler_GetUserById (NewUserHandler (UserHandler_selectUsecase g c)
                                             (UserHandler_selectUsecase g c)) c uid w"
  by (simp_all add: UserHandlerV2_GetUsers_def UserHandlerV2_GetUserById_def
      UserHandler_GetUsers_def UserHandler_GetUserById_def UserHandler_selectUsecase_def
      NewUserHandlerV2_def NewUserHandler_def Let_def)

lemma main_handlers:
  "postUsecase (main_postHandlerV2 m) = cachedPostRepo (cachedPostRepository_of m)"
  "directPostUsecase (main_postHandlerV2 m) = basePostRepo (mysqlPosts m)"
  "userUsecase (main_userHandlerV2 m) = cachedUserRepo (cachedUserRepository_of m)"
  "directUserUsecase (main_userHandlerV2 m) = baseUserRepo (mysqlUsers m)"
  "handler_userUsecase (main_userHandler m) = cachedUserRepo (cachedUserRepository_of m)"
  "handler_directUserUsecase (main_userHandler m) = baseUserRepo (mysqlUsers m)"
  by (simp_all add: main_postHandlerV2_def main_userHandlerV2_def main_userHandler_def
      NewPostHandlerV2_def NewUserHandlerV2_def NewUserHandler_def NewPostUsecase_def
      NewUserUsecase_def)

lemmas handler_defs =
  serve_post_def PostHandlerBridge_GetPostByID_def PostHandlerV2_GetPostByID_def
  ParseInt_def ParseUint_def digit_value_def digit_def Param_def QueryParam_def parseNoCache_def
  selectUsecase_def main_handlers GetPostByID_def basePostRepo_def on_db_def Let_def
  word_sle_eq

lemma PostHandler_selectUsecase_both: "PostHandler_selectUsecase (NewPostHandler u u) c = u"
  by (simp add: PostHandler_selectUsecase_def NewPostHandler_def Let_def)

lemma PostHandler_selectUsecase_parse:
  "PostHandler_selectUsecase h c =
     (if parseNoCache c then handler_directPostUsecase h else handler_postUsecase h)"
  by (simp add: PostHandler_selectUsecase_def parseNoCache_def Let_def)

lemma serve_PostHandler_one:
  "serve_PostHandler route h c w = serve_PostHandler1 route (PostHandler_selectUsecase h c) c w"
  by (cases route)
    (simp_all only: serve_PostHandler_def serve_PostHandler1_def post_route.case
      PostHandler_GetPosts_def PostHandler_GetPostByID_def PostHandler_GetPostBySlug_def
      PostHandler_GetPostsByCategory_def PostHandler_GetPostsByTag_def
      PostHandler_GetFeaturedPosts_def PostHandler1_GetPosts_def PostHandler1_GetPostByID_def
      PostHandler1_GetPostBySlug_def PostHandler1_GetPostsByCategory_def
      PostHandler1_GetPostsByTag_def PostHandler1_GetFeaturedPosts_def Let_def)

lemma serve_post_one:
  "serve_post route h c w = serve_PostHandler1 route (selectUsecase h (parseNoCache c)) c w"
  by (cases route)
    (simp_all only: serve_post_def serve_PostHandler1_def post_route.case
      PostHandlerBridge_GetPosts_def PostHandlerBridge_GetPostByID_def
      PostHandlerBridge_GetPostBySlug_def PostHandlerBridge_GetPostsByCategory_def
      PostHandlerBridge_GetPostsByTag_def PostHandlerBridge_GetFeaturedPosts_def
      PostHandlerV2_GetPosts_def PostHandlerV2_GetPostByID_def PostHandlerV2_GetPostBySlug_def
      PostHandlerV2_GetPostsByCategory_def PostHandlerV2_GetPostsByTag_def
      PostHandlerV2_GetFeaturedPosts_def PostHandler1_GetPosts_def PostHandler1_GetPostByID_def
      PostHandler1_GetPostBySlug_def PostHandler1_GetPostsByCategory_def
      PostHandler1_GetPostsByTag_def PostHandler1_GetFeaturedPosts_def Let_def)

lemma QueryParam_with_no_cache:
  "name \<noteq> ''no_cache'' \<Longrightarrow> QueryParam (with_no_cache v c) name = QueryParam c name"
  "Param (with_no_cache v c) name = Param c name"
  by (simp_all add: QueryParam_def Param_def with_no_cache_def)

lemma serve_PostHandler1_ignores:
  "serve_PostHandler1 route usecase (with_no_cache v c) w = serve_PostHandler1 route usecase c w"
  by (cases route)
    (simp_all add: serve_PostHandler1_def PostHandler1_GetPosts_def PostHandler1_GetPostByID_def
      PostHandler1_GetPostBySlug_def PostHandler1_GetPostsByCategory_def
      PostHandler1_GetPostsByTag_def PostHandler1_GetFeaturedPosts_def QueryParam_with_no_cache
      Let_def)

lemma bind_NoCache_parse: "bind_NoCache c = Some True \<longleftrightarrow> parseNoCache c"
  by (simp add: bind_NoCache_def parseNoCache_def QueryParam_def Let_def split: option.splits)


lemma main_post_usecases:
  "handler_postUsecase (main_postHandler m) = cachedPostRepo (cachedPostRepository_of m)"
  "handler_directPostUsecase (main_postHandler m) = basePostRepo (mysqlPosts m)"
  "main1_postUsecase m = cachedPostRepo (cachedPostRepository_of m)"
  "main1_userUsecase m = cachedUserRepo (cachedUserRepository_of m)"
  by (simp_all add: main_postHandler_def NewPostHandler_def NewPostUsecase_def
      main1_postUsecase_def main1_userUsecase_def NewUserUsecase_def)

lemma direct_one_off_cache:
  assumes "serve_PostHandler1 route (basePostRepo impl) c w = ((resp, started), w')"
  shows "redis w' = redis w \<and> list_all off_cache started"
proof -
  have "serve_post route (NewPostHandlerV2 (basePostRepo impl) (basePostRepo impl)) c w
      = ((resp, started), w')"
    using assms by (simp add: serve_post_one selectUsecase_both)
  then show ?thesis
    by (rule direct_route_off_cache)
qed

lemma user_detail_ignore:
  "UserDetailHandler_GetUserDetailByID du (with_no_cache v c) w
     = UserDetailHandler_GetUserDetailByID du c w"
  "UserDetailHandler_GetUserDetailByUsername du (with_no_cache v c) w
     = UserDetailHandler_GetUserDetailByUsername du c w"
  "UserDetailHandlerBridge_GetUserDetailByID du (with_no_cache v c) w
     = UserDetailHandlerBridge_GetUserDetailByID du c w"
  "UserDetailHandlerBridge_GetUserDetailByUsername du (with_no_cache v c) w
     = UserDetailHandlerBridge_GetUserDetailByUsername du c w"
  by (simp_all add: UserDetailHandler_GetUserDetailByID_def
      UserDetailHandler_GetUserDetailByUsername_def UserDetailHandlerBridge_GetUserDetailByID_def
      UserDetailHandlerBridge_GetUserDetailByUsername_def QueryParam_with_no_cache Let_def)

lemma user_detail_same:
  "UserDetailHandler_GetUserDetailByID du c w = UserDetailHandlerBridge_GetUserDetailByID du c w"
  "UserDetailHandler_GetUserDetailByUsername du c w
     = UserDetailHandlerBridge_GetUserDetailByUsername du c w"
  by (simp_all add: UserDetailHandler_GetUserDetailByID_def
      UserDetailHandler_GetUserDetailByUsername_def UserDetailHandlerBridge_GetUserDetailByID_def
      UserDetailHandlerBridge_GetUserDetailByUsername_def
      UserDetailHandlerV2_GetUserDetailByID_def UserDetailHandlerV2_GetUserDetailByUsername_def
      Let_def split: prod.splits option.splits)

lemma wrapper_selects:
  "ServerInterfaceWrapper_GetUsers h c w =
     ServerInterfaceWrapper_GetUsers
       (NewUserHandlerV2 (if parseNoCache c then directUserUsecase h else userUsecase h)
                         (if parseNoCache c then directUserUsecase h else userUsecase h)) c w"
  "ServerInterfaceWrapper_GetUserById h c uid w =
     ServerInterfaceWrapper_GetUserById
       (NewUserHandlerV2 (if parseNoCache c then directUserUsecase h else userUsecase h)
                         (if parseNoCache c then directUserUsecase h else userUsecase h)) c uid w"
  unfolding ServerInterfaceWrapper_GetUsers_def ServerInterfaceWrapper_GetUserById_def
    UserHandlerBridge_GetUsers_def UserHandlerBridge_GetUserById_def
  by (subst user_reads_select, simp add: bind_NoCache_parse)+

lemma wrapper_direct:
  "redis (snd (ServerInterfaceWrapper_GetUsers
                 (NewUserHandlerV2 (baseUserRepo impl) (baseUserRepo impl)) c w)) = redis w"
  "redis (snd (ServerInterfaceWrapper_GetUserById
                 (NewUserHandlerV2 (baseUserRepo impl) (baseUserRepo impl)) c uid w)) = redis w"
  by (simp_all add: ServerInterfaceWrapper_GetUsers_def ServerInterfaceWrapper_GetUserById_def
      UserHandlerBridge_GetUsers_def UserHandlerBridge_GetUserById_def direct_user_reads)


text \<open>
  C7, as stated, speaks of every read endpoint. It fails on the read endpoints of the
  handlers that hold one usecase. The user-detail endpoints of \<^verbatim>\<open>main.go\<close> have the
  usecase over the relational repository: a request for the details of user 1 without
  \<^verbatim>\<open>no_cache\<close> is answered from the database, and so is the next one; no command goes to
  the cache store. The post and user handlers of the first generation, which the earlier
  \<^verbatim>\<open>main\<close> builds with the usecase over the decorator, answer
  \<^verbatim>\<open>GET /posts/1?no_cache=true\<close> and \<^verbatim>\<open>GET /users?no_cache=true\<close> from the cache store:
  one command is sent to it and the repository is not called.
\<close>

theorem single_usecase_handlers_have_no_bypass:
  "QueryParam \<lparr>query = [], path = [(''id'', ''1'')]\<rparr> ''no_cache'' = []
   \<and> UserDetailHandlerBridge_GetUserDetailByID (main_userDetailUsecase memoryUserDetails)
        \<lparr>query = [], path = [(''id'', ''1'')]\<rparr> example_world
       = (JSON 200 (UserDetailBody (Some (detail_of alice))), example_world\<lparr>db_calls := 1\<rparr>)
   \<and> UserDetailHandlerBridge_GetUserDetailByID (main_userDetailUsecase memoryUserDetails)
        \<lparr>query = [], path = [(''id'', ''1'')]\<rparr> (example_world\<lparr>db_calls := 1\<rparr>)
       = (JSON 200 (UserDetailBody (Some (detail_of alice))), example_world\<lparr>db_calls := 2\<rparr>)
   \<and> QueryParam \<lparr>query = [(''no_cache'', ''true'')], path = [(''id'', ''1'')]\<rparr> ''no_cache''
       = ''true''
   \<and> fst (fst (serve_PostHandler1 Route_posts_id (main1_postUsecase example_wiring)
                  \<lparr>query = [(''no_cache'', ''true'')], path = [(''id'', ''1'')]\<rparr> listed_world))
       = JSON 200 (PostBody (Some hello))
   \<and> snd (serve_PostHandler1 Route_posts_id (main1_postUsecase example_wiring)
             \<lparr>query = [(''no_cache'', ''true'')], path = [(''id'', ''1'')]\<rparr> listed_world)
       = listed_world\<lparr>redis := sent (redis listed_world)\<rparr>
   \<and> UserHandler1_GetUsers (main1_userUsecase example_wiring)
        \<lparr>query = [(''no_cache'', ''true'')], path = []\<rparr> listed_world
       = (JSON 200 (UsersBody [alice]), listed_world\<lparr>redis := sent (redis listed_world)\<rparr>)
   \<and> commands (sent (redis listed_world)) = commands (redis listed_world) + 1"
proof -
  have detail: "UserDetailHandlerBridge_GetUserDetailByID (main_userDetailUsecase memoryUserDetails)
        \<lparr>query = [], path = [(''id'', ''1'')]\<rparr> (example_world\<lparr>db_calls := n\<rparr>)
       = (JSON 200 (UserDetailBody (Some (detail_of alice))), example_world\<lparr>db_calls := n + 1\<rparr>)"
    for n
    by (simp add: UserDetailHandlerBridge_GetUserDetailByID_def
      UserDetailHandlerV2_GetUserDetailByID_def main_userDetailUsecase_def NewUserDetailUsecase_def
      baseUserDetailRepo_def GetUserDetailByID_def memoryUserDetails_def on_db_def
      ParseInt_def ParseUint_def digit_value_def digit_def Param_def QueryParam_def example_world_def alice_def)
  have post: "serve_PostHandler1 Route_posts_id (main1_postUsecase example_wiring)
             \<lparr>query = [(''no_cache'', ''true'')], path = [(''id'', ''1'')]\<rparr> listed_world
       = ((JSON 200 (PostBody (Some hello)),
           [\<lambda>v. Some (snd (IncrementViewCount (main1_postUsecase example_wiring) 1 v))]),
          listed_world\<lparr>redis := sent (redis listed_world)\<rparr>)"
    by (simp add: serve_PostHandler1_def PostHandler1_GetPostByID_def ParseInt_def ParseUint_def
        digit_value_def digit_def Param_def GetPostByID_def main_post_usecases(3)
        cachedPostRepo_def cachedPost_FindByIDWithDetails_def cachedPostRepository_of_def
        NewCachedPostRepository_def getPostCacheKey_1 on_redis_def redis_Get_def lookup_def
        listed_world_def example_redis_def example_wiring_def table_json_def Minute_def
        sent_def word_sle_eq Let_def)
  have users: "UserHandler1_GetUsers (main1_userUsecase example_wiring)
        \<lparr>query = [(''no_cache'', ''true'')], path = []\<rparr> listed_world
       = (JSON 200 (UsersBody [alice]), listed_world\<lparr>redis := sent (redis listed_world)\<rparr>)"
    by (simp add: UserHandler1_GetUsers_def GetAllUsers_def main_post_usecases(4)
        cachedUserRepo_def cachedUser_FindAll_def cachedUserRepository_of_def
        NewCachedUserRepository_def on_redis_def redis_Get_def lookup_def
        listed_world_def example_redis_def example_wiring_def table_json_def Minute_def
        sent_def Let_def)
  have q: "QueryParam \<lparr>query = [], path = [(''id'', ''1'')]\<rparr> ''no_cache'' = []"
    "QueryParam \<lparr>query = [(''no_cache'', ''true'')], path = [(''id'', ''1'')]\<rparr> ''no_cache''
       = ''true''"
    by (simp_all add: QueryParam_def)
  have d0: "example_world\<lparr>db_calls := 0\<rparr> = example_world"
    by (simp add: example_world_def)
  from detail[of 0] detail[of 1] q post users show ?thesis
    by (simp add: d0 sent_def)
qed


text \<open>
  C7, amended. On the read endpoints of the handlers that hold both usecases (the six
  post routes through \<^verbatim>\<open>PostHandlerBridge\<close> and \<^verbatim>\<open>PostHandlerV2\<close>, the six post routes
  of \<^verbatim>\<open>PostHandler\<close> with two usecases, the two user reads of \<^verbatim>\<open>UserHandler\<close> with two
  usecases, and the two user reads of \<^verbatim>\<open>UserHandlerV2\<close> behind the generated binding)
  the handler serves the request with the direct usecase when the query parameter
  \<^verbatim>\<open>no_cache\<close> is the string \<^verbatim>\<open>true\<close> or the string \<^verbatim>\<open>1\<close>, and with the cache-backed
  usecase for any other value and when it is absent. A read served with the bypass leaves
  the cache store untouched, the goroutines it starts included. The handlers that hold
  one usecase serve a request the same way whatever \<^verbatim>\<open>no_cache\<close> is put in it, and the
  user-detail handlers over the repository that \<^verbatim>\<open>main.go\<close> gives them never touch the
  cache store.
\<close>

theorem cache_bypass_selection:
  "(parseNoCache c \<longleftrightarrow> QueryParam c ''no_cache'' = ''true'' \<or> QueryParam c ''no_cache'' = ''1'')
   \<and> serve_post route (main_postHandlerV2 m) c w =
       serve_post route
         (if parseNoCache c
          then NewPostHandlerV2 (basePostRepo (mysqlPosts m)) (basePostRepo (mysqlPosts m))
          else NewPostHandlerV2 (cachedPostRepo (cachedPostRepository_of m))
                 (cachedPostRepo (cachedPostRepository_of m))) c w
   \<and> (parseNoCache c \<longrightarrow>
        redis (snd (serve_post route (main_postHandlerV2 m) c w)) = redis w
        \<and> list_all off_cache (snd (fst (serve_post route (main_postHandlerV2 m) c w))))
   \<and> serve_PostHandler route (main_postHandler m) c w =
       serve_PostHandler route
         (if parseNoCache c
          then NewPostHandler (basePostRepo (mysqlPosts m)) (basePostRepo (mysqlPosts m))
          else NewPostHandler (cachedPostRepo (cachedPostRepository_of m))
                 (cachedPostRepo (cachedPostRepository_of m))) c w
   \<and> (parseNoCache c \<longrightarrow>
        redis (snd (serve_PostHandler route (main_postHandler m) c w)) = redis w
        \<and> list_all off_cache (snd (fst (serve_PostHandler route (main_postHandler m) c w))))
   \<and> UserHandler_GetUsers (main_userHandler m) c w =
       UserHandler_GetUsers
         (if parseNoCache c
          then NewUserHandler (baseUserRepo (mysqlUsers m)) (baseUserRepo (mysqlUsers m))
          else NewUserHandler (cachedUserRepo (cachedUserRepository_of m))
                 (cachedUserRepo (cachedUserRepository_of m))) c w
   \<and> UserHandler_GetUserById (main_userHandler m) c uid w =
       UserHandler_GetUserById
         (if parseNoCache c
          then NewUserHandler (baseUserRepo (mysqlUsers m)) (baseUserRepo (mysqlUsers m))
          else NewUserHandler (cachedUserRepo (cachedUserRepository_of m))
                 (cachedUserRepo (cachedUserRepository_of m))) c uid w
   \<and> (parseNoCache c \<longrightarrow>
        redis (snd (UserHandler_GetUsers (main_userHandler m) c w)) = redis w
        \<and> redis (snd (UserHandler_GetUserById (main_userHandler m) c uid w)) = redis w)
   \<and> ServerInterfaceWrapper_GetUsers (main_userHandlerV2 m) c w =
       ServerInterfaceWrapper_GetUsers
         (if parseNoCache c
          then NewUserHandlerV2 (baseUserRepo (mysqlUsers m)) (baseUserRepo (mysqlUsers m))
          else NewUserHandlerV2 (cachedUserRepo (cachedUserRepository_of m))
                 (cachedUserRepo (cachedUserRepository_of m))) c w
   \<and> ServerInterfaceWrapper_GetUserById (main_userHandlerV2 m) c uid w =
       ServerInterfaceWrapper_GetUserById
         (if parseNoCache c
          then NewUserHandlerV2 (baseUserRepo (mysqlUsers m)) (baseUserRepo (mysqlUsers m))
          else NewUserHandlerV2 (cachedUserRepo (cachedUserRepository_of m))
                 (cachedUserRepo (cachedUserRepository_of m))) c uid w
   \<and> (parseNoCache c \<longrightarrow>
        redis (snd (ServerInterfaceWrapper_GetUsers (main_userHandlerV2 m) c w)) = redis w
        \<and> redis (snd (ServerInterfaceWrapper_GetUserById (main_userHandlerV2 m) c uid w)) = redis w)
   \<and> serve_PostHandler1 route pu (with_no_cache v c) w = serve_PostHandler1 route pu c w
   \<and> UserHandler1_GetUsers uu (with_no_cache v c) w = UserHandler1_GetUsers uu c w
   \<and> UserHandler1_GetUserById uu (with_no_cache v c) uid w = UserHandler1_GetUserById uu c uid w
   \<and> UserDetailHandler_GetUserDetailByID du (with_no_cache v c) w
       = UserDetailHandler_GetUserDetailByID du c w
   \<and> UserDetailHandler_GetUserDetailByUsername du (with_no_cache v c) w
       = UserDetailHandler_GetUserDetailByUsername du c w
   \<and> UserDetailHandlerBridge_GetUserDetailByID du (with_no_cache v c) w
       = UserDetailHandlerBridge_GetUserDetailByID du c w
   \<and> UserDetailHandlerBridge_GetUserDetailByUsername du (with_no_cache v c) w
       = UserDetailHandlerBridge_GetUserDetailByUsername du c w
   \<and> redis (snd (UserDetailHandlerBridge_GetUserDetailByID (main_userDetailUsecase impl) c w))
       = redis w
   \<and> redis (snd (UserDetailHandlerBridge_GetUserDetailByUsername (main_userDetailUsecase impl) c w))
       = redis w
   \<and> redis (snd (UserDetailHandler_GetUserDetailByID (main_userDetailUsecase impl) c w))
       = redis w
   \<and> redis (snd (UserDetailHandler_GetUserDetailByUsername (main_userDetailUsecase impl) c w))
       = redis w"
proof -
  have p: "parseNoCache c \<longleftrightarrow> QueryParam c ''no_cache'' = ''true'' \<or> QueryParam c ''no_cache'' = ''1''"
    by (simp add: parseNoCache_def Let_def)
  have sel: "UserHandler_selectUsecase (main_userHandler m) c =
      (if parseNoCache c then baseUserRepo (mysqlUsers m)
       else cachedUserRepo (cachedUserRepository_of m))"
    by (simp add: UserHandler_selectUsecase_def parseNoCache_def main_handlers Let_def)
  have posts: "serve_post route (main_postHandlerV2 m) c w =
       serve_post route
         (if parseNoCache c
          then NewPostHandlerV2 (basePostRepo (mysqlPosts m)) (basePostRepo (mysqlPosts m))
          else NewPostHandlerV2 (cachedPostRepo (cachedPostRepository_of m))
                 (cachedPostRepo (cachedPostRepository_of m))) c w"
    by (subst serve_post_selects) (simp add: selectUsecase_def main_handlers)
  have posts_off: "redis (snd (serve_post route (main_postHandlerV2 m) c w)) = redis w
        \<and> list_all off_cache (snd (fst (serve_post route (main_postHandlerV2 m) c w)))"
    if "parseNoCache c"
  proof -
    have "serve_post route (main_postHandlerV2 m) c w =
       serve_post route
         (NewPostHandlerV2 (basePostRepo (mysqlPosts m)) (basePostRepo (mysqlPosts m))) c w"
      using posts that by simp
    then show ?thesis
      using direct_route_off_cache[of route "mysqlPosts m" c w
          "fst (fst (serve_post route (main_postHandlerV2 m) c w))"
          "snd (fst (serve_post route (main_postHandlerV2 m) c w))"
          "snd (serve_post route (main_postHandlerV2 m) c w)"]
      by simp
  qed
  have ph: "serve_PostHandler route (main_postHandler m) c w =
       serve_PostHandler route
         (if parseNoCache c
          then NewPostHandler (basePostRepo (mysqlPosts m)) (basePostRepo (mysqlPosts m))
          else NewPostHandler (cachedPostRepo (cachedPostRepository_of m))
                 (cachedPostRepo (cachedPostRepository_of m))) c w"
    by (simp add: serve_PostHandler_one PostHandler_selectUsecase_parse main_post_usecases
        NewPostHandler_def)
  have ph_off: "redis (snd (serve_PostHandler route (main_postHandler m) c w)) = redis w
        \<and> list_all off_cache (snd (fst (serve_PostHandler route (main_postHandler m) c w)))"
    if "parseNoCache c"
  proof -
    have "serve_PostHandler route (main_postHandler m) c w =
       serve_PostHandler1 route (basePostRepo (mysqlPosts m)) c w"
      using that by (simp add: serve_PostHandler_one PostHandler_selectUsecase_parse
          main_post_usecases)
    then show ?thesis
      using direct_one_off_cache[of route "mysqlPosts m" c w
          "fst (fst (serve_PostHandler route (main_postHandler m) c w))"
          "snd (fst (serve_PostHandler route (main_postHandler m) c w))"
          "snd (serve_PostHandler route (main_postHandler m) c w)"]
      by simp
  qed
  have u1: "UserHandler_GetUsers (main_userHandler m) c w =
       UserHandler_GetUsers
         (if parseNoCache c
          then NewUserHandler (baseUserRepo (mysqlUsers m)) (baseUserRepo (mysqlUsers m))
          else NewUserHandler (cachedUserRepo (cachedUserRepository_of m))
                 (cachedUserRepo (cachedUserRepository_of m))) c w"
    by (subst user_reads_select(3)) (simp add: sel)
  have u2: "UserHandler_GetUserById (main_userHandler m) c uid w =
       UserHandler_GetUserById
         (if parseNoCache c
          then NewUserHandler (baseUserRepo (mysqlUsers m)) (baseUserRepo (mysqlUsers m))
          else NewUserHandler (cachedUserRepo (cachedUserRepository_of m))
                 (cachedUserRepo (cachedUserRepository_of m))) c uid w"
    by (subst user_reads_select(4)) (simp add: sel)
  have u_off: "redis (snd (UserHandler_GetUsers (main_userHandler m) c w)) = redis w
        \<and> redis (snd (UserHandler_GetUserById (main_userHandler m) c uid w)) = redis w"
    if "parseNoCache c"
    unfolding u1 u2 using that by (simp add: direct_user_reads)
  have v1: "ServerInterfaceWrapper_GetUsers (main_userHandlerV2 m) c w =
       ServerInterfaceWrapper_GetUsers
         (if parseNoCache c
          then NewUserHandlerV2 (baseUserRepo (mysqlUsers m)) (baseUserRepo (mysqlUsers m))
          else NewUserHandlerV2 (cachedUserRepo (cachedUserRepository_of m))
                 (cachedUserRepo (cachedUserRepository_of m))) c w"
    by (subst wrapper_selects(1)) (simp add: main_handlers)
  have v2: "ServerInterfaceWrapper_GetUserById (main_userHandlerV2 m) c uid w =
       ServerInterfaceWrapper_GetUserById
         (if parseNoCache c
          then NewUserHandlerV2 (baseUserRepo (mysqlUsers m)) (baseUserRepo (mysqlUsers m))
          else NewUserHandlerV2 (cachedUserRepo (cachedUserRepository_of m))
                 (cachedUserRepo (cachedUserRepository_of m))) c uid w"
    by (subst wrapper_selects(2)) (simp add: main_handlers)
  have v_off: "redis (snd (ServerInterfaceWrapper_GetUsers (main_userHandlerV2 m) c w)) = redis w
        \<and> redis (snd (ServerInterfaceWrapper_GetUserById (main_userHandlerV2 m) c uid w)) = redis w"
    if "parseNoCache c"
    unfolding v1 v2 using that by (simp add: wrapper_direct)
  have one: "UserHandler1_GetUsers uu (with_no_cache v c) w = UserHandler1_GetUsers uu c w"
    "UserHandler1_GetUserById uu (with_no_cache v c) uid w = UserHandler1_GetUserById uu c uid w"
    by (simp_all add: UserHandler1_GetUsers_def UserHandler1_GetUserById_def)
  have old_detail:
    "redis (snd (UserDetailHandler_GetUserDetailByID (main_userDetailUsecase impl) c w)) = redis w"
    "redis (snd (UserDetailHandler_GetUserDetailByUsername (main_userDetailUsecase impl) c w))
       = redis w"
    by (simp_all add: user_detail_same user_detail_off_cache)
  from p posts posts_off ph ph_off u1 u2 u_off v1 v2 v_off
    serve_PostHandler1_ignores[of route pu v c w] one user_detail_ignore[of du v c w]
    user_detail_off_cache[of impl c w] old_detail
  show ?thesis
    by (intro conjI impI) (assumption | simp)+
qed


theorem cache_bypass_selection_witness:
  "parseNoCache \<lparr>query = [(''no_cache'', ''true'')], path = [(''id'', ''1'')]\<rparr>
   \<and> fst (fst (serve_post Route_posts_id (main_postHandlerV2 example_wiring)
                  \<lparr>query = [(''no_cache'', ''true'')], path = [(''id'', ''1'')]\<rparr> listed_world))
       = JSON 200 (PostBody (Some hello))
   \<and> redis (snd (serve_post Route_posts_id (main_postHandlerV2 example_wiring)
                  \<lparr>query = [(''no_cache'', ''true'')], path = [(''id'', ''1'')]\<rparr> listed_world))
       = redis listed_world
   \<and> db_calls (snd (serve_post Route_posts_id (main_postHandlerV2 example_wiring)
                  \<lparr>query = [(''no_cache'', ''true'')], path = [(''id'', ''1'')]\<rparr> listed_world))
       = 1
   \<and> parseNoCache \<lparr>query = [(''no_cache'', ''1'')], path = []\<rparr>
   \<and> ServerInterfaceWrapper_GetUsers (main_userHandlerV2 example_wiring)
         \<lparr>query = [(''no_cache'', ''1'')], path = []\<rparr> listed_world
       = (JSON 200 (UsersBody [alice]), listed_world\<lparr>db_calls := 1\<rparr>)
   \<and> redis (snd (ServerInterfaceWrapper_GetUsers (main_userHandlerV2 example_wiring)
                  \<lparr>query = [(''no_cache'', ''1'')], path = []\<rparr> listed_world))
       = redis listed_world"
proof -
  let ?c = "\<lparr>query = [(''no_cache'', ''true'')], path = [(''id'', ''1'')]\<rparr>"
  let ?d = "\<lparr>query = [(''no_cache'', ''1'')], path = []\<rparr>"
  have flag: "parseNoCache ?c" "parseNoCache ?d"
    by (simp_all add: parseNoCache_def QueryParam_def)
  have resp: "fst (fst (serve_post Route_posts_id (main_postHandlerV2 example_wiring) ?c listed_world))
       = JSON 200 (PostBody (Some hello))"
    by (simp add: handler_defs listed_world_def example_wiring_def memoryPosts_def hello_def)
  have calls: "db_calls (snd (serve_post Route_posts_id (main_postHandlerV2 example_wiring) ?c
      listed_world)) = 1"
    by (simp add: handler_defs listed_world_def example_wiring_def memoryPosts_def hello_def)
  have users: "ServerInterfaceWrapper_GetUsers (main_userHandlerV2 example_wiring) ?d listed_world
       = (JSON 200 (UsersBody [alice]), listed_world\<lparr>db_calls := 1\<rparr>)"
    by (simp add: ServerInterfaceWrapper_GetUsers_def UserHandlerBridge_GetUsers_def
        bind_NoCache_def UserHandlerV2_GetUsers_def main_handlers GetAllUsers_def
        baseUserRepo_def on_db_def listed_world_def example_wiring_def memoryUsers_def)
  note all = cache_bypass_selection [where c = ?c and m = example_wiring and w = listed_world
          and route = Route_posts_id]
  have "parseNoCache ?c \<longrightarrow>
        redis (snd (serve_post Route_posts_id (main_postHandlerV2 example_wiring) ?c listed_world))
          = redis listed_world
        \<and> list_all off_cache
            (snd (fst (serve_post Route_posts_id (main_postHandlerV2 example_wiring) ?c listed_world)))"
    by (rule all [THEN conjunct2, THEN conjunct2, THEN conjunct1])
  with flag have posts: "redis (snd (serve_post Route_posts_id (main_postHandlerV2 example_wiring) ?c
      listed_world)) = redis listed_world"
    by simp
  have "parseNoCache ?d \<longrightarrow>
        redis (snd (ServerInterfaceWrapper_GetUsers (main_userHandlerV2 example_wiring) ?d
                      listed_world)) = redis listed_world
        \<and> redis (snd (ServerInterfaceWrapper_GetUserById (main_userHandlerV2 example_wiring) ?d 1
                      listed_world)) = redis listed_world"
    by (rule cache_bypass_selection [where c = ?d and m = example_wiring and w = listed_world
          and uid = 1, THEN conjunct2, THEN conjunct2, THEN conjunct2, THEN conjunct2,
          THEN conjunct2, THEN conjunct2, THEN conjunct2, THEN conjunct2, THEN conjunct2,
          THEN conjunct2, THEN conjunct1])
  with flag have wrapped: "redis (snd (ServerInterfaceWrapper_GetUsers
      (main_userHandlerV2 example_wiring) ?d listed_world)) = redis listed_world"
    by simp
  from flag resp posts calls users wrapped show ?thesis
    by (intro conjI)
qed

section \<open>Write endpoints and the bypass\<close>

lemma UserHandlerV2_writes_use_cache:
  "UserHandlerV2_CreateUser (main_userHandlerV2 m) bound w =
     UserHandlerV2_CreateUser
       (NewUserHandlerV2 (cachedUserRepo (cachedUserRepository_of m))
          (cachedUserRepo (cachedUserRepository_of m))) bound w"
  "UserHandlerV2_UpdateUser (main_userHandlerV2 m) uid bound' w =
     UserHandlerV2_UpdateUser
       (NewUserHandlerV2 (cachedUserRepo (cachedUserRepository_of m))
          (cachedUserRepo (cachedUserRepository_of m))) uid bound' w"
  "UserHandlerV2_DeleteUser (main_userHandlerV2 m) uid w =
     UserHandlerV2_DeleteUser
       (NewUserHandlerV2 (cachedUserRepo (cachedUserRepository_of m))
          (cachedUserRepo (cachedUserRepository_of m))) uid w"
  by (simp_all add: UserHandlerV2_CreateUser_def UserHandlerV2_UpdateUser_def
      UserHandlerV2_DeleteUser_def main_handlers NewUserHandlerV2_def Let_def
      split: sum.splits)

lemmas write_defs =
  UserHandler_CreateUser_def UserHandler_selectUsecase_def UserHandler_GetUsers_def
  UserHandlerV2_CreateUser_def QueryParam_def main_handlers CreateUser_def GetAllUsers_def
  baseUserRepo_def cachedUserRepo_def on_db_def on_redis_def Let_def zero_time_def
  listed_world_def example_redis_def example_wiring_def memoryUsers_def alice_def bob_def
  redis_Get_def redis_Del_def lookup_def sent_def table_json_def Minute_def

text \<open>
  C3. The write endpoints of \<^verbatim>\<open>UserHandlerV2\<close> take the cache-backed usecase whatever
  the request says (\<open>UserHandlerV2_writes_use_cache\<close>). The write endpoints of
  \<^verbatim>\<open>UserHandler\<close> take their usecase from \<^verbatim>\<open>selectUsecase\<close>: a \<^verbatim>\<open>POST /users\<close> with
  \<^verbatim>\<open>no_cache=true\<close> creates the user through the direct usecase, no command goes to the
  cache store, the entry under \<^verbatim>\<open>users:all\<close> stays and the next cached listing leaves
  the new user out. The same request on \<^verbatim>\<open>UserHandlerV2\<close> deletes the entry.
\<close>

theorem UserHandler_write_skips_invalidation:
  "UserHandler_CreateUser (main_userHandler example_wiring)
       \<lparr>query = [(''no_cache'', ''true'')], path = []\<rparr>
       (Inr \<lparr>req_Name = ''bob'', req_Email = ''bob@example.com'', req_Age = None\<rparr>) listed_world
     = (JSON 201 (UserBody bob),
        listed_world\<lparr>db := \<lparr>stored_users = [alice, bob], stored_posts = [hello], closed = False\<rparr>,
                      db_calls := 1\<rparr>)
   \<and> lookup (redis (listed_world\<lparr>db := \<lparr>stored_users = [alice, bob], stored_posts = [hello],
                                          closed = False\<rparr>, db_calls := 1\<rparr>)) ''users:all''
       = Some ''[{id:1,name:alice}]''
   \<and> fst (UserHandler_GetUsers (main_userHandler example_wiring) \<lparr>query = [], path = []\<rparr>
            (listed_world\<lparr>db := \<lparr>stored_users = [alice, bob], stored_posts = [hello],
                                     closed = False\<rparr>, db_calls := 1\<rparr>))
       = JSON 200 (UsersBody [alice])
   \<and> lookup (redis (snd (UserHandlerV2_CreateUser (main_userHandlerV2 example_wiring)
       (Inr \<lparr>req_Name = ''bob'', req_Email = ''bob@example.com'', req_Age = None\<rparr>) listed_world)))
       ''users:all'' = None"
proof -
  have legacy: "UserHandler_CreateUser (main_userHandler example_wiring)
       \<lparr>query = [(''no_cache'', ''true'')], path = []\<rparr>
       (Inr \<lparr>req_Name = ''bob'', req_Email = ''bob@example.com'', req_Age = None\<rparr>) listed_world
     = (JSON 201 (UserBody bob),
        listed_world\<lparr>db := \<lparr>stored_users = [alice, bob], stored_posts = [hello], closed = False\<rparr>,
                      db_calls := 1\<rparr>)"
    by (simp add: write_defs)
  have kept: "lookup (redis (listed_world\<lparr>db := \<lparr>stored_users = [alice, bob],
        stored_posts = [hello], closed = False\<rparr>, db_calls := 1\<rparr>)) ''users:all''
       = Some ''[{id:1,name:alice}]''"
    by (simp add: write_defs)
  have stale: "fst (UserHandler_GetUsers (main_userHandler example_wiring) \<lparr>query = [], path = []\<rparr>
            (listed_world\<lparr>db := \<lparr>stored_users = [alice, bob], stored_posts = [hello],
                                     closed = False\<rparr>, db_calls := 1\<rparr>))
       = JSON 200 (UsersBody [alice])"
    by (simp add: write_defs cachedUser_FindAll_def cachedUserRepository_of_def
        NewCachedUserRepository_def)
  have v2: "lookup (redis (snd (UserHandlerV2_CreateUser (main_userHandlerV2 example_wiring)
       (Inr \<lparr>req_Name = ''bob'', req_Email = ''bob@example.com'', req_Age = None\<rparr>) listed_world)))
       ''users:all'' = None"
    by (simp add: UserHandlerV2_CreateUser_def main_handlers CreateUser_def cachedUserRepo_def
        cachedUser_Create_cases Let_def zero_time_def)
      (simp add: write_defs)
  from legacy kept stale v2 show ?thesis
    by (intro conjI)
qed

end
